(* ===== verification/Prelude.thy ===== *)
theory Prelude
  imports Complex_Main
begin

text \<open>
  Shared vocabulary of the development: the Eigen matrices the dataflow nodes hold
  (\<open>Eigen::MatrixXd\<close>, \<open>VectorXd\<close>, \<open>RowVectorXd\<close>) as one record with explicit
  extents, the \<open>Dimension<MatrixXd>\<close> pairs the node constructors check, the
  linear-algebra operations the likelihood recursions use, the error-propagation
  combinator for results of type \<open>'e + 'a\<close>, and the generic lemmas on finite sums
  and lists that the component theories share.
\<close>

named_theorems cm_simps "unfolding rules of the construction monad"
named_theorems mat_simps "evaluation rules of the matrix operations"

section \<open>Eigen values and dimensions\<close>

text \<open>
  An Eigen matrix: its extents \<open>rows()\<close> and \<open>cols()\<close>, and its entries
  \<open>m(i, j)\<close>. A \<open>VectorXd\<close> has one column, a \<open>RowVectorXd\<close> one row.
  Entries outside the extents are never read by the models.
\<close>

record emat =
  erows :: nat
  ecols :: nat
  eget :: "nat \<Rightarrow> nat \<Rightarrow> real"

text \<open>\<open>Dimension<Eigen::MatrixXd>\<close>: the pair (rows, cols).\<close>

type_synonym dim = "nat \<times> nat"

definition emat_dim :: "emat \<Rightarrow> dim" where
  "emat_dim m = (erows m, ecols m)"

text \<open>A column vector as a function of the state index.\<close>

type_synonym vec = "nat \<Rightarrow> real"

definition col :: "emat \<Rightarrow> nat \<Rightarrow> vec" where
  "col m j = (\<lambda>i. eget m i j)"

definition mk_emat :: "nat \<Rightarrow> nat \<Rightarrow> (nat \<Rightarrow> nat \<Rightarrow> real) \<Rightarrow> emat" where
  "mk_emat r c f = \<lparr>erows = r, ecols = c, eget = f\<rparr>"

text \<open>\<open>VectorXd\<close> of length \<open>n\<close> and \<open>RowVectorXd\<close> of length \<open>n\<close>.\<close>

definition colvec :: "nat \<Rightarrow> vec \<Rightarrow> emat" where
  "colvec n v = mk_emat n 1 (\<lambda>i _. v i)"

definition rowvec :: "nat \<Rightarrow> vec \<Rightarrow> emat" where
  "rowvec n v = mk_emat 1 n (\<lambda>_ j. v j)"

text \<open>A matrix written as a list of rows, for concrete instances.\<close>

definition emat_of_rows :: "real list list \<Rightarrow> emat" where
  "emat_of_rows rs = mk_emat (length rs) (if rs = [] then 0 else length (hd rs)) (\<lambda>i j. rs ! i ! j)"

section \<open>Linear algebra over the first \<open>n\<close> states\<close>

text \<open>
  \<open>m.transpose() * v\<close>, \<open>m * v\<close> and \<open>v.cwiseProduct(w)\<close> restricted to the
  state range \<open>{..<n}\<close>, and the sum of a vector (\<open>v.sum()\<close>).
\<close>

definition tmat_vec :: "nat \<Rightarrow> (nat \<Rightarrow> nat \<Rightarrow> real) \<Rightarrow> vec \<Rightarrow> vec" where
  "tmat_vec n t v = (\<lambda>i. \<Sum>k<n. t k i * v k)"

definition mat_vec :: "nat \<Rightarrow> (nat \<Rightarrow> nat \<Rightarrow> real) \<Rightarrow> vec \<Rightarrow> vec" where
  "mat_vec n t v = (\<lambda>i. \<Sum>k<n. t i k * v k)"

definition cwise :: "vec \<Rightarrow> vec \<Rightarrow> vec" where
  "cwise v w = (\<lambda>i. v i * w i)"

definition vsum :: "nat \<Rightarrow> vec \<Rightarrow> real" where
  "vsum n v = (\<Sum>i<n. v i)"

declare tmat_vec_def [mat_simps] mat_vec_def [mat_simps] cwise_def [mat_simps] vsum_def [mat_simps]
  col_def [mat_simps] colvec_def [mat_simps] rowvec_def [mat_simps] mk_emat_def [mat_simps]
  emat_dim_def [mat_simps] emat_of_rows_def [mat_simps]

section \<open>Errors as values\<close>

text \<open>Sequencing of computations that may throw: the first exception is the result.\<close>

definition ebind :: "'e + 'a \<Rightarrow> ('a \<Rightarrow> 'e + 'b) \<Rightarrow> 'e + 'b" where
  "ebind r f = (case r of Inl e \<Rightarrow> Inl e | Inr x \<Rightarrow> f x)"

lemma ebind_Inl [simp]: "ebind (Inl e) f = Inl e"
  by (simp add: ebind_def)

lemma ebind_Inr [simp]: "ebind (Inr x) f = f x"
  by (simp add: ebind_def)

lemma ebind_eq_Inr: "ebind r f = Inr y \<longleftrightarrow> (\<exists>x. r = Inr x \<and> f x = Inr y)"
  by (cases r) simp_all

section \<open>Finite sums over states\<close>

text \<open>
  Exchanging the order of a double sum and pulling a factor through it: the two steps
  of every forward/backward argument.
\<close>

lemma sum_swap_mult:
  "(\<Sum>i<n. a i * (\<Sum>k<n. t i k * b k)) = (\<Sum>k<n. (\<Sum>i<n. a i * t i k) * (b k :: real))"
proof -
  have "(\<Sum>i<n. a i * (\<Sum>k<n. t i k * b k)) = (\<Sum>i<n. \<Sum>k<n. a i * t i k * b k)"
    by (simp add: sum_distrib_left mult.assoc)
  also have "\<dots> = (\<Sum>k<n. \<Sum>i<n. a i * t i k * b k)"
    by (rule sum.swap)
  also have "\<dots> = (\<Sum>k<n. (\<Sum>i<n. a i * t i k) * b k)"
    by (simp add: sum_distrib_right)
  finally show ?thesis .
qed

lemma sum_divide_const: "(\<Sum>i<n. f i / (c::real)) = (\<Sum>i<n. f i) / c"
  by (simp add: sum_divide_distrib)

lemma sum_normalised: "(s::real) = (\<Sum>i<n. a i) \<Longrightarrow> s \<noteq> 0 \<Longrightarrow> (\<Sum>i<n. a i / s) = 1"
  by (simp add: sum_divide_const)

section \<open>Lists\<close>

lemma sum_list_concat_map: "sum_list (concat (map f xs)) = (\<Sum>x\<leftarrow>xs. sum_list (f x))"
  by (induction xs) simp_all

lemma sum_list_map_upt: "(\<Sum>y\<leftarrow>[0..<n]. f y) = (\<Sum>y<n. (f y :: real))"
  by (simp add: sum_list_distinct_conv_sum_set atLeast0LessThan)

end
