(* ===== verification/Dataflow.thy ===== *)
theory Dataflow
  imports Prelude
begin

text \<open>
  The dataflow infrastructure the node classes of \<open>src/\<close> are built on
  (\<open>Bpp/Phyl/NewLikelihood/DataFlow/DataFlow.h\<close>, not part of the sources, so modelled from
  the specification, sections 3 and 4.1). Nodes live in an arena (\<open>heap\<close>, the objects
  \<open>std::make_shared\<close> allocates); the \<open>Context\<close> is the set of nodes registered by
  \<open>cachedAs\<close> (\<open>cache\<close>); a node reference is an address of the arena. A node's
  identity signature is its kind, its dependency addresses and its additional arguments.
  Construction code runs in a state-and-exception monad: an exception is a value
  \<open>Inl e\<close>, and the context reached before the throw is kept, as in C++.
\<close>

section \<open>Nodes and the context\<close>

text \<open>
  The dynamic value type of a node, as \<open>Value<T>\<close>; \<open>TObject\<close> for the configured
  objects (model, tree, frequency set) the likelihood builders are handed.
\<close>

datatype vtype = TDouble | TVectorXd | TRowVectorXd | TMatrixXd | TString | TSize | TObject

text \<open>The node classes the models construct.\<close>

datatype node_kind =
    NumericConstant
  | NumericMutable
  | CondLikelihood
  | ForwardHmmLikelihood
  | ForwardHmmDLikelihood
  | ForwardHmmD2Likelihood
  | BackwardHmmLikelihood
  | ConfiguredModel
  | ConfiguredPhyloTree
  | ConfiguredFrequenciesSet
  | TransitionMatrixFromModel
  | ForwardLikelihoodFromConditional
  | ConditionalLikelihoodFromChildrenForward
  | EquilibriumFrequenciesFromModel
  | FrequenciesFromFrequenciesSet
  | LikelihoodFromRootConditional
  | TotalLogLikelihood
  | CWiseNegate

text \<open>
  Additional arguments compared by \<open>compareAdditionalArguments\<close>: none, or the value of a
  constant; for a configured substitution model, the eigendecomposition its transition
  probabilities are computed from (right eigenvectors, eigenvalues, left eigenvectors,
  as rows) and its equilibrium frequencies.
\<close>

datatype payload = NoArgs | StrArg string | MatArg "real list list"
  | ModelArg "real list list" "real list" "real list list" "real list"

record node =
  kind :: node_kind
  deps :: "nat list"
  vty :: vtype
  vdim :: dim
  tdim :: dim
  payload :: payload
  owned :: "nat option"

record ctx =
  heap :: "node list"
  cache :: "nat list"

definition node_at :: "ctx \<Rightarrow> nat \<Rightarrow> node" where
  "node_at c a = heap c ! a"

text \<open>
  The identity signature: the dynamic type (class and value type, as \<open>typeid\<close>), the
  dependency addresses, the additional arguments.
\<close>

type_synonym node_key = "node_kind \<times> vtype \<times> nat list \<times> payload"

definition node_key :: "node \<Rightarrow> node_key" where
  "node_key n = (kind n, vty n, deps n, payload n)"

text \<open>A node: class, dependencies, value type, value extents, target dimension, arguments.\<close>

definition mk_node :: "node_kind \<Rightarrow> nat list \<Rightarrow> vtype \<Rightarrow> dim \<Rightarrow> dim \<Rightarrow> payload \<Rightarrow> node" where
  "mk_node k ds t vd td p =
     \<lparr>kind = k, deps = ds, vty = t, vdim = vd, tdim = td, payload = p, owned = None\<rparr>"

definition empty_context :: ctx where
  "empty_context = \<lparr>heap = [], cache = []\<rparr>"

text \<open>
  Well-formed context: registered nodes exist, every node depends only on nodes
  allocated before it (so the graph is acyclic), and no two registered nodes have the
  same identity signature.
\<close>

definition wf_context :: "ctx \<Rightarrow> bool" where
  "wf_context c \<longleftrightarrow>
     (\<forall>a\<in>set (cache c). a < length (heap c)) \<and>
     (\<forall>a<length (heap c). \<forall>d\<in>set (deps (heap c ! a)). d < a) \<and>
     distinct (map (\<lambda>a. node_key (heap c ! a)) (cache c))"

section \<open>Errors\<close>

text \<open>
  The exceptions of construction: the dependency checks of \<open>DataFlow.h\<close>,
  \<open>BadSizeException(text, badSize, correctSize)\<close>, and \<open>Exception(text)\<close>.
\<close>

datatype error =
    NullDependency string
  | DependencyCount string nat nat
  | DependencyType string nat vtype
  | DependencyKind string nat node_kind
  | BadSize string nat nat
  | Failure string

section \<open>The construction monad\<close>

type_synonym 'a cm = "ctx \<Rightarrow> ctx \<times> (error + 'a)"

definition creturn :: "'a \<Rightarrow> 'a cm" where
  "creturn x c = (c, Inr x)"

definition cthrow :: "error \<Rightarrow> 'a cm" where
  "cthrow e c = (c, Inl e)"

definition cbind :: "'a cm \<Rightarrow> ('a \<Rightarrow> 'b cm) \<Rightarrow> 'b cm" where
  "cbind m f c = (case m c of (c', Inl e) \<Rightarrow> (c', Inl e) | (c', Inr x) \<Rightarrow> f x c')"

definition cguard :: "bool \<Rightarrow> error \<Rightarrow> unit cm" where
  "cguard b e = (if b then creturn () else cthrow e)"

definition cget :: "(ctx \<Rightarrow> 'a) \<Rightarrow> 'a cm" where
  "cget f c = (c, Inr (f c))"

definition clift :: "error + 'a \<Rightarrow> 'a cm" where
  "clift r c = (c, r)"

text \<open>\<open>std::make_shared\<close>: a fresh node at the end of the arena.\<close>

definition calloc :: "node \<Rightarrow> nat cm" where
  "calloc n c = (c\<lparr>heap := heap c @ [n]\<rparr>, Inr (length (heap c)))"

text \<open>Storing the reference a node keeps to a node it built (\<open>condLik_ = ...\<close>).\<close>

definition cset_owned :: "nat \<Rightarrow> nat \<Rightarrow> unit cm" where
  "cset_owned a b c = (c\<lparr>heap := (heap c)[a := (heap c ! a)\<lparr>owned := Some b\<rparr>]\<rparr>, Inr ())"

text \<open>
  \<open>cachedAs(c, node)\<close>: the registered node with the same identity signature, if there
  is one (the new node is dropped), else the new node, registered.
\<close>

fun find_cached :: "node list \<Rightarrow> node_key \<Rightarrow> nat list \<Rightarrow> nat option" where
  "find_cached h k [] = None"
| "find_cached h k (a # as) = (if node_key (h ! a) = k then Some a else find_cached h k as)"

definition cachedAs :: "nat \<Rightarrow> nat cm" where
  "cachedAs a c =
     (case find_cached (heap c) (node_key (heap c ! a)) (cache c) of
        Some b \<Rightarrow> (c, Inr b)
      | None \<Rightarrow> (c\<lparr>cache := cache c @ [a]\<rparr>, Inr a))"

section \<open>Dependency checks\<close>

definition checkDependenciesNotNull :: "string \<Rightarrow> nat option list \<Rightarrow> nat list cm" where
  "checkDependenciesNotNull ty ds =
     cbind (cguard (None \<notin> set ds) (NullDependency ty)) (\<lambda>_. creturn (map the ds))"

definition checkDependencyVectorSize :: "string \<Rightarrow> nat list \<Rightarrow> nat \<Rightarrow> unit cm" where
  "checkDependencyVectorSize ty ds n = cguard (length ds = n) (DependencyCount ty n (length ds))"

definition checkNthDependencyIsValue :: "string \<Rightarrow> nat list \<Rightarrow> nat \<Rightarrow> vtype \<Rightarrow> unit cm" where
  "checkNthDependencyIsValue ty ds i t =
     cbind (cget (\<lambda>c. vty (node_at c (ds ! i)))) (\<lambda>t'. cguard (t' = t) (DependencyType ty i t))"

definition checkNthDependencyIs :: "string \<Rightarrow> nat list \<Rightarrow> nat \<Rightarrow> node_kind \<Rightarrow> unit cm" where
  "checkNthDependencyIs ty ds i k =
     cbind (cget (\<lambda>c. kind (node_at c (ds ! i)))) (\<lambda>k'. cguard (k' = k) (DependencyKind ty i k))"

section \<open>Constants\<close>

text \<open>\<open>NumericConstant<std::string>::create(c, s)\<close>: a leaf holding a string, shared by value.\<close>

definition NumericConstant_string_create :: "string \<Rightarrow> nat cm" where
  "NumericConstant_string_create s =
     cbind (calloc (mk_node NumericConstant [] TString (1, 1) (1, 1) (StrArg s))) cachedAs"

section \<open>Monad laws\<close>

lemma cbind_creturn [simp, cm_simps]: "cbind (creturn x) f = f x"
  by (simp add: cbind_def creturn_def fun_eq_iff)

lemma cbind_cthrow [simp, cm_simps]: "cbind (cthrow e) f = cthrow e"
  by (simp add: cbind_def cthrow_def fun_eq_iff)

lemma cbind_apply [cm_simps]:
  "cbind m f c = (case m c of (c', Inl e) \<Rightarrow> (c', Inl e) | (c', Inr x) \<Rightarrow> f x c')"
  by (simp add: cbind_def)

lemma cbind_assoc [cm_simps]: "cbind (cbind m f) g = cbind m (\<lambda>x. cbind (f x) g)"
  by (simp add: cbind_def fun_eq_iff split: prod.splits sum.splits)

lemma cbind_Inr:
  "cbind m f c = (c'', Inr x) \<longleftrightarrow> (\<exists>c' y. m c = (c', Inr y) \<and> f y c' = (c'', Inr x))"
  by (auto simp: cbind_def split: prod.splits sum.splits)

lemma cguard_True [simp, cm_simps]: "cguard True e = creturn ()"
  by (simp add: cguard_def)

lemma cguard_False [simp, cm_simps]: "cguard False e = cthrow e"
  by (simp add: cguard_def)

lemmas cm_unfold [cm_simps] = creturn_def cthrow_def cget_def clift_def calloc_def cset_owned_def

section \<open>Reasoning about construction: a Hoare judgement\<close>

text \<open>
  \<open>cvalid P m Q E\<close>: from a context satisfying \<open>P\<close>, \<open>m\<close> either returns \<open>x\<close>
  in a context satisfying \<open>Q x\<close> or throws \<open>e\<close> in a context satisfying \<open>E e\<close>.
  The rules below are in weakest-precondition form, one per primitive, so that the
  precondition of a whole construction is computed by applying them backwards.
\<close>

definition cvalid :: "(ctx \<Rightarrow> bool) \<Rightarrow> 'a cm \<Rightarrow> ('a \<Rightarrow> ctx \<Rightarrow> bool) \<Rightarrow> (error \<Rightarrow> ctx \<Rightarrow> bool) \<Rightarrow> bool" where
  "cvalid P m Q E \<longleftrightarrow> (\<forall>c. P c \<longrightarrow> (case m c of (c', Inl e) \<Rightarrow> E e c' | (c', Inr x) \<Rightarrow> Q x c'))"

lemma cvalidD:
  assumes "cvalid P m Q E" and "P c" and "m c = (c', r)"
  shows "case r of Inl e \<Rightarrow> E e c' | Inr x \<Rightarrow> Q x c'"
proof -
  have "case m c of (c', Inl e) \<Rightarrow> E e c' | (c', Inr x) \<Rightarrow> Q x c'"
    by (rule assms(1)[unfolded cvalid_def, rule_format, OF assms(2)])
  then show ?thesis using assms(3) by simp
qed

lemma cvalid_creturn: "cvalid (Q x) (creturn x) Q E"
  by (simp add: cvalid_def creturn_def)

lemma cvalid_cthrow: "cvalid (E e) (cthrow e) Q E"
  by (simp add: cvalid_def cthrow_def)

lemma cvalid_cguard: "cvalid (\<lambda>c. if b then Q () c else E e c) (cguard b e) Q E"
  by (simp add: cvalid_def cguard_def creturn_def cthrow_def)

lemma cvalid_cget: "cvalid (\<lambda>c. Q (f c) c) (cget f) Q E"
  by (simp add: cvalid_def cget_def)

lemma cvalid_calloc: "cvalid (\<lambda>c. Q (length (heap c)) (c\<lparr>heap := heap c @ [n]\<rparr>)) (calloc n) Q E"
  by (simp add: cvalid_def calloc_def)

lemma cvalid_cset_owned:
  "cvalid (\<lambda>c. Q () (c\<lparr>heap := (heap c)[a := (heap c ! a)\<lparr>owned := Some b\<rparr>]\<rparr>)) (cset_owned a b) Q E"
  by (simp add: cvalid_def cset_owned_def)

lemma cvalid_cachedAs:
  "cvalid (\<lambda>c. case find_cached (heap c) (node_key (heap c ! a)) (cache c) of
      Some b \<Rightarrow> Q b c | None \<Rightarrow> Q a (c\<lparr>cache := cache c @ [a]\<rparr>)) (cachedAs a) Q E"
  by (simp add: cvalid_def cachedAs_def split: option.splits)

lemma cvalid_cbind:
  "(\<And>x. cvalid (R x) (f x) Q E) \<Longrightarrow> cvalid P m R E \<Longrightarrow> cvalid P (cbind m f) Q E"
  unfolding cvalid_def cbind_def by (fastforce split: prod.splits sum.splits)

lemma cvalid_weaken:
  assumes "cvalid P' m Q E" and "\<And>c. P c \<Longrightarrow> P' c"
  shows "cvalid P m Q E"
  unfolding cvalid_def
proof (intro allI impI)
  fix c
  assume "P c"
  then have "P' c" by (rule assms(2))
  then show "case m c of (c', Inl e) \<Rightarrow> E e c' | (c', Inr x) \<Rightarrow> Q x c'"
    by (rule assms(1)[unfolded cvalid_def, rule_format])
qed

lemmas cvalid_wp = cvalid_cbind cvalid_creturn cvalid_cthrow cvalid_cguard cvalid_cget cvalid_calloc
  cvalid_cset_owned cvalid_cachedAs

section \<open>The cache lookup\<close>

lemma find_cached_SomeD: "find_cached h k as = Some b \<Longrightarrow> b \<in> set as \<and> node_key (h ! b) = k"
  by (induction as) (auto split: if_splits)

lemma find_cached_None_iff: "find_cached h k as = None \<longleftrightarrow> (\<forall>b\<in>set as. node_key (h ! b) \<noteq> k)"
  by (induction as) auto

lemma find_cached_append_heap:
  "\<forall>b\<in>set as. b < length h \<Longrightarrow> find_cached (h @ hs) k as = find_cached h k as"
  by (induction as) (auto simp: nth_append)

lemma find_cached_in_range:
  "wf_context c \<Longrightarrow> find_cached hs k (cache c) = Some b \<Longrightarrow> b < length (heap c)"
  by (auto simp: wf_context_def dest: find_cached_SomeD)

section \<open>The context invariant\<close>

lemma map_keys_cong:
  "\<forall>a\<in>set as. node_key (h' ! a) = node_key (h ! a) \<Longrightarrow>
   map (\<lambda>a. node_key (h' ! a)) as = map (\<lambda>a. node_key (h ! a)) as"
  by simp

lemma wf_alloc:
  assumes "wf_context c" and "\<forall>d\<in>set (deps n). d < length (heap c)"
  shows "wf_context (c\<lparr>heap := heap c @ [n]\<rparr>)"
proof -
  have eq: "map (\<lambda>a. node_key ((heap c @ [n]) ! a)) (cache c) = map (\<lambda>a. node_key (heap c ! a)) (cache c)"
    using assms(1) by (intro map_keys_cong) (auto simp: wf_context_def nth_append)
  have "distinct (map (\<lambda>a. node_key ((heap c @ [n]) ! a)) (cache c))"
    unfolding eq using assms(1) by (simp add: wf_context_def)
  with assms show ?thesis
    unfolding wf_context_def by (auto simp: nth_append less_Suc_eq)
qed

lemma wf_register:
  "wf_context c \<Longrightarrow> a < length (heap c) \<Longrightarrow> find_cached (heap c) (node_key (heap c ! a)) (cache c) = None \<Longrightarrow>
   wf_context (c\<lparr>cache := cache c @ [a]\<rparr>)"
  unfolding wf_context_def by (auto simp: find_cached_None_iff)

lemma node_key_owned [simp]: "node_key (n\<lparr>owned := x\<rparr>) = node_key n"
  by (simp add: node_key_def)

lemma wf_set_owned:
  assumes "wf_context c"
  shows "wf_context (c\<lparr>heap := (heap c)[a := (heap c ! a)\<lparr>owned := x\<rparr>]\<rparr>)"
proof -
  let ?h = "(heap c)[a := (heap c ! a)\<lparr>owned := x\<rparr>]"
  have keys: "node_key (?h ! b) = node_key (heap c ! b)" and ds: "deps (?h ! b) = deps (heap c ! b)" for b
    by (cases "a < length (heap c)"; auto simp: nth_list_update list_update_beyond node_key_def)+
  have eq: "map (\<lambda>b. node_key (?h ! b)) (cache c) = map (\<lambda>b. node_key (heap c ! b)) (cache c)"
    by (simp add: keys)
  have "distinct (map (\<lambda>b. node_key (?h ! b)) (cache c))"
    unfolding eq using assms by (simp add: wf_context_def)
  with assms show ?thesis
    unfolding wf_context_def by (simp add: ds)
qed

lemma wf_alloc_register:
  assumes "wf_context c" and "\<forall>d\<in>set (deps n). d < length (heap c)"
    and "find_cached (heap c @ [n]) (node_key n) (cache c) = None"
  shows "wf_context (c\<lparr>heap := heap c @ [n], cache := cache c @ [length (heap c)]\<rparr>)"
proof -
  have "wf_context (c\<lparr>heap := heap c @ [n]\<rparr>)"
    using assms(1,2) by (rule wf_alloc)
  then have "wf_context (c\<lparr>heap := heap c @ [n]\<rparr>\<lparr>cache := cache (c\<lparr>heap := heap c @ [n]\<rparr>) @ [length (heap c)]\<rparr>)"
    by (rule wf_register) (use assms(3) in simp_all)
  then show ?thesis by simp
qed

text \<open>Dependency references handed to a \<open>create\<close> name nodes of the context, or are null.\<close>

definition deps_valid :: "ctx \<Rightarrow> nat option list \<Rightarrow> bool" where
  "deps_valid c ds \<longleftrightarrow> (\<forall>x\<in>set ds. x \<noteq> None \<longrightarrow> the x < length (heap c))"

section \<open>Extension of a context\<close>

text \<open>
  Construction only ever appends nodes, registers nodes and sets the reference a node
  keeps to the node it built: every node keeps its class, dependencies, type and
  extents, and every registered node stays registered.
\<close>

definition ctx_ext :: "ctx \<Rightarrow> ctx \<Rightarrow> bool" where
  "ctx_ext c c' \<longleftrightarrow>
     length (heap c) \<le> length (heap c') \<and>
     (\<forall>a<length (heap c). (heap c' ! a)\<lparr>owned := None\<rparr> = (heap c ! a)\<lparr>owned := None\<rparr>) \<and>
     set (cache c) \<subseteq> set (cache c')"

lemma ctx_ext_refl [simp]: "ctx_ext c c"
  by (simp add: ctx_ext_def)

lemma ctx_ext_trans:
  assumes "ctx_ext c1 c2" and "ctx_ext c2 c3"
  shows "ctx_ext c1 c3"
  using assms unfolding ctx_ext_def by (auto simp: subset_iff)

lemma ctx_ext_length: "ctx_ext c c' \<Longrightarrow> length (heap c) \<le> length (heap c')"
  by (simp add: ctx_ext_def)

lemma ctx_ext_alloc: "ctx_ext c (c\<lparr>heap := heap c @ [n]\<rparr>)"
  by (simp add: ctx_ext_def nth_append)

lemma ctx_ext_register: "ctx_ext c (c\<lparr>cache := cache c @ [a]\<rparr>)"
  by (auto simp: ctx_ext_def)

lemma ctx_ext_alloc_register: "ctx_ext c (c\<lparr>heap := heap c @ [n], cache := cache c @ [a]\<rparr>)"
  by (auto simp: ctx_ext_def nth_append)

lemma ctx_ext_set_owned: "ctx_ext c (c\<lparr>heap := (heap c)[a := (heap c ! a)\<lparr>owned := x\<rparr>]\<rparr>)"
  by (cases "a < length (heap c)") (auto simp: ctx_ext_def nth_list_update list_update_beyond)

lemma ctx_ext_node:
  assumes "ctx_ext c c'" and "a < length (heap c)"
  shows "kind (heap c' ! a) = kind (heap c ! a)" and "deps (heap c' ! a) = deps (heap c ! a)"
    and "vty (heap c' ! a) = vty (heap c ! a)" and "vdim (heap c' ! a) = vdim (heap c ! a)"
    and "tdim (heap c' ! a) = tdim (heap c ! a)" and "node_key (heap c' ! a) = node_key (heap c ! a)"
proof -
  have eq: "(heap c' ! a)\<lparr>owned := None\<rparr> = (heap c ! a)\<lparr>owned := None\<rparr>"
    using assms by (simp add: ctx_ext_def)
  show "kind (heap c' ! a) = kind (heap c ! a)" using arg_cong[OF eq, of kind] by simp
  show "deps (heap c' ! a) = deps (heap c ! a)" using arg_cong[OF eq, of deps] by simp
  show "vty (heap c' ! a) = vty (heap c ! a)" using arg_cong[OF eq, of vty] by simp
  show "vdim (heap c' ! a) = vdim (heap c ! a)" using arg_cong[OF eq, of vdim] by simp
  show "tdim (heap c' ! a) = tdim (heap c ! a)" using arg_cong[OF eq, of tdim] by simp
  show "node_key (heap c' ! a) = node_key (heap c ! a)" using arg_cong[OF eq, of node_key] by simp
qed

text \<open>
  Rules relative to a fixed initial context \<open>c0\<close>: each step keeps the invariant and
  extends \<open>c0\<close>, and says how the arena length moves. Composed by
  \<open>cvalid_cbind\<close>, they give the invariant of a whole construction without any
  reasoning about intermediate states.
\<close>

lemma all_ext_mp: "\<forall>c'. P c' \<longrightarrow> Q c' \<Longrightarrow> P c' \<Longrightarrow> Q c'"
  by blast

lemma all_ext_mp2: "\<forall>c' b. P c' b \<longrightarrow> Q b c' \<Longrightarrow> P c' b \<Longrightarrow> Q b c'"
  by blast

lemma cvalid_ghost:
  assumes "\<And>c0. cvalid (\<lambda>c. P c \<and> c = c0) m Q E"
  shows "cvalid P m Q E"
  unfolding cvalid_def
proof (intro allI impI)
  fix c
  assume "P c"
  then have "P c \<and> c = c" by simp
  then show "case m c of (c', Inl e) \<Rightarrow> E e c' | (c', Inr x) \<Rightarrow> Q x c'"
    by (rule assms[of c, unfolded cvalid_def, rule_format])
qed

lemma cvalid_calloc_ext:
  "cvalid (\<lambda>c. wf_context c \<and> ctx_ext c0 c \<and> (\<forall>d\<in>set (deps n). d < length (heap c)) \<and>
       (\<forall>c'. wf_context c' \<and> ctx_ext c0 c' \<and> length (heap c) < length (heap c') \<longrightarrow> Q (length (heap c)) c'))
     (calloc n) Q E"
  by (rule cvalid_weaken[OF cvalid_calloc])
    (auto elim!: all_ext_mp intro: wf_alloc ctx_ext_trans[OF _ ctx_ext_alloc])

lemma cvalid_cset_owned_ext:
  "cvalid (\<lambda>c. wf_context c \<and> ctx_ext c0 c \<and>
       (\<forall>c'. wf_context c' \<and> ctx_ext c0 c' \<and> length (heap c') = length (heap c) \<longrightarrow> Q () c'))
     (cset_owned a b) Q E"
  by (rule cvalid_weaken[OF cvalid_cset_owned])
    (auto elim!: all_ext_mp intro: wf_set_owned ctx_ext_trans[OF _ ctx_ext_set_owned])

lemma cvalid_cachedAs_ext:
  "cvalid (\<lambda>c. wf_context c \<and> ctx_ext c0 c \<and> a < length (heap c) \<and>
       (\<forall>c' b. wf_context c' \<and> ctx_ext c0 c' \<and> length (heap c') = length (heap c) \<and> b < length (heap c') \<longrightarrow> Q b c'))
     (cachedAs a) Q E"
  by (rule cvalid_weaken[OF cvalid_cachedAs])
    (auto split: option.splits elim!: all_ext_mp2 intro: wf_register ctx_ext_trans[OF _ ctx_ext_register]
      dest: find_cached_in_range)

lemma deps_valid_the:
  "deps_valid c ds \<Longrightarrow> None \<notin> set ds \<Longrightarrow> x \<in> set ds \<Longrightarrow> the x < length (heap c)"
  unfolding deps_valid_def by auto

lemma NumericConstant_string_create_ext:
  "cvalid (\<lambda>c. wf_context c \<and> ctx_ext c0 c \<and>
       (\<forall>c' b. wf_context c' \<and> ctx_ext c0 c' \<and> length (heap c) < length (heap c') \<and> b < length (heap c') \<longrightarrow> Q b c'))
     (NumericConstant_string_create s) Q E"
  unfolding NumericConstant_string_create_def
  apply (rule cvalid_weaken)
   apply (rule cvalid_cbind cvalid_cachedAs_ext cvalid_calloc_ext)+
  apply (auto simp: mk_node_def elim!: all_ext_mp2)
  done

text \<open>A construction with an extension specification keeps the invariant.\<close>

lemma create_ext_wf:
  assumes spec: "cvalid (\<lambda>c. wf_context c \<and> ctx_ext c0 c \<and> deps_valid c ds \<and>
       (\<forall>c' b. wf_context c' \<and> ctx_ext c0 c' \<and> length (heap c) \<le> length (heap c') \<and> b < length (heap c') \<longrightarrow>
          wf_context c' \<and> ctx_ext c0 c') \<and>
       (\<forall>c' e. wf_context c' \<and> ctx_ext c0 c' \<and> length (heap c) \<le> length (heap c') \<longrightarrow>
          wf_context c' \<and> ctx_ext c0 c'))
     m (\<lambda>_ c'. wf_context c' \<and> ctx_ext c0 c') (\<lambda>_ c'. wf_context c' \<and> ctx_ext c0 c')"
    and "wf_context c0" and "deps_valid c0 ds"
  shows "wf_context (fst (m c0)) \<and> ctx_ext c0 (fst (m c0))"
proof -
  obtain c' r where m: "m c0 = (c', r)" by (cases "m c0")
  have "case r of Inl e \<Rightarrow> wf_context c' \<and> ctx_ext c0 c' | Inr x \<Rightarrow> wf_context c' \<and> ctx_ext c0 c'"
    by (rule cvalidD[OF spec _ m]) (use assms(2,3) in simp)
  then show ?thesis using m by (cases r) simp_all
qed

end
