(* ===== verification/HmmNodes.thy ===== *)
theory HmmNodes
  imports Dataflow
begin

text \<open>
  The node classes of \<open>src/src/Bpp/Phyl/NewLikelihood/PhyloLikelihoods/HmmLikelihoodComputation.h\<close>
  as construction operations on the dataflow context: \<open>CondLikelihood\<close>,
  \<open>ForwardHmmLikelihood_DF\<close>, \<open>ForwardHmmDLikelihood_DF\<close>,
  \<open>ForwardHmmD2Likelihood_DF\<close> and \<open>BackwardHmmLikelihood_DF\<close>: each \<open>create\<close>
  with its dependency checks, the \<open>build\<close> step that registers the owned
  \<open>CondLikelihood\<close> node, the dimension checks of \<open>build\<close> or of the constructor,
  \<open>recreate\<close>, and the \<open>derive\<close> methods that throw. The values these nodes
  compute are in \<open>HmmCompute\<close>.
\<close>

section \<open>CondLikelihood\<close>

text \<open>\<open>CondLikelihood::create\<close> (lines 68--78): a states \<open>\<times>\<close> sites matrix node named by its second dependency.\<close>

definition CondLikelihood_create :: "nat option list \<Rightarrow> dim \<Rightarrow> nat cm" where
  "CondLikelihood_create deps0 d =
     cbind (checkDependenciesNotNull ''CondLikelihood'' deps0) (\<lambda>ds.
     cbind (checkDependencyVectorSize ''CondLikelihood'' ds 2) (\<lambda>_.
     cbind (checkNthDependencyIsValue ''CondLikelihood'' ds 1 TString) (\<lambda>_.
     cbind (calloc (mk_node CondLikelihood ds TMatrixXd d d NoArgs)) cachedAs)))"

definition CondLikelihood_derive :: "nat \<Rightarrow> nat \<Rightarrow> nat cm" where
  "CondLikelihood_derive self x = cthrow (Failure ''CondLikelihood::derive is done in dependency class.'')"

definition CondLikelihood_recreate :: "nat \<Rightarrow> nat option list \<Rightarrow> nat cm" where
  "CondLikelihood_recreate self deps0 =
     cbind (cget (\<lambda>c. tdim (node_at c self))) (\<lambda>d. CondLikelihood_create deps0 d)"

text \<open>
  \<open>compareAdditionalArguments\<close> of each HMM class (lines 93--95, 235--237, 359--361,
  487--489, 586--588): the other node is of the same class.
\<close>

definition CondLikelihood_compareAdditionalArguments :: "node \<Rightarrow> bool" where
  "CondLikelihood_compareAdditionalArguments other \<longleftrightarrow> kind other = CondLikelihood"

section \<open>ForwardHmmLikelihood\_DF\<close>

text \<open>
  \<open>build\<close> (lines 202--227): register the constant name and the owned
  \<open>CondLikelihood\<close> node \<open>condLik_\<close> first, then check the extents of the starting
  vector, the transition matrix and the emission matrix against the target dimension
  (states \<open>\<times>\<close> sites), throwing \<open>BadSizeException(text, actual, expected)\<close>.
\<close>

definition dep_dim :: "nat \<Rightarrow> nat \<Rightarrow> dim cm" where
  "dep_dim self i = cget (\<lambda>c. vdim (node_at c (deps (node_at c self) ! i)))"

definition ForwardHmmLikelihood_DF_build :: "nat \<Rightarrow> dim \<Rightarrow> unit cm" where
  "ForwardHmmLikelihood_DF_build self d =
     cbind (NumericConstant_string_create ''forwardCondLik'') (\<lambda>fname.
     cbind (CondLikelihood_create [Some self, Some fname] d) (\<lambda>cl.
     cbind (cset_owned self cl) (\<lambda>_.
     cbind (dep_dim self 0) (\<lambda>hmmEq.
     cbind (cguard (fst hmmEq = fst d)
       (BadSize ''ForwardHmmLikelihood_DF: bad dimension for starting vector'' (fst hmmEq) (fst d))) (\<lambda>_.
     cbind (dep_dim self 1) (\<lambda>hmmTrans.
     cbind (cguard (fst hmmTrans = fst d)
       (BadSize ''ForwardHmmLikelihood_DF: bad number of rows for transition matrix'' (fst hmmTrans) (fst d))) (\<lambda>_.
     cbind (cguard (snd hmmTrans = fst d)
       (BadSize ''ForwardHmmLikelihood_DF: bad number of columns for transition matrix'' (snd hmmTrans) (fst d))) (\<lambda>_.
     cbind (dep_dim self 2) (\<lambda>hmmEmis.
     cbind (cguard (fst hmmEmis = fst d)
       (BadSize ''ForwardHmmLikelihood_DF: bad number of states for emission matrix'' (fst hmmEmis) (fst d))) (\<lambda>_.
     cguard (snd hmmEmis = snd d)
       (BadSize ''ForwardHmmLikelihood_DF: bad number of sites for emission matrix'' (snd hmmEmis) (snd d))))))))))))"

text \<open>
  \<open>create\<close> (lines 180--194): dependency checks (starting vector, transition matrix,
  emission matrix), \<open>make_shared\<close> (the value is a row vector over the sites,
  line 199), \<open>build\<close>, then \<open>cachedAs\<close>.
\<close>

definition ForwardHmmLikelihood_DF_create :: "nat option list \<Rightarrow> dim \<Rightarrow> nat cm" where
  "ForwardHmmLikelihood_DF_create deps0 d =
     cbind (checkDependenciesNotNull ''ForwardHmmLikelihood_DF'' deps0) (\<lambda>ds.
     cbind (checkDependencyVectorSize ''ForwardHmmLikelihood_DF'' ds 3) (\<lambda>_.
     cbind (checkNthDependencyIsValue ''ForwardHmmLikelihood_DF'' ds 0 TVectorXd) (\<lambda>_.
     cbind (checkNthDependencyIsValue ''ForwardHmmLikelihood_DF'' ds 1 TMatrixXd) (\<lambda>_.
     cbind (checkNthDependencyIsValue ''ForwardHmmLikelihood_DF'' ds 2 TMatrixXd) (\<lambda>_.
     cbind (calloc (mk_node ForwardHmmLikelihood ds TRowVectorXd (1, snd d) d NoArgs)) (\<lambda>self.
     cbind (ForwardHmmLikelihood_DF_build self d) (\<lambda>_.
     cachedAs self)))))))"

definition ForwardHmmLikelihood_DF_recreate :: "nat \<Rightarrow> nat option list \<Rightarrow> nat cm" where
  "ForwardHmmLikelihood_DF_recreate self deps0 =
     cbind (cget (\<lambda>c. tdim (node_at c self))) (\<lambda>d. ForwardHmmLikelihood_DF_create deps0 d)"

definition ForwardHmmLikelihood_DF_compareAdditionalArguments :: "node \<Rightarrow> bool" where
  "ForwardHmmLikelihood_DF_compareAdditionalArguments other \<longleftrightarrow> kind other = ForwardHmmLikelihood"

text \<open>\<open>getForwardCondLikelihood()\<close> (lines 245--248): the reference \<open>condLik_\<close>, null before \<open>build\<close>.\<close>

definition ForwardHmmLikelihood_DF_getForwardCondLikelihood :: "nat \<Rightarrow> nat option cm" where
  "ForwardHmmLikelihood_DF_getForwardCondLikelihood self = cget (\<lambda>c. owned (node_at c self))"

section \<open>ForwardHmmDLikelihood\_DF\<close>

text \<open>
  \<open>create\<close> and \<open>build\<close> (lines 318--351): seven dependencies, the fourth the primal
  forward node; \<open>build\<close> registers the owned \<open>dCondLik_\<close> node and checks no extent.
\<close>

definition ForwardHmmDLikelihood_DF_build :: "nat \<Rightarrow> dim \<Rightarrow> unit cm" where
  "ForwardHmmDLikelihood_DF_build self d =
     cbind (NumericConstant_string_create ''forwardDcondLik'') (\<lambda>fname.
     cbind (CondLikelihood_create [Some self, Some fname] d) (\<lambda>cl.
     cset_owned self cl))"

definition ForwardHmmDLikelihood_DF_create :: "nat option list \<Rightarrow> dim \<Rightarrow> nat cm" where
  "ForwardHmmDLikelihood_DF_create deps0 d =
     cbind (checkDependenciesNotNull ''ForwardHmmDLikelihood_DF'' deps0) (\<lambda>ds.
     cbind (checkDependencyVectorSize ''ForwardHmmDLikelihood_DF'' ds 7) (\<lambda>_.
     cbind (checkNthDependencyIsValue ''ForwardHmmDLikelihood_DF'' ds 0 TVectorXd) (\<lambda>_.
     cbind (checkNthDependencyIsValue ''ForwardHmmDLikelihood_DF'' ds 1 TMatrixXd) (\<lambda>_.
     cbind (checkNthDependencyIsValue ''ForwardHmmDLikelihood_DF'' ds 2 TMatrixXd) (\<lambda>_.
     cbind (checkNthDependencyIs ''ForwardHmmDLikelihood_DF'' ds 3 ForwardHmmLikelihood) (\<lambda>_.
     cbind (checkNthDependencyIsValue ''ForwardHmmDLikelihood_DF'' ds 4 TVectorXd) (\<lambda>_.
     cbind (checkNthDependencyIsValue ''ForwardHmmDLikelihood_DF'' ds 5 TMatrixXd) (\<lambda>_.
     cbind (checkNthDependencyIsValue ''ForwardHmmDLikelihood_DF'' ds 6 TMatrixXd) (\<lambda>_.
     cbind (calloc (mk_node ForwardHmmDLikelihood ds TRowVectorXd (1, snd d) d NoArgs)) (\<lambda>self.
     cbind (ForwardHmmDLikelihood_DF_build self d) (\<lambda>_.
     cachedAs self)))))))))))"

text \<open>\<open>recreate\<close> (lines 365--367) and \<open>getForwardDCondLikelihood()\<close> (lines 369--372).\<close>

definition ForwardHmmDLikelihood_DF_recreate :: "nat \<Rightarrow> nat option list \<Rightarrow> nat cm" where
  "ForwardHmmDLikelihood_DF_recreate self deps0 =
     cbind (cget (\<lambda>c. tdim (node_at c self))) (\<lambda>d. ForwardHmmDLikelihood_DF_create deps0 d)"

definition ForwardHmmDLikelihood_DF_compareAdditionalArguments :: "node \<Rightarrow> bool" where
  "ForwardHmmDLikelihood_DF_compareAdditionalArguments other \<longleftrightarrow> kind other = ForwardHmmDLikelihood"

definition ForwardHmmDLikelihood_DF_getForwardDCondLikelihood :: "nat \<Rightarrow> nat option cm" where
  "ForwardHmmDLikelihood_DF_getForwardDCondLikelihood self = cget (\<lambda>c. owned (node_at c self))"

section \<open>ForwardHmmD2Likelihood\_DF\<close>

text \<open>
  \<open>create\<close> and \<open>build\<close> (lines 440--479): eleven dependencies, the fourth the primal
  forward node and the eighth the first-order node; \<open>derive\<close> (lines 491--494) throws.
\<close>

definition ForwardHmmD2Likelihood_DF_build :: "nat \<Rightarrow> dim \<Rightarrow> unit cm" where
  "ForwardHmmD2Likelihood_DF_build self d =
     cbind (NumericConstant_string_create ''forwardD2condLik'') (\<lambda>fname.
     cbind (CondLikelihood_create [Some self, Some fname] d) (\<lambda>cl.
     cset_owned self cl))"

definition ForwardHmmD2Likelihood_DF_create :: "nat option list \<Rightarrow> dim \<Rightarrow> nat cm" where
  "ForwardHmmD2Likelihood_DF_create deps0 d =
     cbind (checkDependenciesNotNull ''ForwardHmmD2Likelihood_DF'' deps0) (\<lambda>ds.
     cbind (checkDependencyVectorSize ''ForwardHmmD2Likelihood_DF'' ds 11) (\<lambda>_.
     cbind (checkNthDependencyIsValue ''ForwardHmmD2Likelihood_DF'' ds 0 TVectorXd) (\<lambda>_.
     cbind (checkNthDependencyIsValue ''ForwardHmmD2Likelihood_DF'' ds 1 TMatrixXd) (\<lambda>_.
     cbind (checkNthDependencyIsValue ''ForwardHmmD2Likelihood_DF'' ds 2 TMatrixXd) (\<lambda>_.
     cbind (checkNthDependencyIs ''ForwardHmmD2Likelihood_DF'' ds 3 ForwardHmmLikelihood) (\<lambda>_.
     cbind (checkNthDependencyIsValue ''ForwardHmmD2Likelihood_DF'' ds 4 TVectorXd) (\<lambda>_.
     cbind (checkNthDependencyIsValue ''ForwardHmmD2Likelihood_DF'' ds 5 TMatrixXd) (\<lambda>_.
     cbind (checkNthDependencyIsValue ''ForwardHmmD2Likelihood_DF'' ds 6 TMatrixXd) (\<lambda>_.
     cbind (checkNthDependencyIs ''ForwardHmmD2Likelihood_DF'' ds 7 ForwardHmmDLikelihood) (\<lambda>_.
     cbind (checkNthDependencyIsValue ''ForwardHmmD2Likelihood_DF'' ds 8 TVectorXd) (\<lambda>_.
     cbind (checkNthDependencyIsValue ''ForwardHmmD2Likelihood_DF'' ds 9 TMatrixXd) (\<lambda>_.
     cbind (checkNthDependencyIsValue ''ForwardHmmD2Likelihood_DF'' ds 10 TMatrixXd) (\<lambda>_.
     cbind (calloc (mk_node ForwardHmmD2Likelihood ds TRowVectorXd (1, snd d) d NoArgs)) (\<lambda>self.
     cbind (ForwardHmmD2Likelihood_DF_build self d) (\<lambda>_.
     cachedAs self)))))))))))))))"

definition ForwardHmmD2Likelihood_DF_derive :: "nat \<Rightarrow> nat \<Rightarrow> nat cm" where
  "ForwardHmmD2Likelihood_DF_derive self x = cthrow (Failure ''ForwardHmmD2Likelihood_DF::derive not implemented.'')"

text \<open>\<open>recreate\<close> (lines 496--498).\<close>

definition ForwardHmmD2Likelihood_DF_recreate :: "nat \<Rightarrow> nat option list \<Rightarrow> nat cm" where
  "ForwardHmmD2Likelihood_DF_recreate self deps0 =
     cbind (cget (\<lambda>c. tdim (node_at c self))) (\<lambda>d. ForwardHmmD2Likelihood_DF_create deps0 d)"

definition ForwardHmmD2Likelihood_DF_compareAdditionalArguments :: "node \<Rightarrow> bool" where
  "ForwardHmmD2Likelihood_DF_compareAdditionalArguments other \<longleftrightarrow> kind other = ForwardHmmD2Likelihood"

section \<open>BackwardHmmLikelihood\_DF\<close>

text \<open>
  \<open>create\<close> and the constructor (lines 544--578): dependency checks (the forward
  node's row vector of site likelihoods, the transition matrix, the emission matrix),
  then the constructor's extent checks, then \<open>cachedAs\<close>. A constructor that throws
  leaves no object, so the checks precede the allocation. The first check compares
  the columns of the row vector and reports its rows and the target's rows, as the
  source does.
\<close>

definition BackwardHmmLikelihood_DF_create :: "nat option list \<Rightarrow> dim \<Rightarrow> nat cm" where
  "BackwardHmmLikelihood_DF_create deps0 d =
     cbind (checkDependenciesNotNull ''BackwardHmmLikelihood_DF'' deps0) (\<lambda>ds.
     cbind (checkDependencyVectorSize ''BackwardHmmLikelihood_DF'' ds 3) (\<lambda>_.
     cbind (checkNthDependencyIsValue ''BackwardHmmLikelihood_DF'' ds 0 TRowVectorXd) (\<lambda>_.
     cbind (checkNthDependencyIsValue ''BackwardHmmLikelihood_DF'' ds 1 TMatrixXd) (\<lambda>_.
     cbind (checkNthDependencyIsValue ''BackwardHmmLikelihood_DF'' ds 2 TMatrixXd) (\<lambda>_.
     cbind (cget (\<lambda>c. vdim (node_at c (ds ! 0)))) (\<lambda>hmmScale.
     cbind (cguard (snd hmmScale = snd d)
       (BadSize ''BackwardHmmLikelihood_DF: bad dimension for forward likelihoods vector'' (fst hmmScale) (fst d))) (\<lambda>_.
     cbind (cget (\<lambda>c. vdim (node_at c (ds ! 1)))) (\<lambda>hmmTrans.
     cbind (cguard (fst hmmTrans = fst d)
       (BadSize ''BackwardHmmLikelihood_DF: bad number of rows for transition matrix'' (fst hmmTrans) (fst d))) (\<lambda>_.
     cbind (cguard (snd hmmTrans = fst d)
       (BadSize ''BackwardHmmLikelihood_DF: bad number of columns for transition matrix'' (snd hmmTrans) (fst d))) (\<lambda>_.
     cbind (cget (\<lambda>c. vdim (node_at c (ds ! 2)))) (\<lambda>hmmEmis.
     cbind (cguard (fst hmmEmis = fst d)
       (BadSize ''BackwardHmmLikelihood_DF: bad number of states for emission matrix'' (fst hmmEmis) (fst d))) (\<lambda>_.
     cbind (cguard (snd hmmEmis = snd d)
       (BadSize ''BackwardHmmLikelihood_DF: bad number of sites for emission matrix'' (snd hmmEmis) (snd d))) (\<lambda>_.
     cbind (calloc (mk_node BackwardHmmLikelihood ds TMatrixXd d d NoArgs)) cachedAs)))))))))))))"

definition BackwardHmmLikelihood_DF_recreate :: "nat \<Rightarrow> nat option list \<Rightarrow> nat cm" where
  "BackwardHmmLikelihood_DF_recreate self deps0 =
     cbind (cget (\<lambda>c. tdim (node_at c self))) (\<lambda>d. BackwardHmmLikelihood_DF_create deps0 d)"

definition BackwardHmmLikelihood_DF_compareAdditionalArguments :: "node \<Rightarrow> bool" where
  "BackwardHmmLikelihood_DF_compareAdditionalArguments other \<longleftrightarrow> kind other = BackwardHmmLikelihood"

text \<open>
  \<open>derive\<close> (lines 590--598) throws; the \<open>create\<close> call after the \<open>throw\<close> is
  unreachable (and, with one dependency, would fail the three-dependency check).
\<close>

definition BackwardHmmLikelihood_DF_derive :: "nat \<Rightarrow> nat \<Rightarrow> nat cm" where
  "BackwardHmmLikelihood_DF_derive self x = cthrow (Failure ''BackwardHmmLikelihood_DF::derive To be finished.'')"

section \<open>Construction keeps the context well-formed\<close>

lemma CondLikelihood_create_ext:
  "cvalid (\<lambda>c. wf_context c \<and> ctx_ext c0 c \<and> deps_valid c deps0 \<and>
       (\<forall>c' b. wf_context c' \<and> ctx_ext c0 c' \<and> length (heap c) \<le> length (heap c') \<and> b < length (heap c') \<longrightarrow> Q b c') \<and>
       (\<forall>c' e. wf_context c' \<and> ctx_ext c0 c' \<and> length (heap c) \<le> length (heap c') \<longrightarrow> E e c'))
     (CondLikelihood_create deps0 d) Q E"
  unfolding CondLikelihood_create_def checkDependenciesNotNull_def checkDependencyVectorSize_def
    checkNthDependencyIsValue_def
  apply (rule cvalid_weaken)
   apply (rule cvalid_cbind cvalid_creturn cvalid_cguard cvalid_cget cvalid_cachedAs_ext cvalid_calloc_ext)+
  apply (auto simp: mk_node_def deps_valid_the elim!: all_ext_mp2)
  done

lemmas cvalid_ext = cvalid_cbind cvalid_creturn cvalid_cthrow cvalid_cguard cvalid_cget
  cvalid_calloc_ext cvalid_cset_owned_ext cvalid_cachedAs_ext
  NumericConstant_string_create_ext CondLikelihood_create_ext

lemma ForwardHmmLikelihood_DF_create_ext:
  "cvalid (\<lambda>c. wf_context c \<and> ctx_ext c0 c \<and> deps_valid c deps0 \<and>
       (\<forall>c' b. wf_context c' \<and> ctx_ext c0 c' \<and> length (heap c) \<le> length (heap c') \<and> b < length (heap c') \<longrightarrow> Q b c') \<and>
       (\<forall>c' e. wf_context c' \<and> ctx_ext c0 c' \<and> length (heap c) \<le> length (heap c') \<longrightarrow> E e c'))
     (ForwardHmmLikelihood_DF_create deps0 d) Q E"
  unfolding ForwardHmmLikelihood_DF_create_def ForwardHmmLikelihood_DF_build_def dep_dim_def
    checkDependenciesNotNull_def checkDependencyVectorSize_def checkNthDependencyIsValue_def
  apply (rule cvalid_weaken)
   apply (rule cvalid_ext)+
  apply (auto simp: mk_node_def deps_valid_the deps_valid_def elim!: all_ext_mp2 all_ext_mp)
  done

lemma ForwardHmmDLikelihood_DF_create_ext:
  "cvalid (\<lambda>c. wf_context c \<and> ctx_ext c0 c \<and> deps_valid c deps0 \<and>
       (\<forall>c' b. wf_context c' \<and> ctx_ext c0 c' \<and> length (heap c) \<le> length (heap c') \<and> b < length (heap c') \<longrightarrow> Q b c') \<and>
       (\<forall>c' e. wf_context c' \<and> ctx_ext c0 c' \<and> length (heap c) \<le> length (heap c') \<longrightarrow> E e c'))
     (ForwardHmmDLikelihood_DF_create deps0 d) Q E"
  unfolding ForwardHmmDLikelihood_DF_create_def ForwardHmmDLikelihood_DF_build_def
    checkDependenciesNotNull_def checkDependencyVectorSize_def checkNthDependencyIsValue_def checkNthDependencyIs_def
  apply (rule cvalid_weaken)
   apply (rule cvalid_ext)+
  apply (auto simp: mk_node_def deps_valid_the deps_valid_def elim!: all_ext_mp2 all_ext_mp)
  done

lemma ForwardHmmD2Likelihood_DF_create_ext:
  "cvalid (\<lambda>c. wf_context c \<and> ctx_ext c0 c \<and> deps_valid c deps0 \<and>
       (\<forall>c' b. wf_context c' \<and> ctx_ext c0 c' \<and> length (heap c) \<le> length (heap c') \<and> b < length (heap c') \<longrightarrow> Q b c') \<and>
       (\<forall>c' e. wf_context c' \<and> ctx_ext c0 c' \<and> length (heap c) \<le> length (heap c') \<longrightarrow> E e c'))
     (ForwardHmmD2Likelihood_DF_create deps0 d) Q E"
  unfolding ForwardHmmD2Likelihood_DF_create_def ForwardHmmD2Likelihood_DF_build_def
    checkDependenciesNotNull_def checkDependencyVectorSize_def checkNthDependencyIsValue_def checkNthDependencyIs_def
  apply (rule cvalid_weaken)
   apply (rule cvalid_ext)+
  apply (auto simp: mk_node_def deps_valid_the deps_valid_def elim!: all_ext_mp2 all_ext_mp)
  done

lemma BackwardHmmLikelihood_DF_create_ext:
  "cvalid (\<lambda>c. wf_context c \<and> ctx_ext c0 c \<and> deps_valid c deps0 \<and>
       (\<forall>c' b. wf_context c' \<and> ctx_ext c0 c' \<and> length (heap c) \<le> length (heap c') \<and> b < length (heap c') \<longrightarrow> Q b c') \<and>
       (\<forall>c' e. wf_context c' \<and> ctx_ext c0 c' \<and> length (heap c) \<le> length (heap c') \<longrightarrow> E e c'))
     (BackwardHmmLikelihood_DF_create deps0 d) Q E"
  unfolding BackwardHmmLikelihood_DF_create_def 
    checkDependenciesNotNull_def checkDependencyVectorSize_def checkNthDependencyIsValue_def checkNthDependencyIs_def
  apply (rule cvalid_weaken)
   apply (rule cvalid_ext)+
  apply (auto simp: mk_node_def deps_valid_the deps_valid_def elim!: all_ext_mp2 all_ext_mp)
  done

lemma hmm_create_wf_each:
  assumes "wf_context c" and "deps_valid c ds"
  shows "wf_context (fst (CondLikelihood_create ds d c)) \<and> ctx_ext c (fst (CondLikelihood_create ds d c))"
    and "wf_context (fst (ForwardHmmLikelihood_DF_create ds d c)) \<and> ctx_ext c (fst (ForwardHmmLikelihood_DF_create ds d c))"
    and "wf_context (fst (ForwardHmmDLikelihood_DF_create ds d c)) \<and> ctx_ext c (fst (ForwardHmmDLikelihood_DF_create ds d c))"
    and "wf_context (fst (ForwardHmmD2Likelihood_DF_create ds d c)) \<and> ctx_ext c (fst (ForwardHmmD2Likelihood_DF_create ds d c))"
    and "wf_context (fst (BackwardHmmLikelihood_DF_create ds d c)) \<and> ctx_ext c (fst (BackwardHmmLikelihood_DF_create ds d c))"
  using assms
  by (rule create_ext_wf[OF CondLikelihood_create_ext] create_ext_wf[OF ForwardHmmLikelihood_DF_create_ext]
      create_ext_wf[OF ForwardHmmDLikelihood_DF_create_ext] create_ext_wf[OF ForwardHmmD2Likelihood_DF_create_ext]
      create_ext_wf[OF BackwardHmmLikelihood_DF_create_ext])+

section \<open>An example context\<close>

text \<open>
  Two hidden states and three sites: a starting vector, a transition matrix and an
  emission matrix registered as constants (addresses 0, 1, 2).
\<close>

definition ex_hmm_ctx :: ctx where
  "ex_hmm_ctx =
     \<lparr>heap = [mk_node NumericConstant [] TVectorXd (2, 1) (2, 1) (MatArg [[1/2], [1/2]]),
              mk_node NumericConstant [] TMatrixXd (2, 2) (2, 2) (MatArg [[9/10, 1/10], [2/10, 8/10]]),
              mk_node NumericConstant [] TMatrixXd (2, 3) (2, 3) (MatArg [[1/2, 1/4, 1/8], [1/8, 1/4, 1/2]])],
      cache = [0, 1, 2]\<rparr>"

lemma ex_hmm_ctx_wf: "wf_context ex_hmm_ctx"
  by (simp add: ex_hmm_ctx_def wf_context_def mk_node_def node_key_def less_Suc_eq numeral_3_eq_3)

text \<open>
  C1: every constructor of the HMM node classes, from a well-formed context and
  dependency references into it, yields a well-formed context that extends the old one
  (nodes keep their class, dependencies, types and extents; registered nodes stay
  registered), whether it returns or throws.
\<close>

theorem hmm_create_wf:
  assumes "wf_context c" and "deps_valid c ds"
  shows "(wf_context (fst (CondLikelihood_create ds d c)) \<and> ctx_ext c (fst (CondLikelihood_create ds d c))) \<and>
    (wf_context (fst (ForwardHmmLikelihood_DF_create ds d c)) \<and> ctx_ext c (fst (ForwardHmmLikelihood_DF_create ds d c))) \<and>
    (wf_context (fst (ForwardHmmDLikelihood_DF_create ds d c)) \<and> ctx_ext c (fst (ForwardHmmDLikelihood_DF_create ds d c))) \<and>
    (wf_context (fst (ForwardHmmD2Likelihood_DF_create ds d c)) \<and> ctx_ext c (fst (ForwardHmmD2Likelihood_DF_create ds d c))) \<and>
    (wf_context (fst (BackwardHmmLikelihood_DF_create ds d c)) \<and> ctx_ext c (fst (BackwardHmmLikelihood_DF_create ds d c)))"
  using hmm_create_wf_each[OF assms] by blast

theorem hmm_create_wf_witness:
  "wf_context ex_hmm_ctx \<and> deps_valid ex_hmm_ctx [Some 0, Some 1, Some 2] \<and>
   wf_context (fst (ForwardHmmLikelihood_DF_create [Some 0, Some 1, Some 2] (2, 3) ex_hmm_ctx))"
proof -
  have v: "deps_valid ex_hmm_ctx [Some 0, Some 1, Some 2]"
    by (simp add: deps_valid_def ex_hmm_ctx_def)
  show ?thesis
    using hmm_create_wf[OF ex_hmm_ctx_wf v, of "(2, 3)"] ex_hmm_ctx_wf v by blast
qed

end
