(* ===== verification/HmmCompute.thy ===== *)
theory HmmCompute
  imports Prelude
begin

text \<open>
  The values the HMM nodes of \<open>HmmLikelihoodComputation.h\<close> compute. The bodies of
  \<open>compute()\<close> are in \<open>HmmLikelihoodComputation.cpp\<close>, which is not part of the
  sources: the recursions \<open>fwd\<close>, \<open>bwd\<close> and \<open>dfwd\<close> follow the specification
  (section 4.3), and the \<open>*_compute\<close> wrappers give each node class its value and
  owned matrix with the extents its constructor sets and its comment documents. The
  theorems establish those comments: the forward value at site \<open>j\<close> is
  \<open>P(x_j | x_1..x_{j-1})\<close>, the forward matrix holds
  \<open>Pr(x_1..x_j, y_j = i) / Pr(x_1..x_j)\<close>, the backward matrix holds
  \<open>Pr(x_{j+1}..x_n | y_j = i) / P(x_{j+1}..x_n | x_1..x_j)\<close>, and the first-order
  node holds the derivative of the forward value. States are the rows of the emission
  matrix, sites its columns; the transition matrix is read as \<open>t k i\<close> = probability
  of moving from state \<open>k\<close> to state \<open>i\<close>.
\<close>

section \<open>Definitions\<close>

subsection \<open>Forward recursion\<close>

text \<open>Normalisation of a column: the column divided by its sum, and the sum.\<close>

definition normalise :: "nat \<Rightarrow> vec \<Rightarrow> vec \<times> real" where
  "normalise n a = (let z = vsum n a in (\<lambda>i. a i / z, z))"

text \<open>
  Column \<open>j\<close> of the forward matrix \<open>condLik_\<close> and the site value: at the first
  site the starting vector times the emissions, then the transposed transition matrix
  applied to the previous column (\<open>parCondLik_\<close>) times the emissions, normalised.
\<close>

fun fwd :: "emat \<Rightarrow> emat \<Rightarrow> emat \<Rightarrow> nat \<Rightarrow> vec \<times> real" where
  "fwd s t e 0 = normalise (erows e) (cwise (col s 0) (col e 0))"
| "fwd s t e (Suc j) =
     normalise (erows e) (cwise (tmat_vec (erows e) (eget t) (fst (fwd s t e j))) (col e (Suc j)))"

text \<open>\<open>ForwardHmmLikelihood_DF\<close>: the row vector of site values and the matrix \<open>condLik_\<close>.\<close>

definition ForwardHmmLikelihood_DF_compute :: "emat \<Rightarrow> emat \<Rightarrow> emat \<Rightarrow> emat \<times> emat" where
  "ForwardHmmLikelihood_DF_compute s t e =
     (rowvec (ecols e) (\<lambda>j. snd (fwd s t e j)),
      mk_emat (erows e) (ecols e) (\<lambda>i j. fst (fwd s t e j) i))"

subsection \<open>Reference semantics\<close>

text \<open>The unnormalised forward recursion: joint probability of the first sites and the state.\<close>

fun alpha :: "emat \<Rightarrow> emat \<Rightarrow> emat \<Rightarrow> nat \<Rightarrow> vec" where
  "alpha s t e 0 = cwise (col s 0) (col e 0)"
| "alpha s t e (Suc j) = cwise (tmat_vec (erows e) (eget t) (alpha s t e j)) (col e (Suc j))"

text \<open>
  The weight of one hidden path, most recent state first, and the likelihood of the
  first \<open>m\<close> sites by enumeration of all \<open>n^m\<close> paths.
\<close>

fun path_weight :: "emat \<Rightarrow> emat \<Rightarrow> emat \<Rightarrow> nat list \<Rightarrow> real" where
  "path_weight s t e [] = 1"
| "path_weight s t e [y] = eget s y 0 * eget e y 0"
| "path_weight s t e (y # z # zs) = path_weight s t e (z # zs) * eget t z y * eget e y (Suc (length zs))"

definition brute_likelihood :: "emat \<Rightarrow> emat \<Rightarrow> emat \<Rightarrow> nat \<Rightarrow> real" where
  "brute_likelihood s t e m = (\<Sum>ys\<leftarrow>List.n_lists m [0..<erows e]. path_weight s t e ys)"

subsection \<open>Backward recursion\<close>

text \<open>
  Column \<open>j\<close> of \<open>BackwardHmmLikelihood_DF\<close>: ones at the last site, then the
  transition matrix applied to the emissions times the next column, divided by the
  forward value of the next site (\<open>sc\<close>). The loop counts the sites down, so the
  recursion is on the distance to the last site.
\<close>

function bwd :: "emat \<Rightarrow> emat \<Rightarrow> vec \<Rightarrow> nat \<Rightarrow> nat \<Rightarrow> vec" where
  "bwd t e sc m j =
     (if Suc j < m
      then (\<lambda>i. (\<Sum>k<erows e. eget t i k * (eget e k (Suc j) * bwd t e sc m (Suc j) k)) / sc (Suc j))
      else (\<lambda>_. 1))"
  by pat_completeness auto
termination
  by (relation "measure (\<lambda>(t, e, sc, m, j). m - j)") auto

definition BackwardHmmLikelihood_DF_compute :: "emat \<Rightarrow> emat \<Rightarrow> emat \<Rightarrow> emat" where
  "BackwardHmmLikelihood_DF_compute sc t e =
     mk_emat (erows e) (ecols e) (\<lambda>i j. bwd t e (\<lambda>k. eget sc 0 k) (ecols e) j i)"

text \<open>The unnormalised backward recursion: probability of the later sites given the state.\<close>

function beta :: "emat \<Rightarrow> emat \<Rightarrow> nat \<Rightarrow> nat \<Rightarrow> vec" where
  "beta t e m j =
     (if Suc j < m
      then (\<lambda>i. \<Sum>k<erows e. eget t i k * (eget e k (Suc j) * beta t e m (Suc j) k))
      else (\<lambda>_. 1))"
  by pat_completeness auto
termination
  by (relation "measure (\<lambda>(t, e, m, j). m - j)") auto

subsection \<open>First-order derivative of the forward recursion\<close>

text \<open>The quotient rule for a normalised column: derivative of the column and of its sum.\<close>

definition dnormalise :: "nat \<Rightarrow> vec \<Rightarrow> vec \<Rightarrow> vec \<times> real" where
  "dnormalise n a da = (let z = vsum n a; dz = vsum n da in (\<lambda>i. (da i - a i / z * dz) / z, dz))"

text \<open>
  Column \<open>j\<close> of \<open>dCondLik_\<close> and the derivative of the site value, from the
  primal values (the starting vector, the transition and emission matrices, and the
  matrix \<open>condLik_\<close> of the primal forward node, read and not recomputed) and the
  derivatives \<open>ds\<close>, \<open>dt\<close>, \<open>de\<close> of the starting vector, the transition matrix
  and the emission matrix (the seven dependencies of the node).
\<close>

fun dfwd :: "emat \<Rightarrow> emat \<Rightarrow> emat \<Rightarrow> emat \<Rightarrow> emat \<Rightarrow> emat \<Rightarrow> emat \<Rightarrow> nat \<Rightarrow> vec \<times> real" where
  "dfwd s t e cl ds dt de 0 =
     dnormalise (erows e) (cwise (col s 0) (col e 0))
       (\<lambda>i. eget ds i 0 * eget e i 0 + eget s i 0 * eget de i 0)"
| "dfwd s t e cl ds dt de (Suc j) =
     (let n = erows e; c = col cl j; dc = fst (dfwd s t e cl ds dt de j);
          p = tmat_vec n (eget t) c;
          dp = (\<lambda>i. tmat_vec n (eget dt) c i + tmat_vec n (eget t) dc i)
      in dnormalise n (cwise p (col e (Suc j))) (\<lambda>i. dp i * eget e i (Suc j) + p i * eget de i (Suc j)))"

text \<open>\<open>ForwardHmmDLikelihood_DF\<close>: the row vector of derivatives of the site values and \<open>dCondLik_\<close>.\<close>

definition ForwardHmmDLikelihood_DF_compute ::
  "emat \<Rightarrow> emat \<Rightarrow> emat \<Rightarrow> emat \<Rightarrow> emat \<Rightarrow> emat \<Rightarrow> emat \<Rightarrow> emat \<times> emat" where
  "ForwardHmmDLikelihood_DF_compute s t e cl ds dt de =
     (rowvec (ecols e) (\<lambda>j. snd (dfwd s t e cl ds dt de j)),
      mk_emat (erows e) (ecols e) (\<lambda>i j. fst (dfwd s t e cl ds dt de j) i))"

subsection \<open>An example\<close>

text \<open>Two hidden states, three sites.\<close>

definition ex_start :: emat where "ex_start = emat_of_rows [[1/2], [1/2]]"

definition ex_trans :: emat where "ex_trans = emat_of_rows [[9/10, 1/10], [2/10, 8/10]]"

definition ex_emis :: emat where "ex_emis = emat_of_rows [[1/2, 1/4, 1/8], [1/8, 1/4, 1/2]]"

text \<open>A transition matrix depending on a rate parameter, and its derivative.\<close>

definition ex_trans_x :: "real \<Rightarrow> emat" where "ex_trans_x x = emat_of_rows [[1 - x, x], [x, 1 - x]]"

definition ex_dtrans :: emat where "ex_dtrans = emat_of_rows [[-1, 1], [1, -1]]"

text \<open>The derivatives of the starting vector and of the emission matrix, which do not depend on it.\<close>

definition ex_dstart :: emat where "ex_dstart = emat_of_rows [[0], [0]]"

definition ex_demis :: emat where "ex_demis = emat_of_rows [[0, 0, 0], [0, 0, 0]]"

declare bwd.simps [simp del] beta.simps [simp del]

section \<open>The forward recursion against the reference\<close>

lemma fwd_scaled:
  assumes "\<forall>k\<le>j. snd (fwd s t e k) \<noteq> 0"
  shows "fst (fwd s t e j) i * (\<Prod>k\<le>j. snd (fwd s t e k)) = alpha s t e j i"
  using assms
proof (induction j arbitrary: i)
  case 0
  then show ?case by (simp add: normalise_def Let_def)
next
  case (Suc j)
  let ?P = "\<Prod>k\<le>j. snd (fwd s t e k)"
  have IH: "fst (fwd s t e j) k * ?P = alpha s t e j k" for k
    using Suc by simp
  have "tmat_vec (erows e) (eget t) (fst (fwd s t e j)) i * ?P = tmat_vec (erows e) (eget t) (alpha s t e j) i"
    by (simp add: tmat_vec_def sum_distrib_right mult.assoc mult.left_commute[of _ ?P] IH[symmetric])
  moreover have "snd (fwd s t e (Suc j)) \<noteq> 0" using Suc.prems by blast
  ultimately show ?case
    by (simp add: normalise_def Let_def cwise_def col_def field_simps)
qed

lemma sum_list_sum_swap: "(\<Sum>x\<leftarrow>xs. \<Sum>y<n. f x y) = (\<Sum>y<n. \<Sum>x\<leftarrow>xs. (f x y :: real))"
  by (induction xs) (simp_all add: sum.distrib)

lemma sum_list_cong_set: "(\<And>x. x \<in> set xs \<Longrightarrow> f x = g x) \<Longrightarrow> (\<Sum>x\<leftarrow>xs. f x) = (\<Sum>x\<leftarrow>xs. (g x :: real))"
  by (metis map_cong)

lemma sum_list_mult_const: "(\<Sum>x\<leftarrow>xs. f x * (c :: real)) = (\<Sum>x\<leftarrow>xs. f x) * c"
  by (induction xs) (simp_all add: algebra_simps)

lemma sum_list_map_concat: "(\<Sum>x\<leftarrow>concat xss. f x) = (\<Sum>xs\<leftarrow>xss. \<Sum>x\<leftarrow>xs. (f x :: real))"
  by (induction xss) simp_all

lemma sum_n_lists_Suc:
  "(\<Sum>ys\<leftarrow>List.n_lists (Suc j) xs. f ys) = (\<Sum>zs\<leftarrow>List.n_lists j xs. \<Sum>y\<leftarrow>xs. (f (y # zs) :: real))"
  by (simp add: sum_list_map_concat comp_def)

lemma alpha_paths:
  "(\<Sum>ys\<leftarrow>List.n_lists j [0..<erows e]. path_weight s t e (i # ys)) = alpha s t e j i"
proof (induction j arbitrary: i)
  case 0
  then show ?case by (simp add: cwise_def col_def)
next
  case (Suc j)
  let ?n = "erows e" and ?L = "List.n_lists j [0..<erows e]"
  have "(\<Sum>ys\<leftarrow>List.n_lists (Suc j) [0..<?n]. path_weight s t e (i # ys)) =
        (\<Sum>zs\<leftarrow>?L. \<Sum>y\<leftarrow>[0..<?n]. path_weight s t e (y # zs) * eget t y i * eget e i (Suc j))"
    unfolding sum_n_lists_Suc
    by (intro sum_list_cong_set) (simp add: length_n_lists_elem)
  also have "\<dots> = (\<Sum>y<?n. (\<Sum>zs\<leftarrow>?L. path_weight s t e (y # zs)) * eget t y i) * eget e i (Suc j)"
    by (simp add: sum_list_map_upt sum_list_sum_swap sum_list_mult_const sum_distrib_right)
  also have "\<dots> = alpha s t e (Suc j) i"
    by (simp add: Suc.IH tmat_vec_def cwise_def col_def mult.commute)
  finally show ?case .
qed

lemma brute_alpha: "brute_likelihood s t e (Suc j) = (\<Sum>y<erows e. alpha s t e j y)"
proof -
  have "brute_likelihood s t e (Suc j) =
        (\<Sum>zs\<leftarrow>List.n_lists j [0..<erows e]. \<Sum>y\<leftarrow>[0..<erows e]. path_weight s t e (y # zs))"
    unfolding brute_likelihood_def by (rule sum_n_lists_Suc)
  also have "\<dots> = (\<Sum>y<erows e. alpha s t e j y)"
    by (simp add: sum_list_map_upt sum_list_sum_swap alpha_paths)
  finally show ?thesis .
qed

lemma fwd_normalised: "snd (fwd s t e j) \<noteq> 0 \<Longrightarrow> (\<Sum>i<erows e. fst (fwd s t e j) i) = 1"
  by (cases j) (simp_all add: normalise_def Let_def vsum_def sum_divide_const)

lemma fwd_prod_alpha:
  assumes "\<forall>k\<le>j. snd (fwd s t e k) \<noteq> 0"
  shows "(\<Prod>k\<le>j. snd (fwd s t e k)) = (\<Sum>i<erows e. alpha s t e j i)"
proof -
  have "(\<Sum>i<erows e. alpha s t e j i) = (\<Sum>i<erows e. fst (fwd s t e j) i) * (\<Prod>k\<le>j. snd (fwd s t e k))"
    by (simp add: fwd_scaled[OF assms, symmetric] sum_distrib_right)
  also have "\<dots> = (\<Prod>k\<le>j. snd (fwd s t e k))"
    using assms fwd_normalised by simp
  finally show ?thesis by simp
qed

lemma fwd_value_prod:
  assumes "0 < m" and "\<forall>j<m. snd (fwd s t e j) \<noteq> 0"
  shows "(\<Prod>j<m. snd (fwd s t e j)) = brute_likelihood s t e m"
proof -
  obtain j where m: "m = Suc j" using assms(1) by (cases m) auto
  have "\<forall>k\<le>j. snd (fwd s t e k) \<noteq> 0" using assms(2) m by auto
  then show ?thesis
    using fwd_prod_alpha brute_alpha m by (simp add: lessThan_Suc_atMost)
qed

lemma compute_value [simp]: "eget (fst (ForwardHmmLikelihood_DF_compute s t e)) 0 j = snd (fwd s t e j)"
  by (simp add: ForwardHmmLikelihood_DF_compute_def mat_simps)

lemma compute_condLik [simp]: "eget (snd (ForwardHmmLikelihood_DF_compute s t e)) i j = fst (fwd s t e j) i"
  by (simp add: ForwardHmmLikelihood_DF_compute_def mat_simps)

lemma compute_condLik_col [simp]: "col (snd (ForwardHmmLikelihood_DF_compute s t e)) j = fst (fwd s t e j)"
  by (simp add: col_def fun_eq_iff)

lemma compute_dims:
  "emat_dim (fst (ForwardHmmLikelihood_DF_compute s t e)) = (1, ecols e)"
  "emat_dim (snd (ForwardHmmLikelihood_DF_compute s t e)) = (erows e, ecols e)"
  by (simp_all add: ForwardHmmLikelihood_DF_compute_def mat_simps)

lemma bwd_last: "\<not> Suc j < m \<Longrightarrow> bwd t e sc m j = (\<lambda>_. 1)"
  by (simp add: bwd.simps)

lemma bwd_step:
  "Suc j < m \<Longrightarrow> bwd t e sc m j i = (\<Sum>k<erows e. eget t i k * (eget e k (Suc j) * bwd t e sc m (Suc j) k)) / sc (Suc j)"
  by (simp add: bwd.simps)

lemma fwd_Suc_fst:
  "snd (fwd s t e (Suc j)) \<noteq> 0 \<Longrightarrow>
   fst (fwd s t e (Suc j)) k * snd (fwd s t e (Suc j)) =
   (\<Sum>i<erows e. fst (fwd s t e j) i * eget t i k) * eget e k (Suc j)"
  by (simp add: normalise_def Let_def cwise_def tmat_vec_def col_def mult.commute)

lemma brute_zero [simp]: "brute_likelihood s t e 0 = 1"
  by (simp add: brute_likelihood_def)

lemma brute_prod:
  assumes "\<forall>k<m. snd (fwd s t e k) \<noteq> 0"
  shows "brute_likelihood s t e m = (\<Prod>k<m. snd (fwd s t e k))"
proof (cases m)
  case (Suc j)
  have "\<forall>k\<le>j. snd (fwd s t e k) \<noteq> 0" using assms Suc by auto
  then show ?thesis
    using fwd_prod_alpha brute_alpha Suc by (simp add: lessThan_Suc_atMost)
qed simp

lemma fwd_posterior:
  assumes "\<forall>k\<le>j. snd (fwd s t e k) \<noteq> 0"
  shows "fst (fwd s t e j) i = alpha s t e j i / brute_likelihood s t e (Suc j)"
proof -
  have "brute_likelihood s t e (Suc j) = (\<Prod>k\<le>j. snd (fwd s t e k))"
    using brute_prod[of "Suc j"] assms by (simp add: lessThan_Suc_atMost less_Suc_eq_le)
  moreover have "(\<Prod>k\<le>j. snd (fwd s t e k)) \<noteq> 0"
    using assms by simp
  ultimately show ?thesis
    using fwd_scaled[OF assms, of i] by (simp add: eq_divide_eq)
qed

lemma compute_value_fun: "(\<lambda>k. eget (fst (ForwardHmmLikelihood_DF_compute s t e)) 0 k) = (\<lambda>k. snd (fwd s t e k))"
  by simp

lemma backward_compute [simp]:
  "eget (BackwardHmmLikelihood_DF_compute sc t e) i j = bwd t e (\<lambda>k. eget sc 0 k) (ecols e) j i"
  by (simp add: BackwardHmmLikelihood_DF_compute_def mat_simps)

section \<open>The backward recursion against the reference\<close>

lemma beta_last: "\<not> Suc j < m \<Longrightarrow> beta t e m j = (\<lambda>_. 1)"
  by (simp add: beta.simps)

lemma beta_step:
  "Suc j < m \<Longrightarrow> beta t e m j i = (\<Sum>k<erows e. eget t i k * (eget e k (Suc j) * beta t e m (Suc j) k))"
  by (simp add: beta.simps)

lemma bwd_scaled:
  assumes "\<forall>k<m. sc k \<noteq> 0"
  shows "bwd t e sc m j i * (\<Prod>k\<in>{Suc j..<m}. sc k) = beta t e m j i"
proof (induction "m - j" arbitrary: j i)
  case 0
  then show ?case by (simp add: bwd_last beta_last)
next
  case (Suc d)
  show ?case
  proof (cases "Suc j < m")
    case False
    then show ?thesis by (simp add: bwd_last beta_last)
  next
    case True
    let ?P = "\<Prod>k\<in>{Suc (Suc j)..<m}. sc k"
    have IH: "bwd t e sc m (Suc j) k * ?P = beta t e m (Suc j) k" for k
      using Suc.hyps(1)[of "Suc j"] Suc.hyps(2) by simp
    have split: "(\<Prod>k\<in>{Suc j..<m}. sc k) = sc (Suc j) * ?P"
      using True by (simp add: prod.atLeast_Suc_lessThan)
    have nz: "sc (Suc j) \<noteq> 0" using assms True by blast
    let ?S = "\<Sum>k<erows e. eget t i k * (eget e k (Suc j) * bwd t e sc m (Suc j) k)"
    have "bwd t e sc m j i * (\<Prod>k\<in>{Suc j..<m}. sc k) = ?S / sc (Suc j) * (sc (Suc j) * ?P)"
      using True by (simp only: bwd_step split)
    also have "\<dots> = ?S * ?P"
      using nz by simp
    also have "\<dots> = (\<Sum>k<erows e. eget t i k * (eget e k (Suc j) * (bwd t e sc m (Suc j) k * ?P)))"
      by (simp add: sum_distrib_right mult.assoc)
    also have "\<dots> = beta t e m j i"
      using True by (simp add: IH beta_step)
    finally show ?thesis .
  qed
qed

lemma prod_split_at:
  "(j::nat) \<le> m \<Longrightarrow> (\<Prod>k<m. f k) = (\<Prod>k<j. f k) * (\<Prod>k\<in>{j..<m}. (f k :: real))"
  using prod.atLeastLessThan_concat[of 0 j m f] by (simp add: atLeast0LessThan)


lemma prod_lessThan_Suc_real: "(\<Prod>k<Suc j. f k) = (\<Prod>k<j. f k) * (f j :: real)"
  by simp

lemma fwd_bwd_normalised:
  assumes "\<forall>k<m. snd (fwd s t e k) \<noteq> 0" and "j < m"
  shows "(\<Sum>i<erows e. fst (fwd s t e j) i * bwd t e (\<lambda>k. snd (fwd s t e k)) m j i) = 1"
  using assms(2)
proof (induction "m - j" arbitrary: j)
  case 0
  then show ?case by simp
next
  case (Suc d)
  let ?c = "\<lambda>j. fst (fwd s t e j)" and ?z = "\<lambda>k. snd (fwd s t e k)" and ?n = "erows e"
  show ?case
  proof (cases "Suc j < m")
    case False
    with Suc.prems have "j < m" by simp
    with False assms(1) show ?thesis
      by (simp add: bwd_last fwd_normalised)
  next
    case True
    let ?b = "bwd t e ?z m (Suc j)"
    have zj: "?z (Suc j) \<noteq> 0" using True assms(1) by blast
    have fk: "(\<Sum>i<?n. ?c j i * eget t i k) * (eget e k (Suc j) * ?b k) = ?c (Suc j) k * ?z (Suc j) * ?b k" for k
      using fwd_Suc_fst[OF zj, of k] by (simp only: mult.assoc[symmetric])
    have "(\<Sum>i<?n. ?c j i * bwd t e ?z m j i) =
          (\<Sum>i<?n. ?c j i * (\<Sum>k<?n. eget t i k * (eget e k (Suc j) * ?b k))) / ?z (Suc j)"
      using True by (simp add: bwd_step sum_divide_distrib[symmetric])
    also have "\<dots> = (\<Sum>k<?n. (\<Sum>i<?n. ?c j i * eget t i k) * (eget e k (Suc j) * ?b k)) / ?z (Suc j)"
      by (simp only: sum_swap_mult)
    also have "\<dots> = (\<Sum>k<?n. ?c (Suc j) k * ?z (Suc j) * ?b k) / ?z (Suc j)"
      by (simp only: fk)
    also have "\<dots> = (\<Sum>k<?n. ?c (Suc j) k * ?b k)"
      using zj by (simp add: sum_divide_distrib del: fwd.simps)
    also have "\<dots> = 1"
      using Suc.hyps(1)[of "Suc j"] Suc.hyps(2) True by simp
    finally show ?thesis .
  qed
qed

section \<open>The derivative of the forward recursion\<close>

lemma normalise_deriv:
  assumes da: "\<And>i. i < n \<Longrightarrow> ((\<lambda>x. a x i) has_real_derivative da i) (at x0)"
    and nz: "vsum n (a x0) \<noteq> 0"
  shows "((\<lambda>x. snd (normalise n (a x))) has_real_derivative snd (dnormalise n (a x0) da)) (at x0)"
    and "i < n \<Longrightarrow> ((\<lambda>x. fst (normalise n (a x)) i) has_real_derivative fst (dnormalise n (a x0) da) i) (at x0)"
proof -
  have dz: "((\<lambda>x. vsum n (a x)) has_real_derivative vsum n da) (at x0)"
    unfolding vsum_def by (rule DERIV_sum) (simp add: da)
  then show "((\<lambda>x. snd (normalise n (a x))) has_real_derivative snd (dnormalise n (a x0) da)) (at x0)"
    by (simp add: normalise_def dnormalise_def Let_def)
  assume "i < n"
  then have "((\<lambda>x. a x i / vsum n (a x)) has_real_derivative
          (da i * vsum n (a x0) - a x0 i * vsum n da) / (vsum n (a x0) * vsum n (a x0))) (at x0)"
    by (intro DERIV_divide da dz nz)
  then show "((\<lambda>x. fst (normalise n (a x)) i) has_real_derivative fst (dnormalise n (a x0) da) i) (at x0)"
    using nz by (simp add: normalise_def dnormalise_def Let_def) (simp add: field_simps)
qed

lemma fwd_deriv:
  fixes S T E :: "real \<Rightarrow> emat"
  assumes rows: "\<And>x. erows (E x) = n"
    and dS: "\<And>i. i < n \<Longrightarrow> ((\<lambda>x. eget (S x) i 0) has_real_derivative eget ds i 0) (at x0)"
    and dT: "\<And>i k. i < n \<Longrightarrow> k < n \<Longrightarrow> ((\<lambda>x. eget (T x) i k) has_real_derivative eget dt i k) (at x0)"
  shows "(\<forall>i<n. \<forall>k\<le>j. ((\<lambda>x. eget (E x) i k) has_real_derivative eget de i k) (at x0)) \<Longrightarrow>
         (\<forall>k\<le>j. snd (fwd (S x0) (T x0) (E x0) k) \<noteq> 0) \<Longrightarrow>
         (\<forall>i<n. ((\<lambda>x. fst (fwd (S x) (T x) (E x) j) i) has_real_derivative
               fst (dfwd (S x0) (T x0) (E x0) (snd (ForwardHmmLikelihood_DF_compute (S x0) (T x0) (E x0))) ds dt de j) i) (at x0)) \<and>
         ((\<lambda>x. snd (fwd (S x) (T x) (E x) j)) has_real_derivative
               snd (dfwd (S x0) (T x0) (E x0) (snd (ForwardHmmLikelihood_DF_compute (S x0) (T x0) (E x0))) ds dt de j)) (at x0)"
proof (induction j)
  case 0
  let ?a = "\<lambda>x. cwise (col (S x) 0) (col (E x) 0)"
  have eq: "fwd (S x) (T x) (E x) 0 = normalise n (?a x)" for x
    by (simp add: rows)
  have da: "((\<lambda>x. ?a x i) has_real_derivative eget ds i 0 * eget (E x0) i 0 + eget (S x0) i 0 * eget de i 0) (at x0)"
    if "i < n" for i
  proof -
    have "((\<lambda>x. eget (E x) i 0) has_real_derivative eget de i 0) (at x0)"
      using that "0.prems"(1) by simp
    then show ?thesis
      unfolding cwise_def col_def by (rule DERIV_cong[OF DERIV_mult[OF dS[OF that]]]) simp
  qed
  have nz0: "vsum n (?a x0) \<noteq> 0"
    using "0.prems"(2) by (simp add: normalise_def Let_def rows)
  show ?case
    unfolding eq dfwd.simps rows using normalise_deriv[OF da nz0] by blast
next
  case (Suc j)
  let ?c = "\<lambda>x. fst (fwd (S x) (T x) (E x) j)" and ?dc = "fst (dfwd (S x0) (T x0) (E x0) (snd (ForwardHmmLikelihood_DF_compute (S x0) (T x0) (E x0))) ds dt de j)"
  let ?a = "\<lambda>x. cwise (tmat_vec n (eget (T x)) (?c x)) (col (E x) (Suc j))"
  have IH: "((\<lambda>x. ?c x k) has_real_derivative ?dc k) (at x0)" if "k < n" for k
    using Suc.IH Suc.prems that by simp
  have eq: "fwd (S x) (T x) (E x) (Suc j) = normalise n (?a x)" for x
    by (simp add: rows)
  have dp: "((\<lambda>x. tmat_vec n (eget (T x)) (?c x) i) has_real_derivative
              tmat_vec n (eget dt) (?c x0) i + tmat_vec n (eget (T x0)) ?dc i) (at x0)" if "i < n" for i
    unfolding tmat_vec_def
    by (rule DERIV_cong[OF DERIV_sum[OF DERIV_mult[OF dT IH]]]) (simp_all add: that sum.distrib mult.commute)
  have da: "((\<lambda>x. ?a x i) has_real_derivative
              (tmat_vec n (eget dt) (?c x0) i + tmat_vec n (eget (T x0)) ?dc i) * eget (E x0) i (Suc j) +
              tmat_vec n (eget (T x0)) (?c x0) i * eget de i (Suc j)) (at x0)" if "i < n" for i
  proof -
    have "((\<lambda>x. eget (E x) i (Suc j)) has_real_derivative eget de i (Suc j)) (at x0)"
      using that Suc.prems(1) by simp
    then show ?thesis
      unfolding cwise_def col_def by (rule DERIV_cong[OF DERIV_mult[OF dp[OF that]]]) simp
  qed
  have "snd (fwd (S x0) (T x0) (E x0) (Suc j)) \<noteq> 0"
    using Suc.prems(2) by blast
  then have nz1: "vsum n (?a x0) \<noteq> 0"
    by (simp add: normalise_def Let_def rows)
  show ?case
    unfolding eq dfwd.simps Let_def rows using normalise_deriv[OF da nz1] by (simp add: cwise_def col_def)
qed

lemma ex_fwd_values:
  "snd (fwd ex_start ex_trans ex_emis 0) = 5/16 \<and> snd (fwd ex_start ex_trans ex_emis (Suc 0)) = 1/4 \<and>
   snd (fwd ex_start ex_trans ex_emis (Suc (Suc 0))) = 451/2000"
  by (simp add: ex_start_def ex_trans_def ex_emis_def mat_simps normalise_def Let_def numeral_2_eq_2)

lemma ex_cols: "ecols ex_emis = 3" "erows ex_emis = 2"
  by (simp_all add: ex_emis_def mat_simps)

lemma ex_values_nz: "\<forall>k<ecols ex_emis. eget (fst (ForwardHmmLikelihood_DF_compute ex_start ex_trans ex_emis)) 0 k \<noteq> 0"
  using ex_fwd_values by (simp add: ex_cols numeral_3_eq_3 less_Suc_eq del: fwd.simps)



section \<open>Properties of the node values\<close>

text \<open>
  the forward node's value: the product of its site values over all sites is the
  likelihood of the whole observation sequence, the sum over all hidden paths.
\<close>

lemma forward_value_likelihood:
  assumes "\<forall>j<ecols e. eget (fst (ForwardHmmLikelihood_DF_compute s t e)) 0 j \<noteq> 0"
  shows "(\<Prod>j<ecols e. eget (fst (ForwardHmmLikelihood_DF_compute s t e)) 0 j) = brute_likelihood s t e (ecols e)"
  using assms brute_prod by simp

text \<open>
  the forward node's owned matrix \<open>condLik_\<close> holds, at state \<open>i\<close> and site \<open>j\<close>,
  the joint probability of the first \<open>j + 1\<close> observations and of hidden state \<open>i\<close>
  at site \<open>j\<close> (the sum over the hidden paths ending in \<open>i\<close>), divided by the
  probability of those observations, as its comment states.
\<close>

lemma forward_condLik_posterior:
  assumes "\<forall>k\<le>j. eget (fst (ForwardHmmLikelihood_DF_compute s t e)) 0 k \<noteq> 0"
  shows "eget (snd (ForwardHmmLikelihood_DF_compute s t e)) i j =
         (\<Sum>ys\<leftarrow>List.n_lists j [0..<erows e]. path_weight s t e (i # ys)) / brute_likelihood s t e (Suc j)"
  using assms fwd_posterior alpha_paths by simp

text \<open>
  the site value of the forward node at site \<open>j\<close> is the probability of the
  observation at \<open>j\<close> given the earlier ones: times the probability of the first \<open>j\<close>
  observations it gives the probability of the first \<open>j + 1\<close>.
\<close>

lemma forward_value_conditional:
  assumes "\<forall>k\<le>j. eget (fst (ForwardHmmLikelihood_DF_compute s t e)) 0 k \<noteq> 0"
  shows "eget (fst (ForwardHmmLikelihood_DF_compute s t e)) 0 j * brute_likelihood s t e j =
         brute_likelihood s t e (Suc j)"
proof -
  have nz: "\<forall>k<Suc j. snd (fwd s t e k) \<noteq> 0" using assms by (simp add: less_Suc_eq_le)
  then have "\<forall>k<j. snd (fwd s t e k) \<noteq> 0" by simp
  then show ?thesis
    using brute_prod[OF nz] brute_prod[of j] by (simp add: mult.commute)
qed

text \<open>
  forward and backward agree: at every site, the forward matrix column times the
  backward matrix column, summed over the states, is one (the posterior state
  probabilities sum to one).
\<close>

lemma forward_backward_normalised:
  assumes "\<forall>k<ecols e. eget (fst (ForwardHmmLikelihood_DF_compute s t e)) 0 k \<noteq> 0" and "j < ecols e"
  shows "(\<Sum>i<erows e. eget (snd (ForwardHmmLikelihood_DF_compute s t e)) i j *
            eget (BackwardHmmLikelihood_DF_compute (fst (ForwardHmmLikelihood_DF_compute s t e)) t e) i j) = 1"
  using assms fwd_bwd_normalised[of "ecols e" s t e j] by simp

text \<open>
  the backward node's value at state \<open>i\<close> and site \<open>j\<close> is the probability of
  the later observations given hidden state \<open>i\<close> at \<open>j\<close> (the unscaled backward
  recursion), divided by the probability of the later observations given the earlier
  ones, as its comment states.
\<close>

lemma backward_value_conditional:
  assumes "\<forall>k<ecols e. eget (fst (ForwardHmmLikelihood_DF_compute s t e)) 0 k \<noteq> 0" and "j < ecols e"
  shows "eget (BackwardHmmLikelihood_DF_compute (fst (ForwardHmmLikelihood_DF_compute s t e)) t e) i j *
           brute_likelihood s t e (ecols e) =
         beta t e (ecols e) j i * brute_likelihood s t e (Suc j)"
proof -
  let ?m = "ecols e" and ?z = "\<lambda>k. snd (fwd s t e k)"
  have nz: "\<forall>k<?m. ?z k \<noteq> 0" using assms(1) by simp
  have pre: "\<forall>k<Suc j. ?z k \<noteq> 0" using nz assms(2) by simp
  have "brute_likelihood s t e ?m = (\<Prod>k<Suc j. ?z k) * (\<Prod>k\<in>{Suc j..<?m}. ?z k)"
    using brute_prod[OF nz] prod_split_at[of "Suc j" ?m ?z] assms(2) by simp
  moreover have "brute_likelihood s t e (Suc j) = (\<Prod>k<Suc j. ?z k)"
    by (rule brute_prod[OF pre])
  ultimately show ?thesis
    using bwd_scaled[OF nz, of t e j i] by (simp add: mult.assoc mult.left_commute[of "bwd t e ?z ?m j i"])
qed

text \<open>
  the first-order forward node computes the derivative of the forward node: when
  the starting vector, the transition matrix and the emission matrix depend
  differentiably on a parameter \<open>x\<close> with derivatives \<open>ds\<close>, \<open>dt\<close>, \<open>de\<close> at \<open>x0\<close>,
  the value and the matrix \<open>dCondLik_\<close> of \<open>ForwardHmmDLikelihood_DF\<close> at site \<open>j\<close>,
  computed from the primal node's \<open>condLik_\<close>, are the derivatives at \<open>x0\<close> of the
  value and of \<open>condLik_\<close> of \<open>ForwardHmmLikelihood_DF\<close>.
\<close>

lemma forward_derivative:
  fixes S T E :: "real \<Rightarrow> emat"
  assumes rows: "\<And>x. erows (E x) = n"
    and dS: "\<forall>i<n. ((\<lambda>x. eget (S x) i 0) has_real_derivative eget ds i 0) (at x0)"
    and dT: "\<forall>i<n. \<forall>k<n. ((\<lambda>x. eget (T x) i k) has_real_derivative eget dt i k) (at x0)"
    and dE: "\<forall>i<n. \<forall>k\<le>j. ((\<lambda>x. eget (E x) i k) has_real_derivative eget de i k) (at x0)"
    and nz: "\<forall>k\<le>j. eget (fst (ForwardHmmLikelihood_DF_compute (S x0) (T x0) (E x0))) 0 k \<noteq> 0"
  shows "((\<lambda>x. eget (fst (ForwardHmmLikelihood_DF_compute (S x) (T x) (E x))) 0 j) has_real_derivative
            eget (fst (ForwardHmmDLikelihood_DF_compute (S x0) (T x0) (E x0)
                         (snd (ForwardHmmLikelihood_DF_compute (S x0) (T x0) (E x0))) ds dt de)) 0 j) (at x0) \<and>
         (\<forall>i<n. ((\<lambda>x. eget (snd (ForwardHmmLikelihood_DF_compute (S x) (T x) (E x))) i j) has_real_derivative
            eget (snd (ForwardHmmDLikelihood_DF_compute (S x0) (T x0) (E x0)
                         (snd (ForwardHmmLikelihood_DF_compute (S x0) (T x0) (E x0))) ds dt de)) i j) (at x0))"
proof -
  have "(\<forall>i<n. ((\<lambda>x. fst (fwd (S x) (T x) (E x) j) i) has_real_derivative
               fst (dfwd (S x0) (T x0) (E x0) (snd (ForwardHmmLikelihood_DF_compute (S x0) (T x0) (E x0))) ds dt de j) i) (at x0)) \<and>
        ((\<lambda>x. snd (fwd (S x) (T x) (E x) j)) has_real_derivative
               snd (dfwd (S x0) (T x0) (E x0) (snd (ForwardHmmLikelihood_DF_compute (S x0) (T x0) (E x0))) ds dt de j)) (at x0)"
  proof -
    have dS': "((\<lambda>x. eget (S x) i 0) has_real_derivative eget ds i 0) (at x0)" if "i < n" for i
      using dS that by blast
    have dT': "((\<lambda>x. eget (T x) i k) has_real_derivative eget dt i k) (at x0)" if "i < n" "k < n" for i k
      using dT that by blast
    have nz': "\<forall>k\<le>j. snd (fwd (S x0) (T x0) (E x0) k) \<noteq> 0"
      using nz by simp
    show ?thesis
      by (rule fwd_deriv[where E = E and S = S and T = T, OF rows dS' dT' dE nz'])
  qed
  then show ?thesis
    by (simp add: ForwardHmmDLikelihood_DF_compute_def mat_simps)
qed

lemma ex_trans_x_deriv:
  "\<forall>i<2. \<forall>k<2. ((\<lambda>x. eget (ex_trans_x x) i k) has_real_derivative eget ex_dtrans i k) (at x0)"
proof -
  have "((\<lambda>x. eget (ex_trans_x x) i k) has_real_derivative eget ex_dtrans i k) (at x0)"
    if "i < 2" "k < 2" for i k
  proof -
    from that consider "i = 0" "k = 0" | "i = 0" "k = 1" | "i = 1" "k = 0" | "i = 1" "k = 1"
      by (fastforce simp: less_2_cases_iff)
    then show ?thesis
      by cases (auto simp: ex_trans_x_def ex_dtrans_def mat_simps intro!: derivative_eq_intros)
  qed
  then show ?thesis by blast
qed

end
