(* ===== verification/Evaluation.thy ===== *)
theory Evaluation
  imports HmmNodes HmmCompute
begin

text \<open>
  Evaluation of a dataflow context (specification, sections 3 and 4.1): the value of a
  node is its \<open>compute()\<close> applied to the values of its dependencies, in dependency
  order. Evaluating the arena from the first node to the last gives every node its
  value; a well-formed context depends only on earlier nodes, so this is the value
  demand-driven evaluation produces. The \<open>compute()\<close> of each HMM node class is the one
  of \<open>HmmCompute\<close>; a \<open>CondLikelihood\<close> node computes nothing and holds the matrix its
  owner (its first dependency) fills in. The theorems here connect the constructors of
  \<open>HmmNodes\<close> to those values: the node a \<open>create\<close> returns, built fresh or found in the
  cache, evaluates to the node class's computation on the values of its dependencies.
\<close>

section \<open>Values\<close>

text \<open>
  The value of a node: none (the classes not modelled), a string constant, a matrix,
  or a value together with the matrix the node writes into the \<open>CondLikelihood\<close> node
  it owns (\<open>condLik_\<close>, \<open>dCondLik_\<close>).
\<close>

datatype dfvalue = VNone | VString string | VMatrix emat | VWithCond emat emat
  | VModel "real \<Rightarrow> emat" emat

text \<open>\<open>accessValueConstCast<Eigen::MatrixXd>\<close> and \<open>getForwardCondLikelihood()->getTargetValue()\<close>.\<close>

definition empty_emat :: emat where
  "empty_emat = mk_emat 0 0 (\<lambda>_ _. 0)"

fun value_mat :: "dfvalue \<Rightarrow> emat" where
  "value_mat (VMatrix m) = m"
| "value_mat (VWithCond v _) = v"
| "value_mat _ = empty_emat"

fun value_cond :: "dfvalue \<Rightarrow> emat" where
  "value_cond (VWithCond _ cl) = cl"
| "value_cond _ = empty_emat"

text \<open>
  The transition probabilities of a substitution model from its eigendecomposition,
  \<open>P(t) = V exp(D t) V\<^sup>-\<^sup>1\<close>, and the row vector of its equilibrium frequencies.
\<close>

definition eigen_transition :: "real list list \<Rightarrow> real list \<Rightarrow> real list list \<Rightarrow> real \<Rightarrow> emat" where
  "eigen_transition v lam vi t =
     mk_emat (length lam) (length lam) (\<lambda>i j. \<Sum>k<length lam. v ! i ! k * exp (lam ! k * t) * vi ! k ! j)"

text \<open>
  \<open>compute()\<close> of a node from the values of its dependencies, by class. The classes of
  the dataflow library the tree builder creates compute as the specification (4.2)
  describes them: a transition matrix from the model and a branch length, the
  propagation of a conditional likelihood along a branch (\<open>P(t) \<cdot> L\<close>), the
  elementwise product of the children's forward likelihoods, the site likelihoods
  from the root frequencies, the sum of their logarithms, and its negation.
\<close>

definition node_compute :: "node \<Rightarrow> dfvalue list \<Rightarrow> dfvalue" where
  "node_compute n vs =
     (case kind n of
        NumericConstant \<Rightarrow>
          (case payload n of MatArg rs \<Rightarrow> VMatrix (emat_of_rows rs) | StrArg s \<Rightarrow> VString s | NoArgs \<Rightarrow> VNone)
      | CondLikelihood \<Rightarrow> (case vs ! 0 of VWithCond _ cl \<Rightarrow> VMatrix cl | _ \<Rightarrow> VNone)
      | ForwardHmmLikelihood \<Rightarrow>
          (let r = ForwardHmmLikelihood_DF_compute (value_mat (vs ! 0)) (value_mat (vs ! 1)) (value_mat (vs ! 2))
           in VWithCond (fst r) (snd r))
      | ForwardHmmDLikelihood \<Rightarrow>
          (let r = ForwardHmmDLikelihood_DF_compute (value_mat (vs ! 0)) (value_mat (vs ! 1)) (value_mat (vs ! 2))
                     (value_cond (vs ! 3)) (value_mat (vs ! 4)) (value_mat (vs ! 5)) (value_mat (vs ! 6))
           in VWithCond (fst r) (snd r))
      | BackwardHmmLikelihood \<Rightarrow>
          VMatrix (BackwardHmmLikelihood_DF_compute (value_mat (vs ! 0)) (value_mat (vs ! 1)) (value_mat (vs ! 2)))
      | NumericMutable \<Rightarrow> (case payload n of MatArg rs \<Rightarrow> VMatrix (emat_of_rows rs) | _ \<Rightarrow> VNone)
      | ConfiguredFrequenciesSet \<Rightarrow> (case payload n of MatArg rs \<Rightarrow> VMatrix (emat_of_rows rs) | _ \<Rightarrow> VNone)
      | ConfiguredModel \<Rightarrow>
          (case payload n of
             ModelArg v lam vi fr \<Rightarrow> VModel (eigen_transition v lam vi) (emat_of_rows [fr])
           | _ \<Rightarrow> VNone)
      | TransitionMatrixFromModel \<Rightarrow>
          (case vs ! 0 of VModel p _ \<Rightarrow> VMatrix (p (eget (value_mat (vs ! 1)) 0 0)) | _ \<Rightarrow> VNone)
      | EquilibriumFrequenciesFromModel \<Rightarrow> (case vs ! 0 of VModel _ fr \<Rightarrow> VMatrix fr | _ \<Rightarrow> VNone)
      | FrequenciesFromFrequenciesSet \<Rightarrow> VMatrix (value_mat (vs ! 0))
      | ForwardLikelihoodFromConditional \<Rightarrow>
          (let tm = value_mat (vs ! 0); ch = value_mat (vs ! 1)
           in VMatrix (mk_emat (erows tm) (ecols ch) (\<lambda>i j. \<Sum>k<ecols tm. eget tm i k * eget ch k j)))
      | ConditionalLikelihoodFromChildrenForward \<Rightarrow>
          (let m0 = value_mat (vs ! 0)
           in VMatrix (mk_emat (erows m0) (ecols m0) (\<lambda>i j. \<Prod>v\<leftarrow>vs. eget (value_mat v) i j)))
      | LikelihoodFromRootConditional \<Rightarrow>
          (let f = value_mat (vs ! 0); cl = value_mat (vs ! 1)
           in VMatrix (mk_emat 1 (ecols cl) (\<lambda>_ j. \<Sum>k<ecols f. eget f 0 k * eget cl k j)))
      | TotalLogLikelihood \<Rightarrow>
          (let v = value_mat (vs ! 0) in VMatrix (mk_emat 1 1 (\<lambda>_ _. \<Sum>j<ecols v. ln (eget v 0 j))))
      | CWiseNegate \<Rightarrow>
          (let x = value_mat (vs ! 0) in VMatrix (mk_emat (erows x) (ecols x) (\<lambda>i j. - eget x i j)))
      | _ \<Rightarrow> VNone)"

text \<open>
  Evaluation of the arena in allocation order; a dependency on a node not evaluated yet
  (impossible in a well-formed context) reads no value.
\<close>

definition eval_step :: "dfvalue list \<Rightarrow> node \<Rightarrow> dfvalue list" where
  "eval_step vs n = vs @ [node_compute n (map (\<lambda>d. if d < length vs then vs ! d else VNone) (deps n))]"

definition eval_heap :: "node list \<Rightarrow> dfvalue list" where
  "eval_heap h = foldl eval_step [] h"

definition node_value :: "ctx \<Rightarrow> nat \<Rightarrow> dfvalue" where
  "node_value c a = eval_heap (heap c) ! a"

text \<open>The value of the \<open>i\<close>-th dependency reference, read as a matrix.\<close>

abbreviation dep_mat :: "ctx \<Rightarrow> nat option list \<Rightarrow> nat \<Rightarrow> emat" where
  "dep_mat c ds i \<equiv> value_mat (node_value c (the (ds ! i)))"

subsection \<open>Example contexts\<close>

text \<open>
  The context of \<open>HmmNodes.ex_hmm_ctx\<close> after \<open>ForwardHmmLikelihood_DF::create\<close> on its
  three constants (the forward node at address 3, its name constant and its owned
  \<open>CondLikelihood\<close> node at 4 and 5), and after \<open>BackwardHmmLikelihood_DF::create\<close> on
  the forward node and the same transition and emission matrices (address 6).
\<close>

definition ex_fwd_ctx :: ctx where
  "ex_fwd_ctx =
     \<lparr>heap = heap ex_hmm_ctx @
        [(mk_node ForwardHmmLikelihood [0, 1, 2] TRowVectorXd (1, 3) (2, 3) NoArgs)\<lparr>owned := Some 5\<rparr>,
         mk_node NumericConstant [] TString (1, 1) (1, 1) (StrArg ''forwardCondLik''),
         mk_node CondLikelihood [3, 4] TMatrixXd (2, 3) (2, 3) NoArgs],
      cache = [0, 1, 2, 4, 5, 3]\<rparr>"

definition ex_bwd_ctx :: ctx where
  "ex_bwd_ctx =
     \<lparr>heap = heap ex_fwd_ctx @ [mk_node BackwardHmmLikelihood [3, 1, 2] TMatrixXd (2, 3) (2, 3) NoArgs],
      cache = cache ex_fwd_ctx @ [6]\<rparr>"

text \<open>
  Constants for the first-order node: the starting vector, a transition matrix
  \<open>ex_trans_x (1/10)\<close>, the emission matrix, and the derivatives of the three with
  respect to the rate \<open>x\<close> (addresses 0 to 5); then the forward node (address 6) and
  the first-order forward node (address 9) built on them.
\<close>

definition ex_d_ctx0 :: ctx where
  "ex_d_ctx0 =
     \<lparr>heap = [mk_node NumericConstant [] TVectorXd (2, 1) (2, 1) (MatArg [[1/2], [1/2]]),
              mk_node NumericConstant [] TMatrixXd (2, 2) (2, 2) (MatArg [[9/10, 1/10], [1/10, 9/10]]),
              mk_node NumericConstant [] TMatrixXd (2, 3) (2, 3) (MatArg [[1/2, 1/4, 1/8], [1/8, 1/4, 1/2]]),
              mk_node NumericConstant [] TVectorXd (2, 1) (2, 1) (MatArg [[0], [0]]),
              mk_node NumericConstant [] TMatrixXd (2, 2) (2, 2) (MatArg [[-1, 1], [1, -1]]),
              mk_node NumericConstant [] TMatrixXd (2, 3) (2, 3) (MatArg [[0, 0, 0], [0, 0, 0]])],
      cache = [0, 1, 2, 3, 4, 5]\<rparr>"

definition ex_d_ctx1 :: ctx where
  "ex_d_ctx1 =
     \<lparr>heap = heap ex_d_ctx0 @
        [(mk_node ForwardHmmLikelihood [0, 1, 2] TRowVectorXd (1, 3) (2, 3) NoArgs)\<lparr>owned := Some 8\<rparr>,
         mk_node NumericConstant [] TString (1, 1) (1, 1) (StrArg ''forwardCondLik''),
         mk_node CondLikelihood [6, 7] TMatrixXd (2, 3) (2, 3) NoArgs],
      cache = [0, 1, 2, 3, 4, 5, 7, 8, 6]\<rparr>"

definition ex_d_ctx2 :: ctx where
  "ex_d_ctx2 =
     \<lparr>heap = heap ex_d_ctx1 @
        [(mk_node ForwardHmmDLikelihood [0, 1, 2, 6, 3, 4, 5] TRowVectorXd (1, 3) (2, 3) NoArgs)\<lparr>owned := Some 11\<rparr>,
         mk_node NumericConstant [] TString (1, 1) (1, 1) (StrArg ''forwardDcondLik''),
         mk_node CondLikelihood [9, 10] TMatrixXd (2, 3) (2, 3) NoArgs],
      cache = [0, 1, 2, 3, 4, 5, 7, 8, 6, 10, 11, 9]\<rparr>"

section \<open>Evaluation lemmas\<close>

lemma foldl_eval_step_prefix: "\<exists>ys. foldl eval_step vs h = vs @ ys \<and> length ys = length h"
proof (induction h arbitrary: vs)
  case (Cons n h)
  obtain ys where ys: "foldl eval_step (eval_step vs n) h = eval_step vs n @ ys" "length ys = length h"
    using Cons.IH by blast
  obtain x where "eval_step vs n = vs @ [x]"
    by (simp add: eval_step_def)
  with ys show ?case
    by (intro exI[of _ "x # ys"]) simp
qed simp

lemma eval_heap_snoc: "eval_heap (h @ [n]) = eval_step (eval_heap h) n"
  by (simp add: eval_heap_def)

lemma length_eval_heap [simp]: "length (eval_heap h) = length h"
  using foldl_eval_step_prefix[of "[]" h] by (auto simp: eval_heap_def)

lemma eval_heap_append_nth:
  "a < length h1 \<Longrightarrow> eval_heap (h1 @ h2) ! a = eval_heap h1 ! a"
proof -
  assume a: "a < length h1"
  obtain ys where "foldl eval_step (eval_heap h1) h2 = eval_heap h1 @ ys"
    using foldl_eval_step_prefix by blast
  then have "eval_heap (h1 @ h2) = eval_heap h1 @ ys"
    by (simp add: eval_heap_def)
  then show ?thesis
    using a by (simp add: nth_append)
qed

lemma eval_heap_nth:
  assumes "a < length h" and "\<forall>d\<in>set (deps (h ! a)). d < a"
  shows "eval_heap h ! a = node_compute (h ! a) (map (\<lambda>d. eval_heap h ! d) (deps (h ! a)))"
proof -
  have h: "h = (take a h @ [h ! a]) @ drop (Suc a) h"
    using assms(1) by (simp add: Cons_nth_drop_Suc)
  have pre: "eval_heap h ! d = eval_heap (take a h) ! d" if "d < a" for d
    using eval_heap_append_nth[of d "take a h" "h ! a # drop (Suc a) h"] that assms(1) h
    by (simp add: Cons_nth_drop_Suc)
  have "eval_heap h ! a = eval_heap (take a h @ [h ! a]) ! a"
    using eval_heap_append_nth[of a "take a h @ [h ! a]" "drop (Suc a) h"] assms(1) h by simp
  also have "\<dots> = node_compute (h ! a) (map (\<lambda>d. if d < a then eval_heap (take a h) ! d else VNone) (deps (h ! a)))"
    using assms(1) by (simp add: eval_heap_snoc eval_step_def nth_append min_def)
  also have "\<dots> = node_compute (h ! a) (map (\<lambda>d. eval_heap h ! d) (deps (h ! a)))"
    using assms(2) pre by (intro arg_cong[where f = "node_compute (h ! a)"] map_cong) auto
  finally show ?thesis .
qed

lemma node_value_eq:
  "wf_context c \<Longrightarrow> a < length (heap c) \<Longrightarrow>
   node_value c a = node_compute (heap c ! a) (map (node_value c) (deps (heap c ! a)))"
  unfolding node_value_def wf_context_def by (rule eval_heap_nth) auto

text \<open>Evaluation ignores the reference a node keeps to the node it built.\<close>

lemma node_compute_owned [simp]: "node_compute (n\<lparr>owned := x\<rparr>) vs = node_compute n vs"
  by (cases "kind n") (simp_all add: node_compute_def)

lemma eval_heap_clear_owned: "eval_heap (map (\<lambda>n. n\<lparr>owned := None\<rparr>) h) = eval_heap h"
  by (induction h rule: rev_induct) (simp_all add: eval_heap_snoc eval_step_def)

lemma node_value_ext:
  assumes "ctx_ext c c'" and "a < length (heap c)"
  shows "node_value c' a = node_value c a"
proof -
  let ?L = "length (heap c)" and ?clr = "map (\<lambda>n. n\<lparr>owned := None\<rparr>)"
  have len: "?L \<le> length (heap c')" using assms(1) by (rule ctx_ext_length)
  have clr: "?clr (take ?L (heap c')) = ?clr (heap c)"
  proof (rule nth_equalityI)
    show "length (?clr (take ?L (heap c'))) = length (?clr (heap c))"
      using len by simp
    fix i
    assume "i < length (?clr (take ?L (heap c')))"
    then have "i < ?L" by simp
    then show "?clr (take ?L (heap c')) ! i = ?clr (heap c) ! i"
      using assms(1) by (simp add: ctx_ext_def)
  qed
  have "node_value c' a = eval_heap (take ?L (heap c') @ drop ?L (heap c')) ! a"
    by (simp add: node_value_def)
  also have "\<dots> = eval_heap (take ?L (heap c')) ! a"
    using assms(2) len by (intro eval_heap_append_nth) simp
  also have "\<dots> = eval_heap (heap c) ! a"
    using eval_heap_clear_owned[of "take ?L (heap c')"] eval_heap_clear_owned[of "heap c"] clr by simp
  finally show ?thesis by (simp add: node_value_def)
qed

section \<open>The node a constructor returns\<close>

text \<open>
  \<open>cachedAs\<close> returns a node with the identity signature of the node it was given, and
  the owned-node registration of \<open>build\<close> does not change the signature of the node
  being built.
\<close>

lemma cvalid_cachedAs_result:
  "cvalid (\<lambda>c. wf_context c \<and> a < length (heap c) \<and>
       (\<forall>c' r. wf_context c' \<and> ctx_ext c c' \<and> length (heap c') = length (heap c) \<and> r < length (heap c') \<and>
          r \<in> set (cache c') \<and> node_key (heap c' ! r) = node_key (heap c ! a) \<longrightarrow> Q r c'))
     (cachedAs a) Q E"
  by (rule cvalid_weaken[OF cvalid_cachedAs])
    (auto split: option.splits elim!: all_ext_mp2 intro: wf_register ctx_ext_register
      dest: find_cached_in_range find_cached_SomeD)

lemma cvalid_ext_then_cachedAs:
  assumes m: "\<And>c0 Q E. cvalid (\<lambda>c. wf_context c \<and> ctx_ext c0 c \<and> a < length (heap c) \<and>
       (\<forall>c' b. wf_context c' \<and> ctx_ext c0 c' \<and> length (heap c) \<le> length (heap c') \<longrightarrow> Q b c') \<and>
       (\<forall>c' e. wf_context c' \<and> ctx_ext c0 c' \<and> length (heap c) \<le> length (heap c') \<longrightarrow> E e c')) m Q E"
  shows "cvalid (\<lambda>c. wf_context c \<and> a < length (heap c) \<and>
       (\<forall>c' r. wf_context c' \<and> ctx_ext c c' \<and> r < length (heap c') \<and>
          r \<in> set (cache c') \<and> node_key (heap c' ! r) = node_key (heap c ! a) \<longrightarrow> Q r c'))
     (cbind m (\<lambda>_. cachedAs a)) Q (\<lambda>_ _. True)"
proof (rule cvalid_ghost)
  fix c1
  show "cvalid (\<lambda>c. (wf_context c \<and> a < length (heap c) \<and>
       (\<forall>c' r. wf_context c' \<and> ctx_ext c c' \<and> r < length (heap c') \<and>
          r \<in> set (cache c') \<and> node_key (heap c' ! r) = node_key (heap c ! a) \<longrightarrow> Q r c')) \<and> c = c1)
     (cbind m (\<lambda>_. cachedAs a)) Q (\<lambda>_ _. True)"
  proof (rule cvalid_cbind[OF _ cvalid_weaken[OF m[of c1]]])
    fix x
    show "cvalid (\<lambda>c. wf_context c \<and> ctx_ext c1 c \<and> a < length (heap c) \<and> a < length (heap c1) \<and>
        (\<forall>c' r. wf_context c' \<and> ctx_ext c1 c' \<and> r < length (heap c') \<and>
          r \<in> set (cache c') \<and> node_key (heap c' ! r) = node_key (heap c1 ! a) \<longrightarrow> Q r c'))
      (cachedAs a) Q (\<lambda>_ _. True)"
      by (rule cvalid_weaken[OF cvalid_cachedAs_result])
        (auto elim!: all_ext_mp2 intro: ctx_ext_trans simp: ctx_ext_node)
  qed (auto simp: ctx_ext_length elim!: all_ext_mp2)
qed

lemma ForwardHmmLikelihood_DF_build_ext:
  "cvalid (\<lambda>c. wf_context c \<and> ctx_ext c0 c \<and> self < length (heap c) \<and>
       (\<forall>c' b. wf_context c' \<and> ctx_ext c0 c' \<and> length (heap c) \<le> length (heap c') \<longrightarrow> Q b c') \<and>
       (\<forall>c' e. wf_context c' \<and> ctx_ext c0 c' \<and> length (heap c) \<le> length (heap c') \<longrightarrow> E e c'))
     (ForwardHmmLikelihood_DF_build self d) Q E"
  unfolding ForwardHmmLikelihood_DF_build_def dep_dim_def
  apply (rule cvalid_weaken)
   apply (rule cvalid_ext)+
  apply (auto simp: deps_valid_def elim!: all_ext_mp2 all_ext_mp)
  done

lemma ForwardHmmLikelihood_DF_create_result:
  assumes "ForwardHmmLikelihood_DF_create ds d c = (c', Inr r)" and "wf_context c" and "deps_valid c ds"
  shows "None \<notin> set ds \<and> length ds = 3 \<and> wf_context c' \<and> ctx_ext c c' \<and> r < length (heap c') \<and>
         r \<in> set (cache c') \<and> node_key (heap c' ! r) = node_key (mk_node ForwardHmmLikelihood (map the ds) TRowVectorXd (1, snd d) d NoArgs)"
proof -
  have "cvalid (\<lambda>c1. c1 = c \<and> wf_context c1 \<and> deps_valid c1 ds) (ForwardHmmLikelihood_DF_create ds d)
     (\<lambda>r c'. None \<notin> set ds \<and> length ds = 3 \<and> wf_context c' \<and> ctx_ext c c' \<and> r < length (heap c') \<and>
         r \<in> set (cache c') \<and> node_key (heap c' ! r) = node_key (mk_node ForwardHmmLikelihood (map the ds) TRowVectorXd (1, snd d) d NoArgs))
     (\<lambda>_ _. True)"
    unfolding ForwardHmmLikelihood_DF_create_def checkDependenciesNotNull_def checkDependencyVectorSize_def
      checkNthDependencyIsValue_def
    apply (rule cvalid_weaken)
     apply (rule cvalid_ext_then_cachedAs[OF ForwardHmmLikelihood_DF_build_ext] cvalid_cbind cvalid_creturn
        cvalid_cguard cvalid_cget cvalid_calloc)+
    apply (auto simp: mk_node_def deps_valid_the nth_append intro!: wf_alloc
        intro: ctx_ext_trans[OF ctx_ext_alloc])
    done
  from cvalidD[OF this _ assms(1)] assms(2,3) show ?thesis by simp
qed

lemma ForwardHmmDLikelihood_DF_build_ext:
  "cvalid (\<lambda>c. wf_context c \<and> ctx_ext c0 c \<and> self < length (heap c) \<and>
       (\<forall>c' b. wf_context c' \<and> ctx_ext c0 c' \<and> length (heap c) \<le> length (heap c') \<longrightarrow> Q b c') \<and>
       (\<forall>c' e. wf_context c' \<and> ctx_ext c0 c' \<and> length (heap c) \<le> length (heap c') \<longrightarrow> E e c'))
     (ForwardHmmDLikelihood_DF_build self d) Q E"
  unfolding ForwardHmmDLikelihood_DF_build_def
  apply (rule cvalid_weaken)
   apply (rule cvalid_ext)+
  apply (auto simp: deps_valid_def elim!: all_ext_mp2 all_ext_mp)
  done

lemma ForwardHmmDLikelihood_DF_create_result:
  assumes "ForwardHmmDLikelihood_DF_create ds d c = (c', Inr r)" and "wf_context c" and "deps_valid c ds"
  shows "None \<notin> set ds \<and> length ds = 7 \<and> wf_context c' \<and> ctx_ext c c' \<and> r < length (heap c') \<and>
         r \<in> set (cache c') \<and> node_key (heap c' ! r) = node_key (mk_node ForwardHmmDLikelihood (map the ds) TRowVectorXd (1, snd d) d NoArgs)"
proof -
  have "cvalid (\<lambda>c1. c1 = c \<and> wf_context c1 \<and> deps_valid c1 ds) (ForwardHmmDLikelihood_DF_create ds d)
     (\<lambda>r c'. None \<notin> set ds \<and> length ds = 7 \<and> wf_context c' \<and> ctx_ext c c' \<and> r < length (heap c') \<and>
         r \<in> set (cache c') \<and> node_key (heap c' ! r) = node_key (mk_node ForwardHmmDLikelihood (map the ds) TRowVectorXd (1, snd d) d NoArgs))
     (\<lambda>_ _. True)"
    unfolding ForwardHmmDLikelihood_DF_create_def checkDependenciesNotNull_def checkDependencyVectorSize_def
      checkNthDependencyIsValue_def checkNthDependencyIs_def
    apply (rule cvalid_weaken)
     apply (rule cvalid_ext_then_cachedAs[OF ForwardHmmDLikelihood_DF_build_ext] cvalid_cbind cvalid_creturn
        cvalid_cguard cvalid_cget cvalid_calloc)+
    apply (auto simp: mk_node_def deps_valid_the nth_append intro!: wf_alloc
        intro: ctx_ext_trans[OF ctx_ext_alloc])
    done
  from cvalidD[OF this _ assms(1)] assms(2,3) show ?thesis by simp
qed

lemma BackwardHmmLikelihood_DF_create_result:
  assumes "BackwardHmmLikelihood_DF_create ds d c = (c', Inr r)" and "wf_context c" and "deps_valid c ds"
  shows "None \<notin> set ds \<and> length ds = 3 \<and> wf_context c' \<and> ctx_ext c c' \<and> r < length (heap c') \<and>
         r \<in> set (cache c') \<and> node_key (heap c' ! r) = node_key (mk_node BackwardHmmLikelihood (map the ds) TMatrixXd d d NoArgs)"
proof -
  have "cvalid (\<lambda>c1. c1 = c \<and> wf_context c1 \<and> deps_valid c1 ds) (BackwardHmmLikelihood_DF_create ds d)
     (\<lambda>r c'. None \<notin> set ds \<and> length ds = 3 \<and> wf_context c' \<and> ctx_ext c c' \<and> r < length (heap c') \<and>
         r \<in> set (cache c') \<and> node_key (heap c' ! r) = node_key (mk_node BackwardHmmLikelihood (map the ds) TMatrixXd d d NoArgs))
     (\<lambda>_ _. True)"
    unfolding BackwardHmmLikelihood_DF_create_def checkDependenciesNotNull_def checkDependencyVectorSize_def
      checkNthDependencyIsValue_def
    apply (rule cvalid_weaken)
     apply (rule cvalid_cachedAs_result cvalid_cbind cvalid_creturn cvalid_cguard cvalid_cget cvalid_calloc)+
    apply (auto simp: mk_node_def deps_valid_the nth_append intro!: wf_alloc
        intro: ctx_ext_trans[OF ctx_ext_alloc])
    done
  from cvalidD[OF this _ assms(1)] assms(2,3) show ?thesis by simp
qed

section \<open>Values of the constructed nodes\<close>

lemma created_value:
  assumes "wf_context c'" and "ctx_ext c c'" and "r < length (heap c')"
    and "deps (heap c' ! r) = map the ds" and "deps_valid c ds" and "None \<notin> set ds"
  shows "node_value c' r = node_compute (heap c' ! r) (map (\<lambda>x. node_value c (the x)) ds)"
proof -
  have eq: "map (node_value c') (map the ds) = map (\<lambda>x. node_value c (the x)) ds"
    unfolding map_map using assms(2,5,6) by (auto intro: node_value_ext deps_valid_the)
  show ?thesis
    by (simp only: node_value_eq[OF assms(1,3)] assms(4) eq)
qed

lemma key_kind_deps: "node_key n = node_key (mk_node k ds t vd td p) \<Longrightarrow> kind n = k \<and> deps n = ds"
  by (simp add: node_key_def mk_node_def)

lemma ForwardHmmLikelihood_DF_create_value:
  assumes "ForwardHmmLikelihood_DF_create ds d c = (c', Inr r)" and "wf_context c" and "deps_valid c ds"
  shows "node_value c' r =
     VWithCond (fst (ForwardHmmLikelihood_DF_compute (dep_mat c ds 0) (dep_mat c ds 1) (dep_mat c ds 2)))
               (snd (ForwardHmmLikelihood_DF_compute (dep_mat c ds 0) (dep_mat c ds 1) (dep_mat c ds 2)))"
proof -
  note res = ForwardHmmLikelihood_DF_create_result[OF assms]
  then have "kind (heap c' ! r) = ForwardHmmLikelihood \<and> deps (heap c' ! r) = map the ds"
    by (intro key_kind_deps) simp
  with res created_value[of c' c r ds] assms(3) show ?thesis
    by (simp add: node_compute_def Let_def)
qed

lemma ForwardHmmDLikelihood_DF_create_value:
  assumes "ForwardHmmDLikelihood_DF_create ds d c = (c', Inr r)" and "wf_context c" and "deps_valid c ds"
  shows "node_value c' r =
     VWithCond (fst (ForwardHmmDLikelihood_DF_compute (dep_mat c ds 0) (dep_mat c ds 1) (dep_mat c ds 2)
                  (value_cond (node_value c (the (ds ! 3)))) (dep_mat c ds 4) (dep_mat c ds 5) (dep_mat c ds 6)))
               (snd (ForwardHmmDLikelihood_DF_compute (dep_mat c ds 0) (dep_mat c ds 1) (dep_mat c ds 2)
                  (value_cond (node_value c (the (ds ! 3)))) (dep_mat c ds 4) (dep_mat c ds 5) (dep_mat c ds 6)))"
proof -
  note res = ForwardHmmDLikelihood_DF_create_result[OF assms]
  then have "kind (heap c' ! r) = ForwardHmmDLikelihood \<and> deps (heap c' ! r) = map the ds"
    by (intro key_kind_deps) simp
  with res created_value[of c' c r ds] assms(3) show ?thesis
    by (simp add: node_compute_def Let_def)
qed

lemma BackwardHmmLikelihood_DF_create_value:
  assumes "BackwardHmmLikelihood_DF_create ds d c = (c', Inr r)" and "wf_context c" and "deps_valid c ds"
  shows "node_value c' r = VMatrix (BackwardHmmLikelihood_DF_compute (dep_mat c ds 0) (dep_mat c ds 1) (dep_mat c ds 2))"
proof -
  note res = BackwardHmmLikelihood_DF_create_result[OF assms]
  then have "kind (heap c' ! r) = BackwardHmmLikelihood \<and> deps (heap c' ! r) = map the ds"
    by (intro key_kind_deps) simp
  with res created_value[of c' c r ds] assms(3) show ?thesis
    by (simp add: node_compute_def Let_def)
qed

lemma forward_then_backward_values:
  assumes f: "ForwardHmmLikelihood_DF_create ds d c = (c1, Inr f)"
    and b: "BackwardHmmLikelihood_DF_create [Some f, ds ! 1, ds ! 2] d' c1 = (c2, Inr b)"
    and wf: "wf_context c" and dv: "deps_valid c ds"
  shows "node_value c2 f =
           VWithCond (fst (ForwardHmmLikelihood_DF_compute (dep_mat c ds 0) (dep_mat c ds 1) (dep_mat c ds 2)))
                     (snd (ForwardHmmLikelihood_DF_compute (dep_mat c ds 0) (dep_mat c ds 1) (dep_mat c ds 2))) \<and>
         node_value c2 b = VMatrix (BackwardHmmLikelihood_DF_compute
           (fst (ForwardHmmLikelihood_DF_compute (dep_mat c ds 0) (dep_mat c ds 1) (dep_mat c ds 2)))
           (dep_mat c ds 1) (dep_mat c ds 2))"
proof -
  note r1 = ForwardHmmLikelihood_DF_create_result[OF f wf dv]
  have "the (ds ! i) < length (heap c1)" if "i < 3" for i
    using deps_valid_the[OF dv, of "ds ! i"] r1 that ctx_ext_length[of c c1] by simp
  then have dv1: "deps_valid c1 [Some f, ds ! 1, ds ! 2]"
    using r1 by (simp add: deps_valid_def)
  note r2 = BackwardHmmLikelihood_DF_create_result[OF b _ dv1]
  have di: "node_value c1 (the (ds ! i)) = node_value c (the (ds ! i))" if "i < 3" for i
    using r1 dv that by (intro node_value_ext) (auto intro: deps_valid_the)
  have "node_value c2 f = node_value c1 f"
    using r1 r2 by (intro node_value_ext) auto
  then show ?thesis
    using ForwardHmmLikelihood_DF_create_value[OF f wf dv] BackwardHmmLikelihood_DF_create_value[OF b _ dv1]
      r1 di[of 1] di[of 2] by simp
qed

section \<open>The examples\<close>

lemmas ex_ctx_defs = ex_hmm_ctx_def ex_fwd_ctx_def ex_bwd_ctx_def ex_d_ctx0_def ex_d_ctx1_def ex_d_ctx2_def
  mk_node_def

lemmas create_defs = ForwardHmmLikelihood_DF_create_def ForwardHmmLikelihood_DF_build_def dep_dim_def
  BackwardHmmLikelihood_DF_create_def ForwardHmmDLikelihood_DF_create_def ForwardHmmDLikelihood_DF_build_def
  checkNthDependencyIs_def CondLikelihood_create_def NumericConstant_string_create_def
  checkDependenciesNotNull_def checkDependencyVectorSize_def checkNthDependencyIsValue_def
  cbind_def cguard_def cm_unfold cachedAs_def node_at_def node_key_def

lemma ex_forward_create:
  "ForwardHmmLikelihood_DF_create [Some 0, Some 1, Some 2] (2, 3) ex_hmm_ctx = (ex_fwd_ctx, Inr 3)"
  by (simp add: create_defs ex_ctx_defs)

lemma ex_backward_create:
  "BackwardHmmLikelihood_DF_create [Some 3, Some 1, Some 2] (2, 3) ex_fwd_ctx = (ex_bwd_ctx, Inr 6)"
  by (simp add: create_defs ex_ctx_defs)

lemma ex_fwd_ctx_wf: "wf_context ex_fwd_ctx"
  using hmm_create_wf_each(2)[OF ex_hmm_ctx_wf, of "[Some 0, Some 1, Some 2]" "(2, 3)"] ex_forward_create
  by (simp add: deps_valid_def ex_hmm_ctx_def)

lemma ex_hmm_values:
  "node_value ex_hmm_ctx 0 = VMatrix ex_start" "node_value ex_hmm_ctx (Suc 0) = VMatrix ex_trans"
  "node_value ex_hmm_ctx 2 = VMatrix ex_emis"
  by (simp_all add: node_value_def eval_heap_def eval_step_def ex_ctx_defs node_compute_def
      ex_start_def ex_trans_def ex_emis_def)

lemma ex_d_creates:
  "ForwardHmmLikelihood_DF_create [Some 0, Some 1, Some 2] (2, 3) ex_d_ctx0 = (ex_d_ctx1, Inr 6)"
  "ForwardHmmDLikelihood_DF_create [Some 0, Some 1, Some 2, Some 6, Some 3, Some 4, Some 5] (2, 3) ex_d_ctx1 =
     (ex_d_ctx2, Inr 9)"
  by (simp_all add: create_defs ex_ctx_defs)

lemma ex_d_values:
  "node_value ex_d_ctx0 0 = VMatrix ex_start" "node_value ex_d_ctx0 (Suc 0) = VMatrix (ex_trans_x (1/10))"
  "node_value ex_d_ctx0 2 = VMatrix ex_emis" "node_value ex_d_ctx0 3 = VMatrix ex_dstart"
  "node_value ex_d_ctx0 4 = VMatrix ex_dtrans" "node_value ex_d_ctx0 5 = VMatrix ex_demis"
  by (simp_all add: node_value_def eval_heap_def eval_step_def ex_ctx_defs node_compute_def
      ex_start_def ex_trans_x_def ex_emis_def ex_dstart_def ex_demis_def ex_dtrans_def mat_simps fun_eq_iff)

lemma ex_dv: "deps_valid ex_hmm_ctx [Some 0, Some 1, Some 2]"
  by (simp add: deps_valid_def ex_hmm_ctx_def)

lemma ex_fwd_value:
  "node_value ex_fwd_ctx 3 =
     VWithCond (fst (ForwardHmmLikelihood_DF_compute ex_start ex_trans ex_emis))
               (snd (ForwardHmmLikelihood_DF_compute ex_start ex_trans ex_emis))"
  using ForwardHmmLikelihood_DF_create_value[OF ex_forward_create ex_hmm_ctx_wf ex_dv] by (simp add: ex_hmm_values)

lemma ex_hmm_deps:
  "dep_mat ex_hmm_ctx [Some 0, Some 1, Some 2] 0 = ex_start"
  "dep_mat ex_hmm_ctx [Some 0, Some 1, Some 2] 1 = ex_trans"
  "dep_mat ex_hmm_ctx [Some 0, Some 1, Some 2] 2 = ex_emis"
  by (simp_all add: ex_hmm_values)

lemma ex_bwd_values:
  "node_value ex_bwd_ctx 3 =
     VWithCond (fst (ForwardHmmLikelihood_DF_compute ex_start ex_trans ex_emis))
               (snd (ForwardHmmLikelihood_DF_compute ex_start ex_trans ex_emis)) \<and>
   node_value ex_bwd_ctx 6 =
     VMatrix (BackwardHmmLikelihood_DF_compute (fst (ForwardHmmLikelihood_DF_compute ex_start ex_trans ex_emis))
       ex_trans ex_emis)"
  using forward_then_backward_values[of "[Some 0, Some 1, Some 2]", OF ex_forward_create _ ex_hmm_ctx_wf ex_dv]
    ex_backward_create by (simp add: ex_hmm_values)

lemma ex_nz_upto: "\<forall>k\<le>Suc (Suc 0). eget (value_mat (node_value ex_fwd_ctx 3)) 0 k \<noteq> 0"
  using ex_fwd_values by (simp add: ex_fwd_value le_Suc_eq del: fwd.simps)

section \<open>Properties of the constructed nodes\<close>

text \<open>
  C2: the forward node returned by \<open>ForwardHmmLikelihood_DF::create\<close>, evaluated, has
  site values whose product over all sites is the likelihood of the observation
  sequence of its dependencies by brute-force enumeration of the hidden paths.
\<close>

theorem forward_node_likelihood:
  assumes "ForwardHmmLikelihood_DF_create ds d c = (c', Inr r)" and "wf_context c" and "deps_valid c ds"
    and "\<forall>j<ecols (dep_mat c ds 2). eget (value_mat (node_value c' r)) 0 j \<noteq> 0"
  shows "(\<Prod>j<ecols (dep_mat c ds 2). eget (value_mat (node_value c' r)) 0 j) =
         brute_likelihood (dep_mat c ds 0) (dep_mat c ds 1) (dep_mat c ds 2) (ecols (dep_mat c ds 2))"
  using forward_value_likelihood assms(4) by (simp add: ForwardHmmLikelihood_DF_create_value[OF assms(1-3)])

theorem forward_node_likelihood_witness:
  "ForwardHmmLikelihood_DF_create [Some 0, Some 1, Some 2] (2, 3) ex_hmm_ctx = (ex_fwd_ctx, Inr 3) \<and>
   wf_context ex_hmm_ctx \<and> deps_valid ex_hmm_ctx [Some 0, Some 1, Some 2] \<and>
   (\<Prod>j<ecols (dep_mat ex_hmm_ctx [Some 0, Some 1, Some 2] 2). eget (value_mat (node_value ex_fwd_ctx 3)) 0 j) =
     brute_likelihood ex_start ex_trans ex_emis 3"
proof -
  have nz: "\<forall>j<ecols (dep_mat ex_hmm_ctx [Some 0, Some 1, Some 2] 2). eget (value_mat (node_value ex_fwd_ctx 3)) 0 j \<noteq> 0"
    using ex_values_nz by (simp add: ex_fwd_value ex_hmm_values)
  have "(\<Prod>j<ecols (dep_mat ex_hmm_ctx [Some 0, Some 1, Some 2] 2). eget (value_mat (node_value ex_fwd_ctx 3)) 0 j) =
     brute_likelihood ex_start ex_trans ex_emis 3"
    using forward_node_likelihood[OF ex_forward_create ex_hmm_ctx_wf ex_dv nz] by (simp only: ex_hmm_deps ex_cols)
  then show ?thesis
    using ex_forward_create ex_hmm_ctx_wf ex_dv nz by blast
qed

text \<open>
  C3: the matrix \<open>condLik_\<close> the created forward node fills in holds, at state \<open>i\<close>
  and site \<open>j\<close>, \<open>Pr(x_1..x_j, y_j = i) / Pr(x_1..x_j)\<close>: the sum of the weights of the
  hidden paths ending in \<open>i\<close> at \<open>j\<close>, divided by the likelihood of the first sites.
\<close>

theorem forward_node_condLik:
  assumes "ForwardHmmLikelihood_DF_create ds d c = (c', Inr r)" and "wf_context c" and "deps_valid c ds"
    and "\<forall>k\<le>j. eget (value_mat (node_value c' r)) 0 k \<noteq> 0"
  shows "eget (value_cond (node_value c' r)) i j =
         (\<Sum>ys\<leftarrow>List.n_lists j [0..<erows (dep_mat c ds 2)].
            path_weight (dep_mat c ds 0) (dep_mat c ds 1) (dep_mat c ds 2) (i # ys)) /
         brute_likelihood (dep_mat c ds 0) (dep_mat c ds 1) (dep_mat c ds 2) (Suc j)"
  using forward_condLik_posterior assms(4) by (simp add: ForwardHmmLikelihood_DF_create_value[OF assms(1-3)])

theorem forward_node_condLik_witness:
  "ForwardHmmLikelihood_DF_create [Some 0, Some 1, Some 2] (2, 3) ex_hmm_ctx = (ex_fwd_ctx, Inr 3) \<and>
   wf_context ex_hmm_ctx \<and> deps_valid ex_hmm_ctx [Some 0, Some 1, Some 2] \<and>
   eget (value_cond (node_value ex_fwd_ctx 3)) 1 (Suc (Suc 0)) =
     (\<Sum>ys\<leftarrow>List.n_lists (Suc (Suc 0)) [0..<2]. path_weight ex_start ex_trans ex_emis (1 # ys)) /
     brute_likelihood ex_start ex_trans ex_emis 3"
proof -
  have "eget (value_cond (node_value ex_fwd_ctx 3)) 1 (Suc (Suc 0)) =
     (\<Sum>ys\<leftarrow>List.n_lists (Suc (Suc 0)) [0..<2]. path_weight ex_start ex_trans ex_emis (1 # ys)) /
     brute_likelihood ex_start ex_trans ex_emis 3"
    using forward_node_condLik[OF ex_forward_create ex_hmm_ctx_wf ex_dv ex_nz_upto, of 1]
    by (simp only: ex_hmm_deps ex_cols numeral_3_eq_3)
  then show ?thesis
    using ex_forward_create ex_hmm_ctx_wf ex_dv ex_nz_upto by blast
qed

text \<open>
  C4: the created forward node's value at site \<open>j\<close> is \<open>P(x_j | x_1..x_{j-1})\<close>: times
  the likelihood of the first \<open>j\<close> sites it is the likelihood of the first \<open>j + 1\<close>.
\<close>

theorem forward_node_conditional:
  assumes "ForwardHmmLikelihood_DF_create ds d c = (c', Inr r)" and "wf_context c" and "deps_valid c ds"
    and "\<forall>k\<le>j. eget (value_mat (node_value c' r)) 0 k \<noteq> 0"
  shows "eget (value_mat (node_value c' r)) 0 j * brute_likelihood (dep_mat c ds 0) (dep_mat c ds 1) (dep_mat c ds 2) j =
         brute_likelihood (dep_mat c ds 0) (dep_mat c ds 1) (dep_mat c ds 2) (Suc j)"
  using forward_value_conditional assms(4) by (simp add: ForwardHmmLikelihood_DF_create_value[OF assms(1-3)])

theorem forward_node_conditional_witness:
  "ForwardHmmLikelihood_DF_create [Some 0, Some 1, Some 2] (2, 3) ex_hmm_ctx = (ex_fwd_ctx, Inr 3) \<and>
   wf_context ex_hmm_ctx \<and> deps_valid ex_hmm_ctx [Some 0, Some 1, Some 2] \<and>
   eget (value_mat (node_value ex_fwd_ctx 3)) 0 (Suc (Suc 0)) * brute_likelihood ex_start ex_trans ex_emis (Suc (Suc 0)) =
     brute_likelihood ex_start ex_trans ex_emis 3"
proof -
  have "eget (value_mat (node_value ex_fwd_ctx 3)) 0 (Suc (Suc 0)) * brute_likelihood ex_start ex_trans ex_emis (Suc (Suc 0)) =
     brute_likelihood ex_start ex_trans ex_emis 3"
    using forward_node_conditional[OF ex_forward_create ex_hmm_ctx_wf ex_dv ex_nz_upto]
    by (simp only: ex_hmm_deps numeral_3_eq_3)
  then show ?thesis
    using ex_forward_create ex_hmm_ctx_wf ex_dv ex_nz_upto by blast
qed

text \<open>
  C5: a backward node created on a forward node and the same transition and emission
  matrices is normalised consistently with it: at every site, the forward
  \<open>condLik_\<close> column times the backward column, summed over the states, is one.
\<close>

theorem forward_backward_nodes_normalised:
  assumes "ForwardHmmLikelihood_DF_create ds d c = (c1, Inr f)"
    and "BackwardHmmLikelihood_DF_create [Some f, ds ! 1, ds ! 2] d' c1 = (c2, Inr b)"
    and "wf_context c" and "deps_valid c ds"
    and "\<forall>k<ecols (dep_mat c ds 2). eget (value_mat (node_value c2 f)) 0 k \<noteq> 0" and "j < ecols (dep_mat c ds 2)"
  shows "(\<Sum>i<erows (dep_mat c ds 2). eget (value_cond (node_value c2 f)) i j * eget (value_mat (node_value c2 b)) i j) = 1"
  using forward_backward_normalised[of "dep_mat c ds 2"] assms(5,6)
  by (simp add: forward_then_backward_values[OF assms(1-4)])

theorem forward_backward_nodes_normalised_witness:
  "ForwardHmmLikelihood_DF_create [Some 0, Some 1, Some 2] (2, 3) ex_hmm_ctx = (ex_fwd_ctx, Inr 3) \<and>
   BackwardHmmLikelihood_DF_create [Some 3, [Some 0, Some 1, Some 2] ! 1, [Some 0, Some 1, Some 2] ! 2] (2, 3) ex_fwd_ctx =
     (ex_bwd_ctx, Inr 6) \<and>
   wf_context ex_hmm_ctx \<and> deps_valid ex_hmm_ctx [Some 0, Some 1, Some 2] \<and>
   0 < ecols (dep_mat ex_hmm_ctx [Some 0, Some 1, Some 2] 2) \<and>
   (\<Sum>i<2. eget (value_cond (node_value ex_bwd_ctx 3)) i 0 * eget (value_mat (node_value ex_bwd_ctx 6)) i 0) = 1"
proof -
  have b: "BackwardHmmLikelihood_DF_create [Some 3, [Some 0, Some 1, Some 2] ! 1, [Some 0, Some 1, Some 2] ! 2] (2, 3)
      ex_fwd_ctx = (ex_bwd_ctx, Inr 6)"
    using ex_backward_create by simp
  have nz: "\<forall>k<ecols (dep_mat ex_hmm_ctx [Some 0, Some 1, Some 2] 2). eget (value_mat (node_value ex_bwd_ctx 3)) 0 k \<noteq> 0"
    using ex_values_nz by (simp add: ex_bwd_values ex_hmm_values)
  have pos: "0 < ecols (dep_mat ex_hmm_ctx [Some 0, Some 1, Some 2] 2)"
    by (simp add: ex_hmm_values ex_cols)
  have "(\<Sum>i<2. eget (value_cond (node_value ex_bwd_ctx 3)) i 0 * eget (value_mat (node_value ex_bwd_ctx 6)) i 0) = 1"
    using forward_backward_nodes_normalised[OF ex_forward_create b ex_hmm_ctx_wf ex_dv nz pos]
    by (simp only: ex_hmm_deps ex_cols)
  then show ?thesis
    using ex_forward_create b ex_hmm_ctx_wf ex_dv nz pos by blast
qed

text \<open>
  C6: the backward node created on a forward node holds, at state \<open>i\<close> and site
  \<open>j\<close>, \<open>Pr(x_{j+1}..x_n | y_j = i)\<close> (the unscaled backward recursion) divided by
  \<open>P(x_{j+1}..x_n | x_1..x_j)\<close>, the likelihood of all sites over that of the first
  \<open>j + 1\<close>.
\<close>

theorem backward_node_conditional:
  assumes "ForwardHmmLikelihood_DF_create ds d c = (c1, Inr f)"
    and "BackwardHmmLikelihood_DF_create [Some f, ds ! 1, ds ! 2] d' c1 = (c2, Inr b)"
    and "wf_context c" and "deps_valid c ds"
    and "\<forall>k<ecols (dep_mat c ds 2). eget (value_mat (node_value c2 f)) 0 k \<noteq> 0" and "j < ecols (dep_mat c ds 2)"
  shows "eget (value_mat (node_value c2 b)) i j *
           brute_likelihood (dep_mat c ds 0) (dep_mat c ds 1) (dep_mat c ds 2) (ecols (dep_mat c ds 2)) =
         beta (dep_mat c ds 1) (dep_mat c ds 2) (ecols (dep_mat c ds 2)) j i *
           brute_likelihood (dep_mat c ds 0) (dep_mat c ds 1) (dep_mat c ds 2) (Suc j)"
  using backward_value_conditional[of "dep_mat c ds 2"] assms(5,6)
  by (simp add: forward_then_backward_values[OF assms(1-4)])

theorem backward_node_conditional_witness:
  "ForwardHmmLikelihood_DF_create [Some 0, Some 1, Some 2] (2, 3) ex_hmm_ctx = (ex_fwd_ctx, Inr 3) \<and>
   BackwardHmmLikelihood_DF_create [Some 3, [Some 0, Some 1, Some 2] ! 1, [Some 0, Some 1, Some 2] ! 2] (2, 3) ex_fwd_ctx =
     (ex_bwd_ctx, Inr 6) \<and>
   wf_context ex_hmm_ctx \<and> deps_valid ex_hmm_ctx [Some 0, Some 1, Some 2] \<and>
   0 < ecols (dep_mat ex_hmm_ctx [Some 0, Some 1, Some 2] 2) \<and>
   eget (value_mat (node_value ex_bwd_ctx 6)) 1 0 * brute_likelihood ex_start ex_trans ex_emis 3 =
     beta ex_trans ex_emis 3 0 1 * brute_likelihood ex_start ex_trans ex_emis (Suc 0)"
proof -
  have b: "BackwardHmmLikelihood_DF_create [Some 3, [Some 0, Some 1, Some 2] ! 1, [Some 0, Some 1, Some 2] ! 2] (2, 3)
      ex_fwd_ctx = (ex_bwd_ctx, Inr 6)"
    using ex_backward_create by simp
  have nz: "\<forall>k<ecols (dep_mat ex_hmm_ctx [Some 0, Some 1, Some 2] 2). eget (value_mat (node_value ex_bwd_ctx 3)) 0 k \<noteq> 0"
    using ex_values_nz by (simp add: ex_bwd_values ex_hmm_values)
  have pos: "0 < ecols (dep_mat ex_hmm_ctx [Some 0, Some 1, Some 2] 2)"
    by (simp add: ex_hmm_values ex_cols)
  have "eget (value_mat (node_value ex_bwd_ctx 6)) 1 0 * brute_likelihood ex_start ex_trans ex_emis 3 =
     beta ex_trans ex_emis 3 0 1 * brute_likelihood ex_start ex_trans ex_emis (Suc 0)"
    using backward_node_conditional[OF ex_forward_create b ex_hmm_ctx_wf ex_dv nz pos, of 1]
    by (simp only: ex_hmm_deps ex_cols)
  then show ?thesis
    using ex_forward_create b ex_hmm_ctx_wf ex_dv nz pos by blast
qed

lemma ex_d_ctx0_wf: "wf_context ex_d_ctx0"
  by (simp add: ex_ctx_defs wf_context_def node_key_def less_Suc_eq numeral_3_eq_3 eval_nat_numeral)

text \<open>
  C7: a first-order forward node created on the constants of a chain and on the forward
  node built from them evaluates to the derivative of that forward node: when the
  starting vector, the transition matrix and the emission matrix are the values at
  \<open>x0\<close> of differentiable functions of a parameter, and the three derivative
  dependencies hold their derivatives at \<open>x0\<close>, the node's value and \<open>dCondLik_\<close> at site
  \<open>j\<close> are the derivatives of the forward value and \<open>condLik_\<close> at \<open>x0\<close>.
\<close>

theorem forward_derivative_node:
  fixes S T E :: "real \<Rightarrow> emat"
  assumes f: "ForwardHmmLikelihood_DF_create [Some s, Some t, Some e] d c0 = (c, Inr f)"
    and r: "ForwardHmmDLikelihood_DF_create [Some s, Some t, Some e, Some f, Some sd, Some td, Some ed] d' c = (c', Inr r)"
    and wf: "wf_context c0" and dv: "deps_valid c0 [Some s, Some t, Some e, Some sd, Some td, Some ed]"
    and vs: "value_mat (node_value c0 s) = S x0" and vt: "value_mat (node_value c0 t) = T x0"
    and ve: "value_mat (node_value c0 e) = E x0"
    and rows: "\<And>x. erows (E x) = n"
    and dS: "\<forall>i<n. ((\<lambda>x. eget (S x) i 0) has_real_derivative eget (value_mat (node_value c0 sd)) i 0) (at x0)"
    and dT: "\<forall>i<n. \<forall>k<n. ((\<lambda>x. eget (T x) i k) has_real_derivative eget (value_mat (node_value c0 td)) i k) (at x0)"
    and dE: "\<forall>i<n. \<forall>k\<le>j. ((\<lambda>x. eget (E x) i k) has_real_derivative eget (value_mat (node_value c0 ed)) i k) (at x0)"
    and nz: "\<forall>k\<le>j. eget (value_mat (node_value c f)) 0 k \<noteq> 0"
  shows "((\<lambda>x. eget (fst (ForwardHmmLikelihood_DF_compute (S x) (T x) (E x))) 0 j) has_real_derivative
            eget (value_mat (node_value c' r)) 0 j) (at x0) \<and>
         (\<forall>i<n. ((\<lambda>x. eget (snd (ForwardHmmLikelihood_DF_compute (S x) (T x) (E x))) i j) has_real_derivative
            eget (value_cond (node_value c' r)) i j) (at x0))"
proof -
  have dv0: "deps_valid c0 [Some s, Some t, Some e]"
    using dv by (simp add: deps_valid_def)
  note r1 = ForwardHmmLikelihood_DF_create_result[OF f wf dv0]
  have fv: "node_value c f = VWithCond (fst (ForwardHmmLikelihood_DF_compute (S x0) (T x0) (E x0)))
      (snd (ForwardHmmLikelihood_DF_compute (S x0) (T x0) (E x0)))"
    using ForwardHmmLikelihood_DF_create_value[OF f wf dv0] vs vt ve by simp
  have dv1: "deps_valid c [Some s, Some t, Some e, Some f, Some sd, Some td, Some ed]"
    using dv r1 ctx_ext_length[of c0 c] by (simp add: deps_valid_def)
  have same: "node_value c a = node_value c0 a" if "a \<in> {s, t, e, sd, td, ed}" for a
    using r1 dv that by (intro node_value_ext) (auto simp: deps_valid_def)
  have nz0: "\<forall>k\<le>j. eget (fst (ForwardHmmLikelihood_DF_compute (S x0) (T x0) (E x0))) 0 k \<noteq> 0"
    using nz fv by simp
  show ?thesis
    using forward_derivative[OF rows dS dT dE nz0]
    by (simp add: ForwardHmmDLikelihood_DF_create_value[OF r r1[THEN conjunct2, THEN conjunct2, THEN conjunct1] dv1]
        fv same vs vt ve)
qed

theorem forward_derivative_node_witness:
  "ForwardHmmLikelihood_DF_create [Some 0, Some 1, Some 2] (2, 3) ex_d_ctx0 = (ex_d_ctx1, Inr 6) \<and>
   ForwardHmmDLikelihood_DF_create [Some 0, Some 1, Some 2, Some 6, Some 3, Some 4, Some 5] (2, 3) ex_d_ctx1 =
     (ex_d_ctx2, Inr 9) \<and>
   wf_context ex_d_ctx0 \<and> deps_valid ex_d_ctx0 [Some 0, Some 1, Some 2, Some 3, Some 4, Some 5] \<and>
   value_mat (node_value ex_d_ctx0 0) = ex_start \<and> value_mat (node_value ex_d_ctx0 1) = ex_trans_x (1/10) \<and>
   value_mat (node_value ex_d_ctx0 2) = ex_emis \<and>
   ((\<lambda>x. eget (fst (ForwardHmmLikelihood_DF_compute ex_start (ex_trans_x x) ex_emis)) 0 (Suc 0)) has_real_derivative
      eget (value_mat (node_value ex_d_ctx2 9)) 0 (Suc 0)) (at (1/10))"
proof -
  note wf0 = ex_d_ctx0_wf
  have dv: "deps_valid ex_d_ctx0 [Some 0, Some 1, Some 2, Some 3, Some 4, Some 5]"
    by (simp add: deps_valid_def ex_ctx_defs)
  have v: "value_mat (node_value ex_d_ctx0 0) = (\<lambda>_::real. ex_start) (1/10)"
    "value_mat (node_value ex_d_ctx0 1) = ex_trans_x (1/10)" "value_mat (node_value ex_d_ctx0 2) = (\<lambda>_::real. ex_emis) (1/10)"
    by (simp_all add: ex_d_values)
  have rows: "\<And>x::real. erows ((\<lambda>_. ex_emis) x) = 2" by (simp add: ex_cols)
  have dS: "\<forall>i<2. ((\<lambda>x. eget ((\<lambda>_::real. ex_start) x) i 0) has_real_derivative
      eget (value_mat (node_value ex_d_ctx0 3)) i 0) (at (1/10))"
    by (simp add: ex_d_values ex_dstart_def mat_simps less_2_cases_iff)
  have dT: "\<forall>i<2. \<forall>k<2. ((\<lambda>x. eget (ex_trans_x x) i k) has_real_derivative
      eget (value_mat (node_value ex_d_ctx0 4)) i k) (at (1/10))"
    using ex_trans_x_deriv by (simp add: ex_d_values)
  have dE: "\<forall>i<2. \<forall>k\<le>Suc 0. ((\<lambda>x. eget ((\<lambda>_::real. ex_emis) x) i k) has_real_derivative
      eget (value_mat (node_value ex_d_ctx0 5)) i k) (at (1/10))"
    by (simp add: ex_d_values ex_demis_def mat_simps less_2_cases_iff le_Suc_eq)
  have dv0: "deps_valid ex_d_ctx0 [Some 0, Some 1, Some 2]"
    by (simp add: deps_valid_def ex_ctx_defs)
  have fv: "node_value ex_d_ctx1 6 = VWithCond (fst (ForwardHmmLikelihood_DF_compute ex_start (ex_trans_x (1/10)) ex_emis))
      (snd (ForwardHmmLikelihood_DF_compute ex_start (ex_trans_x (1/10)) ex_emis))"
    using ForwardHmmLikelihood_DF_create_value[OF ex_d_creates(1) wf0 dv0] by (simp add: ex_d_values)
  have nz: "\<forall>k\<le>Suc 0. eget (value_mat (node_value ex_d_ctx1 6)) 0 k \<noteq> 0"
    by (simp add: fv le_Suc_eq ex_start_def ex_trans_x_def ex_emis_def mat_simps normalise_def Let_def numeral_2_eq_2)
  show ?thesis
    using forward_derivative_node[OF ex_d_creates wf0 dv v rows dS dT dE nz] ex_d_creates wf0 dv v dS dT dE nz
    by simp
qed

end
