(* ===== verification/Sharing.thy ===== *)
theory Sharing
  imports Evaluation
begin

text \<open>
  Structural sharing through the context's cache (\<open>cachedAs\<close> of \<open>DataFlow.h\<close>):
  a repeated request for a node with the same class, dependencies and arguments
  returns the registered node.  For a class whose constructor registers no node of its
  own (\<open>CondLikelihood\<close>) the cache is left unchanged; for \<open>ForwardHmmLikelihood_DF\<close>,
  whose \<open>build\<close> runs on the fresh node before the cache is consulted, the repeated
  request returns the registered node but leaves a new \<open>CondLikelihood\<close> node of the
  dropped copy in the cache.
\<close>

section \<open>An example of a repeated request\<close>

text \<open>
  \<open>ex_fwd_ctx\<close> after a second \<open>ForwardHmmLikelihood_DF::create\<close> on the same
  dependencies: the dropped copy (address 6), the dropped name constant (7) and the
  condLik node of the copy (8), registered.
\<close>

definition ex_fwd_ctx_again :: ctx where
  "ex_fwd_ctx_again =
     \<lparr>heap = heap ex_fwd_ctx @
        [(mk_node ForwardHmmLikelihood [0, 1, 2] TRowVectorXd (1, 3) (2, 3) NoArgs)\<lparr>owned := Some 8\<rparr>,
         mk_node NumericConstant [] TString (1, 1) (1, 1) (StrArg ''forwardCondLik''),
         mk_node CondLikelihood [6, 4] TMatrixXd (2, 3) (2, 3) NoArgs],
      cache = cache ex_fwd_ctx @ [8]\<rparr>"

section \<open>Registered signatures are unique\<close>

lemma cache_key_unique:
  assumes "wf_context c" and "a \<in> set (cache c)" and "b \<in> set (cache c)"
    and "node_key (heap c ! a) = node_key (heap c ! b)"
  shows "a = b"
proof -
  have "inj_on (\<lambda>a. node_key (heap c ! a)) (set (cache c))"
    using assms(1) by (simp add: wf_context_def distinct_map)
  then show ?thesis using assms(2-4) by (auto dest: inj_onD)
qed

lemma cached_results_equal:
  assumes "wf_context c2" and "ctx_ext c1 c2" and "r1 < length (heap c1)" and "r1 \<in> set (cache c1)"
    and "r2 \<in> set (cache c2)" and "node_key (heap c2 ! r2) = node_key (heap c1 ! r1)"
  shows "r2 = r1"
proof (rule cache_key_unique[OF assms(1) assms(5)])
  show "r1 \<in> set (cache c2)" using assms(2,4) by (auto simp: ctx_ext_def)
  show "node_key (heap c2 ! r2) = node_key (heap c2 ! r1)"
    using assms(6) ctx_ext_node(6)[OF assms(2,3)] by simp
qed

lemma deps_valid_ext: "deps_valid c ds \<Longrightarrow> ctx_ext c c' \<Longrightarrow> deps_valid c' ds"
  unfolding deps_valid_def using ctx_ext_length by fastforce

text \<open>A fresh node whose signature is registered: the registered node, cache unchanged.\<close>

lemma cvalid_alloc_cachedAs_hit:
  "cvalid (\<lambda>c. wf_context c \<and> r \<in> set (cache c) \<and> node_key (heap c ! r) = node_key n \<and>
       Q r (c\<lparr>heap := heap c @ [n]\<rparr>))
     (cbind (calloc n) cachedAs) Q E"
proof -
  have hit: "find_cached (heap c @ [n]) (node_key n) (cache c) = Some r"
    if h: "wf_context c" "r \<in> set (cache c)" "node_key (heap c ! r) = node_key n" for c
  proof -
    have lt: "\<forall>b\<in>set (cache c). b < length (heap c)" using h(1) by (simp add: wf_context_def)
    have eq: "find_cached (heap c @ [n]) (node_key n) (cache c) = find_cached (heap c) (node_key n) (cache c)"
      by (rule find_cached_append_heap[OF lt])
    obtain b where b: "find_cached (heap c) (node_key n) (cache c) = Some b"
      using h(2,3) by (cases "find_cached (heap c) (node_key n) (cache c)") (auto simp: find_cached_None_iff)
    have "b = r"
      using find_cached_SomeD[OF b] h cache_key_unique[OF h(1), of b r] by simp
    with eq b show ?thesis by simp
  qed
  show ?thesis
    by (auto simp: cvalid_def cbind_def calloc_def cachedAs_def hit)
qed

text \<open>
  A node the cache returns for a request passes the requesting class's
  \<open>compareAdditionalArguments\<close>: the signature includes the class.
\<close>

lemma find_cached_compareAdditionalArguments:
  assumes "find_cached h (node_key n) as = Some b"
  shows "(kind n = CondLikelihood \<longrightarrow> CondLikelihood_compareAdditionalArguments (h ! b)) \<and>
    (kind n = ForwardHmmLikelihood \<longrightarrow> ForwardHmmLikelihood_DF_compareAdditionalArguments (h ! b)) \<and>
    (kind n = ForwardHmmDLikelihood \<longrightarrow> ForwardHmmDLikelihood_DF_compareAdditionalArguments (h ! b)) \<and>
    (kind n = ForwardHmmD2Likelihood \<longrightarrow> ForwardHmmD2Likelihood_DF_compareAdditionalArguments (h ! b)) \<and>
    (kind n = BackwardHmmLikelihood \<longrightarrow> BackwardHmmLikelihood_DF_compareAdditionalArguments (h ! b))"
  using find_cached_SomeD[OF assms]
  by (simp add: node_key_def CondLikelihood_compareAdditionalArguments_def
      ForwardHmmLikelihood_DF_compareAdditionalArguments_def ForwardHmmDLikelihood_DF_compareAdditionalArguments_def
      ForwardHmmD2Likelihood_DF_compareAdditionalArguments_def BackwardHmmLikelihood_DF_compareAdditionalArguments_def)

lemma CondLikelihood_create_result:
  assumes "CondLikelihood_create ds d c = (c', Inr r)" and "wf_context c" and "deps_valid c ds"
  shows "wf_context c' \<and> ctx_ext c c' \<and> r < length (heap c') \<and> r \<in> set (cache c') \<and>
         node_key (heap c' ! r) = node_key (mk_node CondLikelihood (map the ds) TMatrixXd d d NoArgs)"
proof -
  have "cvalid (\<lambda>c1. c1 = c \<and> wf_context c1 \<and> deps_valid c1 ds) (CondLikelihood_create ds d)
     (\<lambda>r c'. wf_context c' \<and> ctx_ext c c' \<and> r < length (heap c') \<and> r \<in> set (cache c') \<and>
         node_key (heap c' ! r) = node_key (mk_node CondLikelihood (map the ds) TMatrixXd d d NoArgs))
     (\<lambda>_ _. True)"
    unfolding CondLikelihood_create_def checkDependenciesNotNull_def checkDependencyVectorSize_def
      checkNthDependencyIsValue_def
    apply (rule cvalid_weaken)
     apply (rule cvalid_cachedAs_result cvalid_cbind cvalid_creturn cvalid_cguard cvalid_cget cvalid_calloc)+
    apply (auto simp: mk_node_def deps_valid_the nth_append intro!: wf_alloc
        intro: ctx_ext_trans[OF ctx_ext_alloc])
    done
  from cvalidD[OF this _ assms(1)] assms(2,3) show ?thesis by simp
qed

lemma CondLikelihood_create_hit:
  assumes "wf_context c" and "r \<in> set (cache c)"
    and "node_key (heap c ! r) = node_key (mk_node CondLikelihood (map the ds) TMatrixXd d d NoArgs)"
    and "CondLikelihood_create ds d c = (c', Inr r')"
  shows "r' = r \<and> cache c' = cache c"
proof -
  have "cvalid (\<lambda>c1. c1 = c) (CondLikelihood_create ds d) (\<lambda>r' c'. r' = r \<and> cache c' = cache c) (\<lambda>_ _. True)"
    unfolding CondLikelihood_create_def checkDependenciesNotNull_def checkDependencyVectorSize_def
      checkNthDependencyIsValue_def
    apply (rule cvalid_weaken)
     apply (rule cvalid_alloc_cachedAs_hit cvalid_cbind cvalid_creturn cvalid_cguard cvalid_cget)+
    using assms(1-3) by auto
  from cvalidD[OF this _ assms(4)] show ?thesis by simp
qed

lemma ex_condLik_creates:
  "CondLikelihood_create [Some 1, Some 4] (2, 2) ex_fwd_ctx =
     (ex_fwd_ctx\<lparr>heap := heap ex_fwd_ctx @ [mk_node CondLikelihood [1, 4] TMatrixXd (2, 2) (2, 2) NoArgs],
                 cache := cache ex_fwd_ctx @ [6]\<rparr>, Inr 6)"
  "CondLikelihood_create [Some 1, Some 4] (2, 2)
     (ex_fwd_ctx\<lparr>heap := heap ex_fwd_ctx @ [mk_node CondLikelihood [1, 4] TMatrixXd (2, 2) (2, 2) NoArgs],
                 cache := cache ex_fwd_ctx @ [6]\<rparr>) =
     (ex_fwd_ctx\<lparr>heap := heap ex_fwd_ctx @ [mk_node CondLikelihood [1, 4] TMatrixXd (2, 2) (2, 2) NoArgs,
                                       mk_node CondLikelihood [1, 4] TMatrixXd (2, 2) (2, 2) NoArgs],
                 cache := cache ex_fwd_ctx @ [6]\<rparr>, Inr 6)"
  by (simp_all add: create_defs ex_ctx_defs)

lemma ex_forward_again: "ForwardHmmLikelihood_DF_create [Some 0, Some 1, Some 2] (2, 3) ex_fwd_ctx = (ex_fwd_ctx_again, Inr 3)"
  by (simp add: create_defs ex_ctx_defs ex_fwd_ctx_again_def)

text \<open>
  C13: structural sharing for \<open>CondLikelihood\<close>: a second request with the same
  dependencies and dimension returns the node of the first request and leaves the
  cache unchanged.
\<close>

theorem condLik_create_shared:
  assumes "wf_context c" and "deps_valid c ds"
    and "CondLikelihood_create ds d c = (c1, Inr r1)" and "CondLikelihood_create ds d c1 = (c2, Inr r2)"
  shows "r2 = r1 \<and> cache c2 = cache c1"
  using CondLikelihood_create_result[OF assms(3,1,2)] by (intro CondLikelihood_create_hit[OF _ _ _ assms(4)]) auto

theorem condLik_create_shared_witness:
  "wf_context ex_fwd_ctx \<and> deps_valid ex_fwd_ctx [Some 1, Some 4] \<and>
   CondLikelihood_create [Some 1, Some 4] (2, 2) ex_fwd_ctx =
     (ex_fwd_ctx\<lparr>heap := heap ex_fwd_ctx @ [mk_node CondLikelihood [1, 4] TMatrixXd (2, 2) (2, 2) NoArgs],
                 cache := cache ex_fwd_ctx @ [6]\<rparr>, Inr 6) \<and>
   cache (ex_fwd_ctx\<lparr>heap := heap ex_fwd_ctx @ [mk_node CondLikelihood [1, 4] TMatrixXd (2, 2) (2, 2) NoArgs,
                                       mk_node CondLikelihood [1, 4] TMatrixXd (2, 2) (2, 2) NoArgs],
                 cache := cache ex_fwd_ctx @ [6]\<rparr>) = cache ex_fwd_ctx @ [6]"
proof -
  have dv: "deps_valid ex_fwd_ctx [Some 1, Some 4]" by (simp add: deps_valid_def ex_ctx_defs)
  show ?thesis
    using condLik_create_shared[OF ex_fwd_ctx_wf dv ex_condLik_creates] ex_fwd_ctx_wf dv ex_condLik_creates(1)
    by simp
qed

text \<open>
  C14: structural sharing for \<open>ForwardHmmLikelihood_DF\<close>: a second request with the
  same dependencies and dimension returns the node of the first request.
\<close>

theorem forward_create_shared:
  assumes "wf_context c" and "deps_valid c ds"
    and "ForwardHmmLikelihood_DF_create ds d c = (c1, Inr r1)"
    and "ForwardHmmLikelihood_DF_create ds d c1 = (c2, Inr r2)"
  shows "r2 = r1"
proof -
  note f1 = ForwardHmmLikelihood_DF_create_result[OF assms(3,1,2)]
  have "deps_valid c1 ds" using deps_valid_ext[OF assms(2)] f1 by blast
  note f2 = ForwardHmmLikelihood_DF_create_result[OF assms(4)] f1 this
  show ?thesis using f1 f2 by (intro cached_results_equal[of c2 c1]) auto
qed

theorem forward_create_shared_witness:
  "wf_context ex_hmm_ctx \<and> deps_valid ex_hmm_ctx [Some 0, Some 1, Some 2] \<and>
   ForwardHmmLikelihood_DF_create [Some 0, Some 1, Some 2] (2, 3) ex_hmm_ctx = (ex_fwd_ctx, Inr 3) \<and>
   ForwardHmmLikelihood_DF_create [Some 0, Some 1, Some 2] (2, 3) ex_fwd_ctx = (ex_fwd_ctx_again, Inr 3)"
proof -
  have dv: "deps_valid ex_hmm_ctx [Some 0, Some 1, Some 2]" by (simp add: deps_valid_def ex_ctx_defs)
  have "3 = (3::nat)"
    by (rule forward_create_shared[OF ex_hmm_ctx_wf dv ex_forward_create ex_forward_again])
  then show ?thesis using ex_hmm_ctx_wf dv ex_forward_create ex_forward_again by simp
qed


section \<open>The repeated forward request, step by step\<close>

text \<open>
  The second request of \<open>ForwardHmmLikelihood_DF::create\<close> allocates its copy at the end
  of the arena, and \<open>build\<close> runs on the copy: the name constant is found or registered,
  and the \<open>CondLikelihood\<close> node of the copy, whose first dependency is the fresh copy,
  cannot match a registered signature, so it is registered.
\<close>

lemma cachedAs_Inr:
  assumes "cachedAs a c = (c', Inr r)"
  shows "(find_cached (heap c) (node_key (heap c ! a)) (cache c) = Some r \<and> c' = c) \<or>
         (find_cached (heap c) (node_key (heap c ! a)) (cache c) = None \<and> r = a \<and> c' = c\<lparr>cache := cache c @ [a]\<rparr>)"
  using assms by (auto simp: cachedAs_def split: option.splits)

lemma string_create_state:
  assumes "NumericConstant_string_create s c = (c', Inr f)" and "\<forall>b\<in>set (cache c). b < length (heap c)"
  shows "heap c' = heap c @ [mk_node NumericConstant [] TString (1, 1) (1, 1) (StrArg s)] \<and>
    set (cache c) \<subseteq> set (cache c') \<and> set (cache c') \<subseteq> insert (length (heap c)) (set (cache c)) \<and>
    vty (heap c' ! f) = TString"
proof -
  let ?n = "mk_node NumericConstant [] TString (1, 1) (1, 1) (StrArg s)"
  let ?c = "c\<lparr>heap := heap c @ [?n]\<rparr>"
  have ca: "cachedAs (length (heap c)) ?c = (c', Inr f)"
    using assms(1) by (simp add: NumericConstant_string_create_def cbind_Inr calloc_def)
  show ?thesis
    using cachedAs_Inr[OF ca]
  proof
    assume h: "find_cached (heap ?c) (node_key (heap ?c ! length (heap c))) (cache ?c) = Some f \<and> c' = ?c"
    then have "find_cached (heap c @ [?n]) (node_key ?n) (cache c) = Some f" by simp
    from find_cached_SomeD[OF this] assms(2) have "f < length (heap c)" "node_key (heap c ! f) = node_key ?n"
      by (auto simp: nth_append)
    then show ?thesis using h by (auto simp: node_key_def mk_node_def nth_append)
  next
    assume "find_cached (heap ?c) (node_key (heap ?c ! length (heap c))) (cache ?c) = None \<and>
      f = length (heap c) \<and> c' = ?c\<lparr>cache := cache ?c @ [length (heap c)]\<rparr>"
    then show ?thesis by (auto simp: mk_node_def)
  qed
qed

lemma CondLikelihood_create_fresh:
  assumes "CondLikelihood_create [Some a, Some f] d c = (c', Inr r)"
    and "\<forall>b\<in>set (cache c). b < length (heap c) \<and> a \<notin> set (deps (heap c ! b))"
  shows "r = length (heap c) \<and> heap c' = heap c @ [mk_node CondLikelihood [a, f] TMatrixXd d d NoArgs] \<and>
    cache c' = cache c @ [length (heap c)]"
proof -
  let ?n = "mk_node CondLikelihood [a, f] TMatrixXd d d NoArgs"
  let ?c = "c\<lparr>heap := heap c @ [?n]\<rparr>"
  have ca: "cachedAs (length (heap c)) ?c = (c', Inr r)"
    using assms(1) by (simp add: CondLikelihood_create_def checkDependenciesNotNull_def
        checkDependencyVectorSize_def checkNthDependencyIsValue_def cbind_Inr cguard_def creturn_def
        cthrow_def cget_def calloc_def split: if_splits)
  have "find_cached (heap ?c) (node_key ?n) (cache c) = None"
    using assms(2) by (auto simp: find_cached_None_iff node_key_def mk_node_def nth_append)
  then show ?thesis using ca by (auto simp: cachedAs_def)
qed

lemma cguard_state: "cguard b e c = (c', Inr x) \<Longrightarrow> c' = c"
  by (simp add: cguard_def creturn_def cthrow_def split: if_splits)

lemma dep_dim_state: "dep_dim a i c = (c', Inr x) \<Longrightarrow> c' = c"
  by (simp add: dep_dim_def cget_def)

lemma forward_build_again:
  assumes "ForwardHmmLikelihood_DF_build (length (heap c0)) d c = (c', Inr u)" and "wf_context c0"
    and "heap c = heap c0 @ [n]" and "cache c = cache c0"
  shows "length (heap c0) + 2 \<in> set (cache c') \<and> set (cache c0) \<subseteq> set (cache c') \<and>
    length (heap c0) \<notin> set (cache c') \<and> kind (heap c' ! (length (heap c0) + 2)) = CondLikelihood \<and>
    deps (heap c' ! (length (heap c0) + 2)) ! 0 = length (heap c0)"
proof -
  let ?L = "length (heap c0)"
  have lt0: "\<forall>b\<in>set (cache c0). b < ?L" using assms(2) by (simp add: wf_context_def)
  obtain cS f cC cl cD u' where
    s: "NumericConstant_string_create ''forwardCondLik'' c = (cS, Inr f)" and
    l: "CondLikelihood_create [Some ?L, Some f] d cS = (cC, Inr cl)" and
    o: "cset_owned ?L cl cC = (cD, Inr u')" and
    r: "c' = cD"
    using assms(1) unfolding ForwardHmmLikelihood_DF_build_def cbind_Inr
    by (auto dest!: cguard_state dep_dim_state)
  have "\<forall>b\<in>set (cache c). b < length (heap c)" using lt0 assms(3,4) by auto
  note sS = string_create_state[OF s this] lt0 assms(3,4)
  have "\<forall>b\<in>set (cache cS). b < length (heap cS) \<and> ?L \<notin> set (deps (heap cS ! b))"
  proof
    fix b assume b: "b \<in> set (cache cS)"
    show "b < length (heap cS) \<and> ?L \<notin> set (deps (heap cS ! b))"
    proof (cases "b \<in> set (cache c0)")
      case True
      then have "b < ?L" using lt0 by blast
      moreover have "\<forall>x\<in>set (deps (heap c0 ! b)). x < b"
        using assms(2) \<open>b < ?L\<close> by (simp add: wf_context_def)
      ultimately show ?thesis using sS by (auto simp: nth_append)
    next
      case False
      then have "b = Suc ?L" using b sS by auto
      then show ?thesis using sS by (simp add: nth_append mk_node_def)
    qed
  qed
  note sL = CondLikelihood_create_fresh[OF l this]
  show ?thesis
    using sS sL o r lt0 by (auto simp: cset_owned_def nth_append mk_node_def)
qed

text \<open>
  C24: the sharing of \<open>ForwardHmmLikelihood_DF\<close> leaks a node into the cache: a second
  request with the same dependencies and dimension returns the node of the first request,
  the copy it dropped is not registered, yet the \<open>CondLikelihood\<close> node the copy's
  \<open>build\<close> made (allocated two places after the copy, with the copy as first dependency)
  is now registered, and it was not before.
\<close>

theorem forward_create_again_grows_cache:
  assumes "wf_context c" and "deps_valid c ds"
    and "ForwardHmmLikelihood_DF_create ds d c = (c1, Inr r1)"
    and "ForwardHmmLikelihood_DF_create ds d c1 = (c2, Inr r2)"
  shows "r2 = r1 \<and> length (heap c1) + 2 \<in> set (cache c2) - set (cache c1) \<and>
    length (heap c1) \<notin> set (cache c2) \<and>
    kind (heap c2 ! (length (heap c1) + 2)) = CondLikelihood \<and>
    deps (heap c2 ! (length (heap c1) + 2)) ! 0 = length (heap c1)"
proof -
  note f1 = ForwardHmmLikelihood_DF_create_result[OF assms(3,1,2)]
  have "deps_valid c1 ds" using deps_valid_ext[OF assms(2)] f1 by blast
  note f2 = ForwardHmmLikelihood_DF_create_result[OF assms(4)] f1 this
  have r: "r2 = r1" using f1 f2 by (intro cached_results_equal[of c2 c1]) auto
  let ?n = "mk_node ForwardHmmLikelihood (map the ds) TRowVectorXd (1, snd d) d NoArgs"
  obtain cB u where
    b: "ForwardHmmLikelihood_DF_build (length (heap c1)) d (c1\<lparr>heap := heap c1 @ [?n]\<rparr>) = (cB, Inr u)" and
    ca: "cachedAs (length (heap c1)) cB = (c2, Inr r2)"
    using assms(4) unfolding ForwardHmmLikelihood_DF_create_def checkDependenciesNotNull_def
      checkDependencyVectorSize_def checkNthDependencyIsValue_def cbind_Inr
    by (auto dest!: cguard_state simp: cget_def creturn_def calloc_def)
  have "c2 = cB" using cachedAs_Inr[OF ca] r f1 by auto
  moreover have "length (heap c1) + 2 \<notin> set (cache c1)"
    using f1 by (auto simp: wf_context_def)
  ultimately show ?thesis
    using forward_build_again[OF b] f1 r by auto
qed

theorem forward_create_again_grows_cache_witness:
  "wf_context ex_hmm_ctx \<and> deps_valid ex_hmm_ctx [Some 0, Some 1, Some 2] \<and>
   ForwardHmmLikelihood_DF_create [Some 0, Some 1, Some 2] (2, 3) ex_hmm_ctx = (ex_fwd_ctx, Inr 3) \<and>
   ForwardHmmLikelihood_DF_create [Some 0, Some 1, Some 2] (2, 3) ex_fwd_ctx = (ex_fwd_ctx_again, Inr 3) \<and>
   8 \<in> set (cache ex_fwd_ctx_again) - set (cache ex_fwd_ctx) \<and> 6 \<notin> set (cache ex_fwd_ctx_again)"
proof -
  have dv: "deps_valid ex_hmm_ctx [Some 0, Some 1, Some 2]" by (simp add: deps_valid_def ex_ctx_defs)
  have len: "length (heap ex_fwd_ctx) = 6" by (simp add: ex_ctx_defs)
  have "length (heap ex_fwd_ctx) + 2 \<in> set (cache ex_fwd_ctx_again) - set (cache ex_fwd_ctx) \<and>
      length (heap ex_fwd_ctx) \<notin> set (cache ex_fwd_ctx_again)"
    using forward_create_again_grows_cache[OF ex_hmm_ctx_wf dv ex_forward_create ex_forward_again] by simp
  then show ?thesis using ex_hmm_ctx_wf dv ex_forward_create ex_forward_again len by simp
qed

end
