(* ===== verification/HmmContracts.thy ===== *)
theory HmmContracts
  imports Evaluation
begin

text \<open>
  The construction contract of \<open>ForwardHmmLikelihood_DF\<close> (specification 4.1 and 4.3):
  \<open>create\<close> returns a node exactly when its dependencies are present, of the declared
  value types and of extents that agree with the target dimension; otherwise it throws
  the first failed check, with the extents the source reports.
\<close>

section \<open>Constructions that do not throw\<close>

lemma cvalid_cachedAs_key_ext:
  "cvalid (\<lambda>c. wf_context c \<and> ctx_ext c0 c \<and> a < length (heap c) \<and>
       (\<forall>c' b. wf_context c' \<and> ctx_ext c0 c' \<and> length (heap c') = length (heap c) \<and> b < length (heap c') \<and>
          node_key (heap c' ! b) = node_key (heap c ! a) \<longrightarrow> Q b c'))
     (cachedAs a) Q E"
  by (rule cvalid_weaken[OF cvalid_cachedAs])
    (auto split: option.splits elim!: all_ext_mp2 intro: wf_register ctx_ext_trans[OF _ ctx_ext_register]
      dest: find_cached_in_range find_cached_SomeD)

lemma NumericConstant_string_create_str:
  "cvalid (\<lambda>c. wf_context c \<and> ctx_ext c0 c \<and>
       (\<forall>c' b. wf_context c' \<and> ctx_ext c0 c' \<and> length (heap c) < length (heap c') \<and> b < length (heap c') \<and>
          vty (heap c' ! b) = TString \<longrightarrow> Q b c'))
     (NumericConstant_string_create s) Q E"
  unfolding NumericConstant_string_create_def
  apply (rule cvalid_weaken)
   apply (rule cvalid_cbind cvalid_cachedAs_key_ext cvalid_calloc)+
  apply (auto simp: mk_node_def node_key_def nth_append intro!: wf_alloc
      intro: ctx_ext_trans[OF _ ctx_ext_alloc] elim!: all_ext_mp2)
  done

lemma CondLikelihood_create_ok:
  "cvalid (\<lambda>c. wf_context c \<and> ctx_ext c0 c \<and> a < length (heap c) \<and> b < length (heap c) \<and>
       vty (heap c ! b) = TString \<and>
       (\<forall>c' r. wf_context c' \<and> ctx_ext c0 c' \<and> length (heap c) < length (heap c') \<and> r < length (heap c') \<longrightarrow> Q r c'))
     (CondLikelihood_create [Some a, Some b] d) Q E"
  unfolding CondLikelihood_create_def checkDependenciesNotNull_def checkDependencyVectorSize_def
    checkNthDependencyIsValue_def
  apply (rule cvalid_weaken)
   apply (rule cvalid_cbind cvalid_creturn cvalid_cguard cvalid_cget cvalid_cachedAs_ext cvalid_calloc_ext)+
  apply (auto simp: mk_node_def node_at_def elim!: all_ext_mp2)
  done

section \<open>The extent checks of \<open>build\<close>\<close>

text \<open>
  The checks of \<open>ForwardHmmLikelihood_DF::build\<close> (lines 210--226) on the extents of
  the starting vector, the transition matrix and the emission matrix, in their order:
  the first that fails, with the extents the exception reports.
\<close>

definition forward_dims_check :: "dim \<Rightarrow> dim \<Rightarrow> dim \<Rightarrow> dim \<Rightarrow> error option" where
  "forward_dims_check d hmmEq hmmTrans hmmEmis =
     (if fst hmmEq \<noteq> fst d
      then Some (BadSize ''ForwardHmmLikelihood_DF: bad dimension for starting vector'' (fst hmmEq) (fst d))
      else if fst hmmTrans \<noteq> fst d
      then Some (BadSize ''ForwardHmmLikelihood_DF: bad number of rows for transition matrix'' (fst hmmTrans) (fst d))
      else if snd hmmTrans \<noteq> fst d
      then Some (BadSize ''ForwardHmmLikelihood_DF: bad number of columns for transition matrix'' (snd hmmTrans) (fst d))
      else if fst hmmEmis \<noteq> fst d
      then Some (BadSize ''ForwardHmmLikelihood_DF: bad number of states for emission matrix'' (fst hmmEmis) (fst d))
      else if snd hmmEmis \<noteq> snd d
      then Some (BadSize ''ForwardHmmLikelihood_DF: bad number of sites for emission matrix'' (snd hmmEmis) (snd d))
      else None)"

abbreviation forward_check_of :: "ctx \<Rightarrow> nat list \<Rightarrow> dim \<Rightarrow> error option" where
  "forward_check_of c ds d \<equiv>
     forward_dims_check d (vdim (heap c ! (ds ! 0))) (vdim (heap c ! (ds ! 1))) (vdim (heap c ! (ds ! 2)))"

lemma dep_vdim_ext:
  "ctx_ext c0 c' \<Longrightarrow> self < length (heap c0) \<Longrightarrow> deps (heap c0 ! self) ! i < length (heap c0) \<Longrightarrow>
   vdim (node_at c' (deps (node_at c' self) ! i)) = vdim (heap c0 ! (deps (heap c0 ! self) ! i))"
  by (simp add: node_at_def ctx_ext_node)

lemma ctx_ext_less: "ctx_ext c0 c' \<Longrightarrow> a < length (heap c0) \<Longrightarrow> a < length (heap c')"
  using ctx_ext_length by (rule less_le_trans[rotated])

lemma ForwardHmmLikelihood_DF_build_outcome:
  assumes "self < length (heap c0)" and "\<forall>x\<in>set (deps (heap c0 ! self)). x < length (heap c0)"
    and "length (deps (heap c0 ! self)) = 3"
  shows "cvalid (\<lambda>c. wf_context c \<and> ctx_ext c0 c) (ForwardHmmLikelihood_DF_build self d)
     (\<lambda>_ c'. wf_context c' \<and> ctx_ext c0 c' \<and> forward_check_of c0 (deps (heap c0 ! self)) d = None)
     (\<lambda>e c'. wf_context c' \<and> ctx_ext c0 c' \<and> forward_check_of c0 (deps (heap c0 ! self)) d = Some e)"
proof -
  have d: "deps (heap c0 ! self) ! 0 < length (heap c0)" "deps (heap c0 ! self) ! Suc 0 < length (heap c0)"
    "deps (heap c0 ! self) ! 2 < length (heap c0)"
    using assms(2,3) by (simp_all add: nth_mem)
  show ?thesis
    unfolding ForwardHmmLikelihood_DF_build_def dep_dim_def
    apply (rule cvalid_weaken)
     apply (rule cvalid_cbind cvalid_creturn cvalid_cguard cvalid_cget cvalid_cset_owned_ext[where ?c0.0 = c0]
        NumericConstant_string_create_str[where ?c0.0 = c0] CondLikelihood_create_ok[where ?c0.0 = c0])+
    using assms d
    apply (intro conjI allI impI; clarsimp simp: ctx_ext_less)
    apply (simp add: dep_vdim_ext[OF _ assms(1) d(1)] dep_vdim_ext[OF _ assms(1) d(2)] dep_vdim_ext[OF _ assms(1) d(3)]
        forward_dims_check_def)
    done
qed


lemma cvalid_conseq:
  assumes "cvalid P m Q E" and "\<And>x c. Q x c \<Longrightarrow> Q' x c" and "\<And>e c. E e c \<Longrightarrow> E' e c"
  shows "cvalid P m Q' E'"
  using assms unfolding cvalid_def by (fastforce split: prod.splits sum.splits)

lemma ForwardHmmLikelihood_DF_build_wp:
  "cvalid (\<lambda>c. wf_context c \<and> self < length (heap c) \<and> (\<forall>x\<in>set (deps (heap c ! self)). x < length (heap c)) \<and>
       length (deps (heap c ! self)) = 3 \<and>
       (\<forall>c'. wf_context c' \<and> ctx_ext c c' \<and> forward_check_of c (deps (heap c ! self)) d = None \<longrightarrow> Q () c') \<and>
       (\<forall>c' e. wf_context c' \<and> ctx_ext c c' \<and> forward_check_of c (deps (heap c ! self)) d = Some e \<longrightarrow> E e c'))
     (ForwardHmmLikelihood_DF_build self d) Q E"
    (is "cvalid ?P _ _ _")
proof (rule cvalid_ghost)
  fix c1
  show "cvalid (\<lambda>c. ?P c \<and> c = c1) (ForwardHmmLikelihood_DF_build self d) Q E"
  proof (cases "?P c1")
    case True
    then show ?thesis
      by (intro cvalid_weaken[OF cvalid_conseq[OF ForwardHmmLikelihood_DF_build_outcome[of self c1 d]]]) auto
  next
    case False
    then show ?thesis by (auto simp: cvalid_def)
  qed
qed

section \<open>The outcome of \<open>create\<close>\<close>

abbreviation forward_types :: "ctx \<Rightarrow> nat list \<Rightarrow> bool" where
  "forward_types c ns \<equiv>
     vty (heap c ! (ns ! 0)) = TVectorXd \<and> vty (heap c ! (ns ! 1)) = TMatrixXd \<and> vty (heap c ! (ns ! 2)) = TMatrixXd"

lemma ForwardHmmLikelihood_DF_create_outcome:
  assumes "wf_context c" and "deps_valid c ds"
  shows "cvalid (\<lambda>c1. c1 = c) (ForwardHmmLikelihood_DF_create ds d)
     (\<lambda>r c'. None \<notin> set ds \<and> length ds = 3 \<and> forward_types c (map the ds) \<and>
             forward_check_of c (map the ds) d = None)
     (\<lambda>e c'. None \<notin> set ds \<longrightarrow> length ds = 3 \<longrightarrow> forward_types c (map the ds) \<longrightarrow>
             forward_check_of c (map the ds) d = Some e)"
  unfolding ForwardHmmLikelihood_DF_create_def checkDependenciesNotNull_def checkDependencyVectorSize_def
    checkNthDependencyIsValue_def
  apply (rule cvalid_weaken)
   apply (rule cvalid_cbind cvalid_creturn cvalid_cguard cvalid_cget cvalid_calloc cvalid_cachedAs
      ForwardHmmLikelihood_DF_build_wp)+
  using assms
  apply (auto simp: mk_node_def node_at_def nth_append deps_valid_the intro!: wf_alloc intro: less_SucI deps_valid_the
      split: option.splits)
  done

lemma forward_dims_check_None:
  "forward_dims_check d a b e = None \<longleftrightarrow> fst a = fst d \<and> b = (fst d, fst d) \<and> e = d"
  by (cases a; cases b; cases e; cases d) (auto simp: forward_dims_check_def)

lemma forward_dims_check_ok: "fst a = fst d \<Longrightarrow> forward_dims_check d a (fst d, fst d) d = None"
  by (simp add: forward_dims_check_def)

lemma ForwardHmmLikelihood_DF_create_cases:
  assumes "wf_context c" and "deps_valid c ds" and "ForwardHmmLikelihood_DF_create ds d c = (c', res)"
  shows "case res of
      Inr r \<Rightarrow> None \<notin> set ds \<and> length ds = 3 \<and> forward_types c (map the ds) \<and> forward_check_of c (map the ds) d = None
    | Inl e \<Rightarrow> (None \<notin> set ds \<longrightarrow> length ds = 3 \<longrightarrow> forward_types c (map the ds) \<longrightarrow>
               forward_check_of c (map the ds) d = Some e)"
  using cvalidD[OF ForwardHmmLikelihood_DF_create_outcome[OF assms(1,2)] _ assms(3)] by simp

section \<open>Bounds of the forward values\<close>

text \<open>
  A column with nonnegative entries and a nonzero sum normalises to entries between 0
  and 1 (with a zero sum the double division of \<open>compute()\<close> has no value).
\<close>

lemma normalise_bounds:
  assumes "\<forall>k<n. 0 \<le> a k" and "i < n" and "vsum n a \<noteq> 0"
  shows "0 \<le> fst (normalise n a) i \<and> fst (normalise n a) i \<le> 1 \<and> 0 < snd (normalise n a)"
proof -
  have z: "0 \<le> vsum n a" using assms(1) unfolding vsum_def by (intro sum_nonneg) auto
  then have zp: "0 < vsum n a" using assms(3) by simp
  have "a i \<le> vsum n a"
    using assms(1,2) by (simp add: vsum_def) (rule member_le_sum, auto)
  then show ?thesis
    using zp assms(1,2) by (simp add: normalise_def Let_def divide_le_eq_1_pos)
qed

lemma fwd_bounds:
  assumes s: "\<forall>i<erows e. 0 \<le> eget s i 0" and t: "\<forall>i<erows e. \<forall>k<erows e. 0 \<le> eget t i k"
    and e: "\<forall>i<erows e. \<forall>j<ecols e. 0 \<le> eget e i j" and "j < ecols e"
    and nz: "\<forall>k\<le>j. snd (fwd s t e k) \<noteq> 0"
  shows "\<forall>i<erows e. 0 \<le> fst (fwd s t e j) i \<and> fst (fwd s t e j) i \<le> 1 \<and> 0 < snd (fwd s t e j)"
  using assms(4,5)
proof (induction j)
  case 0
  have "\<forall>k<erows e. 0 \<le> cwise (col s 0) (col e 0) k"
    using s e 0 by (auto simp: cwise_def col_def)
  moreover have "vsum (erows e) (cwise (col s 0) (col e 0)) \<noteq> 0"
    using "0.prems"(2) by (simp add: normalise_def Let_def)
  ultimately show ?case using normalise_bounds by simp
next
  case (Suc j)
  then have ih: "\<forall>i<erows e. 0 \<le> fst (fwd s t e j) i" by simp
  let ?a = "cwise (tmat_vec (erows e) (eget t) (fst (fwd s t e j))) (col e (Suc j))"
  have "\<forall>i<erows e. 0 \<le> tmat_vec (erows e) (eget t) (fst (fwd s t e j)) i"
    using ih t by (auto simp: tmat_vec_def intro!: sum_nonneg)
  then have "\<forall>k<erows e. 0 \<le> ?a k"
    using e Suc.prems(1) by (auto simp: cwise_def col_def)
  moreover have "vsum (erows e) ?a \<noteq> 0"
    using Suc.prems(2) by (auto simp: normalise_def Let_def simp del: fwd.simps) (metis fwd.simps(2) le_refl normalise_def snd_conv)
  ultimately show ?case using normalise_bounds by simp
qed

section \<open>Examples\<close>

text \<open>\<open>ex_hmm_ctx\<close> with a \<open>3 \<times> 3\<close> transition matrix at address 3.\<close>

definition ex_bad_ctx :: ctx where
  "ex_bad_ctx =
     \<lparr>heap = heap ex_hmm_ctx @
        [mk_node NumericConstant [] TMatrixXd (3, 3) (3, 3) (MatArg [[1, 0, 0], [0, 1, 0], [0, 0, 1]])],
      cache = cache ex_hmm_ctx @ [3]\<rparr>"

lemma ex_bad_ctx_wf: "wf_context ex_bad_ctx"
  by (simp add: ex_bad_ctx_def ex_hmm_ctx_def wf_context_def mk_node_def node_key_def less_Suc_eq numeral_3_eq_3)

lemma ex_bad_dv: "deps_valid ex_bad_ctx [Some 0, Some 3, Some 2]"
  by (simp add: deps_valid_def ex_bad_ctx_def ex_hmm_ctx_def)

section \<open>The contract\<close>

text \<open>
  C18: \<open>ForwardHmmLikelihood_DF::create\<close>, from a well-formed context, returns a node
  exactly when its three dependencies are present, are a vector and two matrices, and
  agree with the target dimension (states \<open>\<times>\<close> sites): the starting vector has one
  entry per state, the transition matrix is states \<open>\<times>\<close> states, the emission matrix is
  states \<open>\<times>\<close> sites.
\<close>

theorem forward_create_succeeds:
  assumes "wf_context c" and "deps_valid c ds"
  shows "(\<exists>c' r. ForwardHmmLikelihood_DF_create ds d c = (c', Inr r)) \<longleftrightarrow>
    None \<notin> set ds \<and> length ds = 3 \<and>
    vty (heap c ! the (ds ! 0)) = TVectorXd \<and> vty (heap c ! the (ds ! 1)) = TMatrixXd \<and>
    vty (heap c ! the (ds ! 2)) = TMatrixXd \<and>
    fst (vdim (heap c ! the (ds ! 0))) = fst d \<and> vdim (heap c ! the (ds ! 1)) = (fst d, fst d) \<and>
    vdim (heap c ! the (ds ! 2)) = d"
proof -
  obtain c' res where eq: "ForwardHmmLikelihood_DF_create ds d c = (c', res)" by fastforce
  note cs = ForwardHmmLikelihood_DF_create_cases[OF assms eq]
  show ?thesis
  proof (cases res)
    case (Inl e)
    with cs eq show ?thesis by (auto simp: forward_dims_check_ok)
  next
    case (Inr r)
    with cs eq show ?thesis by (auto simp: forward_dims_check_None)
  qed
qed

theorem forward_create_succeeds_witness:
  "wf_context ex_hmm_ctx \<and> deps_valid ex_hmm_ctx [Some 0, Some 1, Some 2] \<and>
   (\<exists>c' r. ForwardHmmLikelihood_DF_create [Some 0, Some 1, Some 2] (2, 3) ex_hmm_ctx = (c', Inr r))"
proof -
  have "(\<exists>c' r. ForwardHmmLikelihood_DF_create [Some 0, Some 1, Some 2] (2, 3) ex_hmm_ctx = (c', Inr r))"
    by (subst forward_create_succeeds[OF ex_hmm_ctx_wf ex_dv]) (simp add: ex_hmm_ctx_def mk_node_def)
  then show ?thesis using ex_hmm_ctx_wf ex_dv by blast
qed

text \<open>
  C19: dimension contract (specification, section 8): a forward node requested with a
  transition matrix whose number of rows is not the number of states fails with
  \<open>BadSizeException\<close> reporting the transition matrix's rows and the number of states.
\<close>

theorem forward_create_bad_transition:
  assumes "wf_context c" and "deps_valid c ds" and "None \<notin> set ds" and "length ds = 3"
    and "vty (heap c ! the (ds ! 0)) = TVectorXd" and "vty (heap c ! the (ds ! 1)) = TMatrixXd"
    and "vty (heap c ! the (ds ! 2)) = TMatrixXd"
    and "fst (vdim (heap c ! the (ds ! 0))) = fst d" and "fst (vdim (heap c ! the (ds ! 1))) \<noteq> fst d"
  shows "snd (ForwardHmmLikelihood_DF_create ds d c) =
    Inl (BadSize ''ForwardHmmLikelihood_DF: bad number of rows for transition matrix''
           (fst (vdim (heap c ! the (ds ! 1)))) (fst d))"
proof -
  obtain c' res where eq: "ForwardHmmLikelihood_DF_create ds d c = (c', res)" by fastforce
  note cs = ForwardHmmLikelihood_DF_create_cases[OF assms(1,2) eq]
  show ?thesis
    using cs assms(3-9) eq by (cases res) (auto simp: forward_dims_check_def)
qed

theorem forward_create_bad_transition_witness:
  "snd (ForwardHmmLikelihood_DF_create [Some 0, Some 3, Some 2] (2, 3) ex_bad_ctx) =
     Inl (BadSize ''ForwardHmmLikelihood_DF: bad number of rows for transition matrix'' 3 2)"
  using forward_create_bad_transition[OF ex_bad_ctx_wf ex_bad_dv, of "(2, 3)"]
  by (simp add: ex_bad_ctx_def ex_hmm_ctx_def mk_node_def nth_append)

lemma ForwardHmmLikelihood_DF_create_dims:
  assumes "ForwardHmmLikelihood_DF_create ds d c = (c', Inr r)" and "wf_context c" and "deps_valid c ds"
  shows "vdim (heap c ! the (ds ! 2)) = d \<and> vdim (heap c ! the (ds ! 1)) = (fst d, fst d) \<and>
    fst (vdim (heap c ! the (ds ! 0))) = fst d"
  using ForwardHmmLikelihood_DF_create_cases[OF assms(2,3) assms(1)] by (auto simp: forward_dims_check_None)

lemma ex_emis_dim:
  "emat_dim (dep_mat ex_hmm_ctx [Some 0, Some 1, Some 2] 2) = vdim (heap ex_hmm_ctx ! the ([Some 0, Some 1, Some 2] ! 2))"
proof -
  have "vdim (heap ex_hmm_ctx ! 2) = (2, 3)" by (simp add: ex_hmm_ctx_def mk_node_def)
  then show ?thesis by (simp add: ex_hmm_values ex_emis_def mat_simps emat_dim_def emat_of_rows_def)
qed

text \<open>
  C20: bounds: when the starting vector, the transition matrix and the emission matrix
  have nonnegative entries and the normalising constants of the sites up to \<open>j\<close> (the
  node's site values) are nonzero, every entry of column \<open>j\<close> of the created forward
  node's \<open>condLik_\<close> is a probability (between 0 and 1) and the site value is positive.
\<close>

theorem forward_node_bounds:
  assumes "ForwardHmmLikelihood_DF_create ds d c = (c', Inr r)" and "wf_context c" and "deps_valid c ds"
    and "emat_dim (dep_mat c ds 2) = vdim (heap c ! the (ds ! 2))"
    and "\<forall>i<fst d. 0 \<le> eget (dep_mat c ds 0) i 0" and "\<forall>i<fst d. \<forall>k<fst d. 0 \<le> eget (dep_mat c ds 1) i k"
    and "\<forall>i<fst d. \<forall>j<snd d. 0 \<le> eget (dep_mat c ds 2) i j"
    and "\<forall>k\<le>j. eget (value_mat (node_value c' r)) 0 k \<noteq> 0"
    and "i < fst d" and "j < snd d"
  shows "0 \<le> eget (value_cond (node_value c' r)) i j \<and> eget (value_cond (node_value c' r)) i j \<le> 1 \<and>
    0 < eget (value_mat (node_value c' r)) 0 j"
proof -
  have e: "erows (dep_mat c ds 2) = fst d" "ecols (dep_mat c ds 2) = snd d"
    using ForwardHmmLikelihood_DF_create_dims[OF assms(1-3)] assms(4) by (auto simp: emat_dim_def)
  have nz: "\<forall>k\<le>j. snd (fwd (dep_mat c ds 0) (dep_mat c ds 1) (dep_mat c ds 2) k) \<noteq> 0"
    using assms(8,10) e by (simp add: ForwardHmmLikelihood_DF_create_value[OF assms(1-3)]
        ForwardHmmLikelihood_DF_compute_def mat_simps)
  show ?thesis
    using fwd_bounds[of "dep_mat c ds 2" "dep_mat c ds 0" "dep_mat c ds 1" j, OF _ _ _ _ nz] assms(5-7,9,10)
    by (simp add: ForwardHmmLikelihood_DF_create_value[OF assms(1-3)] e)
qed

theorem forward_node_bounds_witness:
  "ForwardHmmLikelihood_DF_create [Some 0, Some 1, Some 2] (2, 3) ex_hmm_ctx = (ex_fwd_ctx, Inr 3) \<and>
   0 \<le> eget (value_cond (node_value ex_fwd_ctx 3)) 1 2 \<and> eget (value_cond (node_value ex_fwd_ctx 3)) 1 2 \<le> 1"
proof -
  have dim: "emat_dim (dep_mat ex_hmm_ctx [Some 0, Some 1, Some 2] 2) = vdim (heap ex_hmm_ctx ! the ([Some 0, Some 1, Some 2] ! 2))"
    using ex_emis_dim by simp
  have nn: "\<forall>i<fst (2::nat, 3::nat). 0 \<le> eget (dep_mat ex_hmm_ctx [Some 0, Some 1, Some 2] 0) i 0"
    "\<forall>i<fst (2::nat, 3::nat). \<forall>k<fst (2::nat, 3::nat). 0 \<le> eget (dep_mat ex_hmm_ctx [Some 0, Some 1, Some 2] 1) i k"
    "\<forall>i<fst (2::nat, 3::nat). \<forall>j<snd (2::nat, 3::nat). 0 \<le> eget (dep_mat ex_hmm_ctx [Some 0, Some 1, Some 2] 2) i j"
    unfolding ex_hmm_deps
    by (simp_all add: ex_start_def ex_trans_def ex_emis_def emat_of_rows_def mk_emat_def
        less_Suc_eq numeral_2_eq_2 numeral_3_eq_3)
  have nz: "\<forall>k\<le>2. eget (value_mat (node_value ex_fwd_ctx 3)) 0 k \<noteq> 0"
    using ex_nz_upto by (simp add: numeral_2_eq_2)
  from forward_node_bounds[OF ex_forward_create ex_hmm_ctx_wf ex_dv dim nn nz, of 1] ex_forward_create
  show ?thesis by simp
qed

section \<open>The extents the backward constructor reports\<close>

text \<open>
  C21: when the forward likelihood row vector does not have one entry per site,
  \<open>BackwardHmmLikelihood_DF\<close>'s constructor (line 564) throws \<open>BadSizeException\<close>
  with the vector's number of rows and the number of states, not with the mismatched
  numbers of columns and sites.
\<close>

theorem backward_create_bad_scale_reports:
  assumes "None \<notin> set ds" and "length ds = 3"
    and "vty (heap c ! the (ds ! 0)) = TRowVectorXd" and "vty (heap c ! the (ds ! 1)) = TMatrixXd"
    and "vty (heap c ! the (ds ! 2)) = TMatrixXd" and "snd (vdim (heap c ! the (ds ! 0))) \<noteq> snd d"
  shows "snd (BackwardHmmLikelihood_DF_create ds d c) =
    Inl (BadSize ''BackwardHmmLikelihood_DF: bad dimension for forward likelihoods vector''
           (fst (vdim (heap c ! the (ds ! 0)))) (fst d))"
  using assms
  by (simp add: BackwardHmmLikelihood_DF_create_def checkDependenciesNotNull_def checkDependencyVectorSize_def
      checkNthDependencyIsValue_def cbind_def cguard_def cm_unfold node_at_def)

theorem backward_create_bad_scale_reports_witness:
  "snd (BackwardHmmLikelihood_DF_create [Some 3, Some 1, Some 2] (2, 4) ex_fwd_ctx) =
     Inl (BadSize ''BackwardHmmLikelihood_DF: bad dimension for forward likelihoods vector'' 1 2) \<and>
   vdim (heap ex_fwd_ctx ! 3) = (1, 3)"
proof -
  have h: "vty (heap ex_fwd_ctx ! 3) = TRowVectorXd" "vty (heap ex_fwd_ctx ! 1) = TMatrixXd"
    "vty (heap ex_fwd_ctx ! 2) = TMatrixXd" "vdim (heap ex_fwd_ctx ! 3) = (1, 3)"
    by (simp_all add: ex_ctx_defs nth_append)
  show ?thesis
    using backward_create_bad_scale_reports[of "[Some 3, Some 1, Some 2]" ex_fwd_ctx "(2, 4)"] h by simp
qed

end
