(* ===== verification/HmmMembers.thy ===== *)
theory HmmMembers
  imports Evaluation
begin

text \<open>
  The private members of the HMM node classes of \<open>HmmLikelihoodComputation.h\<close> and
  their accessors: the reference to the owned conditional-likelihood node, the partial
  conditional likelihoods \<open>parCondLik_\<close> (and their derivatives \<open>dParCondLik_\<close>) that
  \<open>compute()\<close> fills in, and \<open>targetDimension_\<close>. The members of a node of the
  context are read off the node (its owned reference and target extents) and the
  values of its dependencies; \<open>parCondLik_\<close> follows the specification (4.3):
  column \<open>j + 1\<close> is \<open>transitionMatrix^T \<cdot> condLik[:, j]\<close>, column 0 the starting vector.
\<close>

section \<open>Members\<close>

text \<open>\<open>ForwardHmmLikelihood_DF\<close>: \<open>condLik_\<close>, \<open>parCondLik_\<close>, \<open>targetDimension_\<close>.\<close>

record forward_members =
  fm_condLik :: "nat option"
  fm_parCondLik :: emat
  fm_targetDimension :: dim

text \<open>\<open>ForwardHmmDLikelihood_DF\<close>: \<open>dCondLik_\<close>, \<open>dParCondLik_\<close>, \<open>targetDimension_\<close>.\<close>

record forward_d_members =
  dm_dCondLik :: "nat option"
  dm_dParCondLik :: emat
  dm_targetDimension :: dim

text \<open>\<open>ForwardHmmD2Likelihood_DF\<close>: \<open>d2CondLik_\<close>, \<open>targetDimension_\<close>.\<close>

record forward_d2_members =
  d2m_d2CondLik :: "nat option"
  d2m_targetDimension :: dim

text \<open>\<open>BackwardHmmLikelihood_DF\<close>: \<open>targetDimension_\<close> (the value is the matrix itself).\<close>

record backward_members =
  bm_targetDimension :: dim

section \<open>The partial conditional likelihoods\<close>

definition ForwardHmmLikelihood_DF_parCondLik :: "emat \<Rightarrow> emat \<Rightarrow> emat \<Rightarrow> emat" where
  "ForwardHmmLikelihood_DF_parCondLik s t e =
     mk_emat (erows e) (ecols e) (\<lambda>i j. case j of
        0 \<Rightarrow> eget s i 0
      | Suc j' \<Rightarrow> tmat_vec (erows e) (eget t) (fst (fwd s t e j')) i)"

text \<open>
  Their derivatives, propagated with the primal matrix \<open>cl\<close> of the forward node:
  \<open>dt^T \<cdot> cl[:, j] + t^T \<cdot> dCondLik[:, j]\<close>, and the derivative of the starting vector.
\<close>

definition ForwardHmmDLikelihood_DF_dParCondLik ::
  "emat \<Rightarrow> emat \<Rightarrow> emat \<Rightarrow> emat \<Rightarrow> emat \<Rightarrow> emat \<Rightarrow> emat \<Rightarrow> emat" where
  "ForwardHmmDLikelihood_DF_dParCondLik s t e cl ds dt de =
     mk_emat (erows e) (ecols e) (\<lambda>i j. case j of
        0 \<Rightarrow> eget ds i 0
      | Suc j' \<Rightarrow> tmat_vec (erows e) (eget dt) (col cl j') i +
                  tmat_vec (erows e) (eget t) (fst (dfwd s t e cl ds dt de j')) i)"

section \<open>The members of a node and the accessors\<close>

definition ForwardHmmLikelihood_DF_members :: "ctx \<Rightarrow> nat \<Rightarrow> forward_members" where
  "ForwardHmmLikelihood_DF_members c self =
     (let n = node_at c self; v = (\<lambda>k. value_mat (node_value c (deps n ! k)))
      in \<lparr>fm_condLik = owned n, fm_parCondLik = ForwardHmmLikelihood_DF_parCondLik (v 0) (v 1) (v 2),
          fm_targetDimension = tdim n\<rparr>)"

definition ForwardHmmDLikelihood_DF_members :: "ctx \<Rightarrow> nat \<Rightarrow> forward_d_members" where
  "ForwardHmmDLikelihood_DF_members c self =
     (let n = node_at c self; v = (\<lambda>k. value_mat (node_value c (deps n ! k)))
      in \<lparr>dm_dCondLik = owned n,
          dm_dParCondLik = ForwardHmmDLikelihood_DF_dParCondLik (v 0) (v 1) (v 2)
             (value_cond (node_value c (deps n ! 3))) (v 4) (v 5) (v 6),
          dm_targetDimension = tdim n\<rparr>)"

definition ForwardHmmD2Likelihood_DF_members :: "ctx \<Rightarrow> nat \<Rightarrow> forward_d2_members" where
  "ForwardHmmD2Likelihood_DF_members c self =
     (let n = node_at c self in \<lparr>d2m_d2CondLik = owned n, d2m_targetDimension = tdim n\<rparr>)"

definition BackwardHmmLikelihood_DF_members :: "ctx \<Rightarrow> nat \<Rightarrow> backward_members" where
  "BackwardHmmLikelihood_DF_members c self = \<lparr>bm_targetDimension = tdim (node_at c self)\<rparr>"

text \<open>\<open>CondLikelihood::getCondLikelihood\<close>: the matrix the node holds.\<close>

definition CondLikelihood_getCondLikelihood :: "ctx \<Rightarrow> nat \<Rightarrow> emat" where
  "CondLikelihood_getCondLikelihood c a = value_mat (node_value c a)"

definition ForwardHmmLikelihood_DF_getParCondLik :: "ctx \<Rightarrow> nat \<Rightarrow> emat" where
  "ForwardHmmLikelihood_DF_getParCondLik c self = fm_parCondLik (ForwardHmmLikelihood_DF_members c self)"

definition ForwardHmmDLikelihood_DF_getParDCondLik :: "ctx \<Rightarrow> nat \<Rightarrow> emat" where
  "ForwardHmmDLikelihood_DF_getParDCondLik c self = dm_dParCondLik (ForwardHmmDLikelihood_DF_members c self)"

section \<open>Lemmas\<close>

text \<open>The members of a created forward node are those of its dependencies' values.\<close>

lemma ForwardHmmLikelihood_DF_create_parCondLik:
  assumes "ForwardHmmLikelihood_DF_create ds d c = (c', Inr r)" and "wf_context c" and "deps_valid c ds"
  shows "ForwardHmmLikelihood_DF_getParCondLik c' r =
    ForwardHmmLikelihood_DF_parCondLik (dep_mat c ds 0) (dep_mat c ds 1) (dep_mat c ds 2)"
proof -
  note res = ForwardHmmLikelihood_DF_create_result[OF assms]
  then have dp: "deps (heap c' ! r) = map the ds"
    using key_kind_deps by blast
  have "node_value c' (the (ds ! k)) = node_value c (the (ds ! k))" if "k < 3" for k
    using res assms(3) that by (intro node_value_ext) (auto intro: deps_valid_the)
  then show ?thesis
    using res dp by (simp add: ForwardHmmLikelihood_DF_getParCondLik_def ForwardHmmLikelihood_DF_members_def
        node_at_def Let_def)
qed


end
