(* ===== verification/TreeBuilder.thy ===== *)
theory TreeBuilder
  imports HmmNodes
begin

text \<open>
  The tree likelihood builder of \<open>src/src/Bpp/NewPhyl/HomogeneousLikelihoodExample.h\<close>:
  the helper \<open>HomogeneousLikelihoodNodesHelper\<close> with its two mutually recursive
  methods \<open>makeConditionalLikelihoodNode\<close> and \<open>makeForwardLikelihoodNode\<close> and the leaf
  case \<open>makeInitialConditionalLikelihood\<close>, and the entry point
  \<open>makeHomogeneousLikelihoodNodes\<close>. They run in the construction monad of
  \<open>Dataflow\<close>. The node classes they create (\<open>TransitionMatrixFromModel\<close>,
  \<open>ForwardLikelihoodFromConditional\<close>, \<open>ConditionalLikelihoodFromChildrenForward\<close>, ...)
  belong to the dataflow library, which is not part of the sources: their \<open>create\<close> is
  modelled from the specification (4.1) as a null check followed by \<open>cachedAs\<close>.
\<close>

section \<open>The inputs\<close>

text \<open>
  A rooted phylogenetic tree as the builder walks it: a node has its index, its name
  (the sequence name of a leaf) and its child branches, each an edge index and the
  son it leads to (\<open>getBranches\<close>, \<open>getSon\<close>, \<open>getNode(index)->getName()\<close>).
\<close>

datatype ptree = PNode nat string "(nat \<times> ptree) list"

record phylo_tree =
  is_rooted :: bool
  root_node :: ptree

text \<open>
  \<open>AlignedValuesContainer\<close>: the sequence names, the number of sites and
  \<open>getStateValueAt(site, sequenceIndex, state)\<close>.
\<close>

record aligned_sites =
  seq_names :: "string list"
  nb_sites :: nat
  state_value :: "nat \<Rightarrow> nat \<Rightarrow> int \<Rightarrow> real"

text \<open>
  \<open>ConfiguredPhyloTree\<close>: its node in the context, the tree, and the names of its
  parameters, in the order of its dependencies (\<open>getParameterIndex\<close>, \<open>dependency\<close>).
\<close>

record configured_tree =
  ctree_node :: nat
  ctree_value :: phylo_tree
  ctree_params :: "string list"

text \<open>\<open>ConfiguredModel\<close>: its node, \<open>getNumberOfStates()\<close> and \<open>getStateMap().getAlphabetStateAsInt\<close>.\<close>

record configured_model =
  cmodel_node :: nat
  nb_states :: nat
  alphabet_state :: "nat \<Rightarrow> int"

text \<open>
  \<open>HomogeneousLikelihoodNodesHelper\<close> (lines 72--82); the context is the monad's state,
  and the fields \<open>totalLogLikelihood\<close> and \<open>rate\<close>, initialised to null and never read,
  are left out.
\<close>

record helper =
  h_sites :: aligned_sites
  h_tree :: configured_tree
  h_model :: configured_model
  h_rootFreqs :: "nat option"
  h_dim :: dim
  h_nbState :: nat
  h_nbSite :: nat

section \<open>Library operations\<close>

text \<open>The first position of an element in a list (\<open>getSequencePosition\<close>, \<open>getParameterIndex\<close>).\<close>

fun position :: "'a list \<Rightarrow> 'a \<Rightarrow> nat option" where
  "position [] x = None"
| "position (y # ys) x = (if y = x then Some 0 else map_option Suc (position ys x))"

text \<open>\<open>TextTools::toString\<close> of a natural number: its decimal digits.\<close>

fun dec_string :: "nat \<Rightarrow> string" where
  "dec_string n = (if n < 10 then [''0123456789'' ! n] else dec_string (n div 10) @ [''0123456789'' ! (n mod 10)])"

text \<open>\<open>NumericConstant<Eigen::MatrixXd>::create\<close>: a leaf holding a matrix, shared by value.\<close>

definition NumericConstant_matrix_create :: "real list list \<Rightarrow> nat cm" where
  "NumericConstant_matrix_create rs =
     (let d = (length rs, if rs = [] then 0 else length (hd rs))
      in cbind (calloc (mk_node NumericConstant [] TMatrixXd d d (MatArg rs))) cachedAs)"

text \<open>
  \<open>create\<close> of a dataflow library class with no additional arguments: the null check of
  its dependencies, then the node, shared by \<open>cachedAs\<close>. \<open>ConfiguredParametrizable::createMatrix\<close>
  and \<open>createVector\<close> are this \<open>create\<close> for the given class.
\<close>

definition dataflow_create :: "node_kind \<Rightarrow> vtype \<Rightarrow> nat option list \<Rightarrow> dim \<Rightarrow> nat cm" where
  "dataflow_create k t deps0 d =
     cbind (checkDependenciesNotNull ''dataflow'' deps0) (\<lambda>ds.
     cbind (calloc (mk_node k ds t d d NoArgs)) cachedAs)"

section \<open>The builder\<close>

text \<open>The helper as \<open>makeHomogeneousLikelihoodNodes\<close> initialises it (lines 140--150).\<close>

definition HomogeneousLikelihoodNodesHelper_init ::
  "aligned_sites \<Rightarrow> configured_tree \<Rightarrow> configured_model \<Rightarrow> nat option \<Rightarrow> helper" where
  "HomogeneousLikelihoodNodesHelper_init sites tree model rootFreqs =
     \<lparr>h_sites = sites, h_tree = tree, h_model = model, h_rootFreqs = rootFreqs,
      h_dim = (nb_states model, nb_sites sites), h_nbState = nb_states model, h_nbSite = nb_sites sites\<rparr>"

text \<open>
  \<open>makeInitialConditionalLikelihood\<close> (lines 84--96): the states \<open>\<times>\<close> sites matrix of
  the leaf's observed values; \<open>getSequencePosition\<close> throws when the alignment has no
  sequence of that name.
\<close>

definition makeInitialConditionalLikelihood :: "helper \<Rightarrow> string \<Rightarrow> nat cm" where
  "makeInitialConditionalLikelihood h name =
     cbind (clift (case position (seq_names (h_sites h)) name of
                     None \<Rightarrow> Inl (Failure ''SequenceNotFoundException'')
                   | Some i \<Rightarrow> Inr i)) (\<lambda>sequenceIndex.
     NumericConstant_matrix_create
       (map (\<lambda>state. map (\<lambda>site. state_value (h_sites h) site sequenceIndex
                                     (alphabet_state (h_model h) state))
                       [0..<h_nbSite h])
            [0..<h_nbState h]))"

text \<open>
  The branch-length parameter of an edge (line 99): the dependency of the configured
  tree at the index of its parameter \<open>"BrLen" + index\<close>.
\<close>

definition branch_length_node :: "helper \<Rightarrow> nat \<Rightarrow> nat cm" where
  "branch_length_node h index =
     cbind (clift (case position (ctree_params (h_tree h)) (''BrLen'' @ dec_string index) of
                     None \<Rightarrow> Inl (Failure ''ParameterNotFoundException'')
                   | Some k \<Rightarrow> Inr k)) (\<lambda>k.
     cget (\<lambda>c. deps (node_at c (ctree_node (h_tree h))) ! k))"

text \<open>
  \<open>makeForwardLikelihoodNode\<close> (lines 98--106) for an edge, given the construction of
  the conditional likelihood of its son: the branch length, then the son's conditional
  likelihood, then the transition matrix of the model for that branch length, then the
  likelihood propagated along the branch.
\<close>

definition makeForwardLikelihoodNode :: "helper \<Rightarrow> nat \<Rightarrow> nat cm \<Rightarrow> nat cm" where
  "makeForwardLikelihoodNode h index makeSon =
     cbind (branch_length_node h index) (\<lambda>brlen.
     cbind makeSon (\<lambda>childConditionalLikelihood.
     cbind (dataflow_create TransitionMatrixFromModel TMatrixXd
              [Some (cmodel_node (h_model h)), Some brlen] (h_nbState h, h_nbState h)) (\<lambda>transitionMatrix.
     dataflow_create ForwardLikelihoodFromConditional TMatrixXd
       [Some transitionMatrix, Some childConditionalLikelihood] (h_dim h))))"

text \<open>
  \<open>makeConditionalLikelihoodNode\<close> (lines 108--120): a leaf gives its initial
  conditional likelihood; an inner node the product of the forward likelihoods of its
  branches, built in order (the loop filling \<open>deps\<close>).
\<close>

fun makeConditionalLikelihoodNode :: "helper \<Rightarrow> ptree \<Rightarrow> nat cm"
and makeForwardLikelihoodNodes :: "helper \<Rightarrow> (nat \<times> ptree) list \<Rightarrow> nat list cm" where
  "makeConditionalLikelihoodNode h (PNode index name []) = makeInitialConditionalLikelihood h name"
| "makeConditionalLikelihoodNode h (PNode index name (b # bs)) =
     cbind (makeForwardLikelihoodNodes h (b # bs)) (\<lambda>deps.
     dataflow_create ConditionalLikelihoodFromChildrenForward TMatrixXd (map Some deps) (h_dim h))"
| "makeForwardLikelihoodNodes h [] = creturn []"
| "makeForwardLikelihoodNodes h ((e, t) # bs) =
     cbind (makeForwardLikelihoodNode h e (makeConditionalLikelihoodNode h t)) (\<lambda>d.
     cbind (makeForwardLikelihoodNodes h bs) (\<lambda>ds. creturn (d # ds)))"

text \<open>
  \<open>makeHomogeneousLikelihoodNodes\<close> (lines 134--170): reject an unrooted tree, build the
  root's conditional likelihood, the root frequencies (of the frequency set if one is
  given, else the model's equilibrium frequencies), the site likelihoods, their total
  log-likelihood, and its negation.
\<close>

definition makeHomogeneousLikelihoodNodes ::
  "aligned_sites \<Rightarrow> configured_tree \<Rightarrow> configured_model \<Rightarrow> nat option \<Rightarrow> nat cm" where
  "makeHomogeneousLikelihoodNodes sites tree model rootFreqs =
     (let nbState = nb_states model; nbSite = nb_sites sites
      in if \<not> is_rooted (ctree_value tree) then cthrow (Failure ''PhyloTree must be rooted'')
      else
        (let h = HomogeneousLikelihoodNodesHelper_init sites tree model rootFreqs
         in cbind (makeConditionalLikelihoodNode h (root_node (ctree_value tree))) (\<lambda>rootConditionalLikelihoods.
            cbind (case rootFreqs of
                     Some rf \<Rightarrow> dataflow_create FrequenciesFromFrequenciesSet TRowVectorXd [Some rf] (1, nbState)
                   | None \<Rightarrow> dataflow_create EquilibriumFrequenciesFromModel TRowVectorXd
                               [Some (cmodel_node model)] (1, nbState)) (\<lambda>rFreqs.
            cbind (dataflow_create LikelihoodFromRootConditional TRowVectorXd
                     [Some rFreqs, Some rootConditionalLikelihoods] (1, nbSite)) (\<lambda>siteLikelihoods.
            cbind (dataflow_create TotalLogLikelihood TDouble [Some siteLikelihoods] (1, nbSite)) (\<lambda>totalLogLikelihood.
            dataflow_create CWiseNegate TDouble [Some totalLogLikelihood] (1, 1)))))))"

text \<open>
  The configured objects the builder is handed refer to nodes of the context, and the
  tree node has a dependency for each of its parameters.
\<close>

definition inputs_valid :: "helper \<Rightarrow> ctx \<Rightarrow> bool" where
  "inputs_valid h c \<longleftrightarrow>
     ctree_node (h_tree h) < length (heap c) \<and>
     length (ctree_params (h_tree h)) \<le> length (deps (heap c ! ctree_node (h_tree h))) \<and>
     cmodel_node (h_model h) < length (heap c) \<and>
     (\<forall>rf. h_rootFreqs h = Some rf \<longrightarrow> rf < length (heap c))"

subsection \<open>Examples\<close>

text \<open>
  A context holding a configured model (address 0), the two branch-length parameters
  (1 and 2) and the configured tree depending on them (3); two sequences of two sites,
  one-hot observations; a rooted cherry with leaves \<open>A\<close> and \<open>B\<close>, the same tree
  unrooted, and a cherry whose second leaf names no sequence.
\<close>

definition ex_tree_ctx :: ctx where
  "ex_tree_ctx =
     \<lparr>heap = [mk_node ConfiguredModel [] TObject (1, 1) (1, 1) (StrArg ''model''),
              mk_node NumericMutable [] TDouble (1, 1) (1, 1) (MatArg [[1/10]]),
              mk_node NumericMutable [] TDouble (1, 1) (1, 1) (MatArg [[2/10]]),
              mk_node ConfiguredPhyloTree [1, 2] TObject (1, 1) (1, 1) (StrArg ''tree'')],
      cache = [0, 1, 2, 3]\<rparr>"

definition ex_sites :: aligned_sites where
  "ex_sites = \<lparr>seq_names = [''A'', ''B''], nb_sites = 2,
     state_value = (\<lambda>site seq st. if st = [[0, 1], [1, 1]] ! seq ! site then 1 else 0)\<rparr>"

definition ex_model :: configured_model where
  "ex_model = \<lparr>cmodel_node = 0, nb_states = 2, alphabet_state = int\<rparr>"

definition ex_ctree :: "bool \<Rightarrow> string \<Rightarrow> configured_tree" where
  "ex_ctree rooted second =
     \<lparr>ctree_node = 3,
      ctree_value = \<lparr>is_rooted = rooted, root_node = PNode 0 [] [(0, PNode 1 ''A'' []), (1, PNode 2 second [])]\<rparr>,
      ctree_params = [''BrLen0'', ''BrLen1'']\<rparr>"

section \<open>Construction keeps the context well-formed\<close>

lemma position_SomeD: "position xs x = Some k \<Longrightarrow> k < length xs \<and> xs ! k = x"
  by (induction xs arbitrary: k) (auto split: if_splits)

lemma inputs_valid_ext: "inputs_valid h c0 \<Longrightarrow> ctx_ext c0 c \<Longrightarrow> inputs_valid h c"
  unfolding inputs_valid_def using ctx_ext_length[of c0 c] ctx_ext_node(2)[of c0 c] by fastforce

lemma inputs_valid_model: "inputs_valid h c0 \<Longrightarrow> ctx_ext c0 c \<Longrightarrow> cmodel_node (h_model h) < length (heap c)"
  using ctx_ext_length[of c0 c] by (simp add: inputs_valid_def)

lemma dep_in_range:
  "wf_context c \<Longrightarrow> a < length (heap c) \<Longrightarrow> k < length (deps (heap c ! a)) \<Longrightarrow> deps (heap c ! a) ! k < length (heap c)"
  unfolding wf_context_def using nth_mem by fastforce

lemma NumericConstant_matrix_create_ext:
  "cvalid (\<lambda>c. wf_context c \<and> ctx_ext c0 c \<and>
       (\<forall>c' b. wf_context c' \<and> ctx_ext c0 c' \<and> length (heap c) < length (heap c') \<and> b < length (heap c') \<longrightarrow> Q b c'))
     (NumericConstant_matrix_create rs) Q E"
  unfolding NumericConstant_matrix_create_def Let_def
  apply (rule cvalid_weaken)
   apply (rule cvalid_cbind cvalid_cachedAs_ext cvalid_calloc_ext)+
  apply (auto simp: mk_node_def elim!: all_ext_mp2)
  done

lemma dataflow_create_ext:
  "cvalid (\<lambda>c. wf_context c \<and> ctx_ext c0 c \<and> deps_valid c deps0 \<and>
       (\<forall>c' b. wf_context c' \<and> ctx_ext c0 c' \<and> length (heap c) \<le> length (heap c') \<and> b < length (heap c') \<longrightarrow> Q b c') \<and>
       (None \<in> set deps0 \<longrightarrow> (\<forall>e. E e c)))
     (dataflow_create k t deps0 d) Q E"
  unfolding dataflow_create_def checkDependenciesNotNull_def
  apply (rule cvalid_weaken)
   apply (rule cvalid_cbind cvalid_creturn cvalid_cguard cvalid_cachedAs_ext cvalid_calloc_ext)+
  apply (auto simp: mk_node_def deps_valid_the elim!: all_ext_mp2 all_ext_mp)
  done

lemma cvalid_clift: "cvalid (\<lambda>c. case r of Inl e \<Rightarrow> E e c | Inr x \<Rightarrow> Q x c) (clift r) Q E"
  by (cases r) (simp_all add: cvalid_def clift_def)

lemma makeInitialConditionalLikelihood_ext:
  "cvalid (\<lambda>c. wf_context c \<and> ctx_ext c0 c \<and>
       (\<forall>c' b. wf_context c' \<and> ctx_ext c0 c' \<and> length (heap c) \<le> length (heap c') \<and> b < length (heap c') \<longrightarrow> Q b c') \<and>
       (\<forall>c' e. wf_context c' \<and> ctx_ext c0 c' \<and> length (heap c) \<le> length (heap c') \<and> e = Failure ''SequenceNotFoundException'' \<longrightarrow> E e c'))
     (makeInitialConditionalLikelihood h name) Q E"
  unfolding makeInitialConditionalLikelihood_def
  apply (rule cvalid_weaken)
   apply (rule cvalid_cbind cvalid_clift NumericConstant_matrix_create_ext)+
  apply (auto split: option.splits elim!: all_ext_mp2 all_ext_mp)
  done

lemma branch_length_node_ext:
  "cvalid (\<lambda>c. wf_context c \<and> ctx_ext c0 c \<and> inputs_valid h c \<and>
       (\<forall>c' b. wf_context c' \<and> ctx_ext c0 c' \<and> length (heap c) \<le> length (heap c') \<and> b < length (heap c') \<longrightarrow> Q b c') \<and>
       (\<forall>c' e. wf_context c' \<and> ctx_ext c0 c' \<and> length (heap c) \<le> length (heap c') \<and> e = Failure ''ParameterNotFoundException'' \<longrightarrow> E e c'))
     (branch_length_node h index) Q E"
  unfolding branch_length_node_def
proof (rule cvalid_weaken)
  show "cvalid (\<lambda>c. case case position (ctree_params (h_tree h)) (''BrLen'' @ dec_string index) of
          None \<Rightarrow> Inl (Failure ''ParameterNotFoundException'') | Some k \<Rightarrow> Inr k of
        Inl e \<Rightarrow> E e c | Inr k \<Rightarrow> Q (deps (node_at c (ctree_node (h_tree h))) ! k) c)
     (cbind (clift (case position (ctree_params (h_tree h)) (''BrLen'' @ dec_string index) of
          None \<Rightarrow> Inl (Failure ''ParameterNotFoundException'') | Some k \<Rightarrow> Inr k))
       (\<lambda>k. cget (\<lambda>c. deps (node_at c (ctree_node (h_tree h))) ! k))) Q E"
    by (rule cvalid_cbind cvalid_clift cvalid_cget)+
next
  fix c
  assume c: "wf_context c \<and> ctx_ext c0 c \<and> inputs_valid h c \<and>
       (\<forall>c' b. wf_context c' \<and> ctx_ext c0 c' \<and> length (heap c) \<le> length (heap c') \<and> b < length (heap c') \<longrightarrow> Q b c') \<and>
       (\<forall>c' e. wf_context c' \<and> ctx_ext c0 c' \<and> length (heap c) \<le> length (heap c') \<and> e = Failure ''ParameterNotFoundException'' \<longrightarrow> E e c')"
  show "case case position (ctree_params (h_tree h)) (''BrLen'' @ dec_string index) of
          None \<Rightarrow> Inl (Failure ''ParameterNotFoundException'') | Some k \<Rightarrow> Inr k of
        Inl e \<Rightarrow> E e c | Inr k \<Rightarrow> Q (deps (node_at c (ctree_node (h_tree h))) ! k) c"
  proof (cases "position (ctree_params (h_tree h)) (''BrLen'' @ dec_string index)")
    case (Some k)
    then have "k < length (deps (heap c ! ctree_node (h_tree h)))"
      using c position_SomeD[OF Some] by (auto simp: inputs_valid_def)
    then have "deps (heap c ! ctree_node (h_tree h)) ! k < length (heap c)"
      using c by (intro dep_in_range) (auto simp: inputs_valid_def)
    then show ?thesis using c Some by (simp add: node_at_def)
  qed (use c in simp)
qed

lemma cvalid_if:
  "(b \<Longrightarrow> cvalid P1 m1 Q E) \<Longrightarrow> (\<not> b \<Longrightarrow> cvalid P2 m2 Q E) \<Longrightarrow>
   cvalid (\<lambda>c. (b \<longrightarrow> P1 c) \<and> (\<not> b \<longrightarrow> P2 c)) (if b then m1 else m2) Q E"
  by (cases b) (simp_all add: cvalid_def)

lemma cvalid_case_option:
  "(\<And>x. r = Some x \<Longrightarrow> cvalid (P1 x) (m1 x) Q E) \<Longrightarrow> (r = None \<Longrightarrow> cvalid P2 m2 Q E) \<Longrightarrow>
   cvalid (\<lambda>c. (\<forall>x. r = Some x \<longrightarrow> P1 x c) \<and> (r = None \<longrightarrow> P2 c)) (case r of None \<Rightarrow> m2 | Some x \<Rightarrow> m1 x) Q E"
  by (cases r) (simp_all add: cvalid_def)

lemma deps_valid_map_Some [simp]: "deps_valid c (map Some ds) \<longleftrightarrow> (\<forall>d\<in>set ds. d < length (heap c))"
  by (auto simp: deps_valid_def)

lemma makeForwardLikelihoodNode_ext:
  assumes son: "\<And>Q E. cvalid (\<lambda>c. wf_context c \<and> ctx_ext c0 c \<and> inputs_valid h c0 \<and>
       (\<forall>c' b. wf_context c' \<and> ctx_ext c0 c' \<and> length (heap c) \<le> length (heap c') \<and> b < length (heap c') \<longrightarrow> Q b c') \<and>
       (\<forall>c' e. wf_context c' \<and> ctx_ext c0 c' \<and> length (heap c) \<le> length (heap c') \<and> (e = Failure ''SequenceNotFoundException'' \<or> e = Failure ''ParameterNotFoundException'') \<longrightarrow> E e c'))
     makeSon Q E"
  shows "cvalid (\<lambda>c. wf_context c \<and> ctx_ext c0 c \<and> inputs_valid h c0 \<and>
       (\<forall>c' b. wf_context c' \<and> ctx_ext c0 c' \<and> length (heap c) \<le> length (heap c') \<and> b < length (heap c') \<longrightarrow> Q b c') \<and>
       (\<forall>c' e. wf_context c' \<and> ctx_ext c0 c' \<and> length (heap c) \<le> length (heap c') \<and> (e = Failure ''SequenceNotFoundException'' \<or> e = Failure ''ParameterNotFoundException'') \<longrightarrow> E e c'))
     (makeForwardLikelihoodNode h index makeSon) Q E"
  unfolding makeForwardLikelihoodNode_def
  apply (rule cvalid_weaken)
   apply (rule cvalid_cbind branch_length_node_ext son dataflow_create_ext)+
  apply (auto simp: deps_valid_def elim!: all_ext_mp2 all_ext_mp intro: inputs_valid_ext inputs_valid_model)
  done

lemma builder_ext:
  "cvalid (\<lambda>c. wf_context c \<and> ctx_ext c0 c \<and> inputs_valid h c0 \<and>
       (\<forall>c' b. wf_context c' \<and> ctx_ext c0 c' \<and> length (heap c) \<le> length (heap c') \<and> b < length (heap c') \<longrightarrow> Q b c') \<and>
       (\<forall>c' e. wf_context c' \<and> ctx_ext c0 c' \<and> length (heap c) \<le> length (heap c') \<and> (e = Failure ''SequenceNotFoundException'' \<or> e = Failure ''ParameterNotFoundException'') \<longrightarrow> E e c'))
     (makeConditionalLikelihoodNode h t) Q E"
  "cvalid (\<lambda>c. wf_context c \<and> ctx_ext c0 c \<and> inputs_valid h c0 \<and>
       (\<forall>c' bs. wf_context c' \<and> ctx_ext c0 c' \<and> length (heap c) \<le> length (heap c') \<and>
          (\<forall>b\<in>set bs. b < length (heap c')) \<longrightarrow> Q' bs c') \<and>
       (\<forall>c' e. wf_context c' \<and> ctx_ext c0 c' \<and> length (heap c) \<le> length (heap c') \<and> (e = Failure ''SequenceNotFoundException'' \<or> e = Failure ''ParameterNotFoundException'') \<longrightarrow> E e c'))
     (makeForwardLikelihoodNodes h bs) Q' E"
proof (induction h t and h bs arbitrary: Q E and Q' E rule: makeConditionalLikelihoodNode_makeForwardLikelihoodNodes.induct)
  case (1 h index name)
  show ?case
    unfolding makeConditionalLikelihoodNode.simps
    by (rule cvalid_weaken[OF makeInitialConditionalLikelihood_ext]) blast
next
  case (2 h index name b bs)
  show ?case
    unfolding makeConditionalLikelihoodNode.simps
    apply (rule cvalid_weaken)
     apply (rule cvalid_cbind dataflow_create_ext 2)+
    apply (auto elim!: all_ext_mp2 all_ext_mp)
    done
next
  case (3 h)
  then show ?case
    by (auto simp: cvalid_def creturn_def)
next
  case (4 h e t bs)
  show ?case
    unfolding makeForwardLikelihoodNodes.simps
    apply (rule cvalid_weaken)
     apply (rule cvalid_cbind cvalid_creturn makeForwardLikelihoodNode_ext 4)+
    apply (auto elim!: all_ext_mp2 all_ext_mp)
    done
qed

lemma makeHomogeneousLikelihoodNodes_ext:
  "cvalid (\<lambda>c. wf_context c \<and> ctx_ext c0 c \<and>
       inputs_valid (HomogeneousLikelihoodNodesHelper_init sites tree model rootFreqs) c0 \<and>
       (\<forall>c' b. wf_context c' \<and> ctx_ext c0 c' \<and> length (heap c) \<le> length (heap c') \<and> b < length (heap c') \<longrightarrow> Q b c') \<and>
       (\<not> is_rooted (ctree_value tree) \<longrightarrow> E (Failure ''PhyloTree must be rooted'') c) \<and>
       (\<forall>c' e. wf_context c' \<and> ctx_ext c0 c' \<and> length (heap c) \<le> length (heap c') \<and> is_rooted (ctree_value tree) \<and>
          (e = Failure ''SequenceNotFoundException'' \<or> e = Failure ''ParameterNotFoundException'') \<longrightarrow> E e c'))
     (makeHomogeneousLikelihoodNodes sites tree model rootFreqs) Q E"
  unfolding makeHomogeneousLikelihoodNodes_def Let_def
  apply (rule cvalid_weaken)
   apply (rule cvalid_if cvalid_cthrow cvalid_cbind builder_ext dataflow_create_ext cvalid_case_option)+
  apply (auto simp: deps_valid_def inputs_valid_def HomogeneousLikelihoodNodesHelper_init_def
      elim!: all_ext_mp2 all_ext_mp dest: ctx_ext_length)
  done

lemma builder_wf_ext:
  assumes "wf_context c" and "inputs_valid (HomogeneousLikelihoodNodesHelper_init sites tree model rootFreqs) c"
  shows "case makeHomogeneousLikelihoodNodes sites tree model rootFreqs c of
           (c', Inl e) \<Rightarrow> wf_context c' \<and> ctx_ext c c' \<and>
              (\<not> is_rooted (ctree_value tree) \<and> e = Failure ''PhyloTree must be rooted'' \<and> c' = c \<or>
               is_rooted (ctree_value tree) \<and>
               (e = Failure ''SequenceNotFoundException'' \<or> e = Failure ''ParameterNotFoundException''))
         | (c', Inr r) \<Rightarrow> wf_context c' \<and> ctx_ext c c' \<and> r < length (heap c')"
proof -
  obtain c' x where m: "makeHomogeneousLikelihoodNodes sites tree model rootFreqs c = (c', x)"
    by (cases "makeHomogeneousLikelihoodNodes sites tree model rootFreqs c")
  have "case x of Inl e \<Rightarrow> wf_context c' \<and> ctx_ext c c' \<and>
              (\<not> is_rooted (ctree_value tree) \<and> e = Failure ''PhyloTree must be rooted'' \<and> c' = c \<or>
               is_rooted (ctree_value tree) \<and>
               (e = Failure ''SequenceNotFoundException'' \<or> e = Failure ''ParameterNotFoundException''))
         | Inr r \<Rightarrow> wf_context c' \<and> ctx_ext c c' \<and> r < length (heap c')"
    by (rule cvalidD[OF makeHomogeneousLikelihoodNodes_ext[of c] _ m]) (use assms in auto)
  then show ?thesis using m by (cases x) simp_all
qed

lemma ex_tree_ctx_wf: "wf_context ex_tree_ctx"
  by (simp add: ex_tree_ctx_def wf_context_def mk_node_def node_key_def less_Suc_eq numeral_3_eq_3)

lemma ex_inputs_valid: "inputs_valid (HomogeneousLikelihoodNodesHelper_init ex_sites (ex_ctree b s) ex_model None) ex_tree_ctx"
  by (simp add: inputs_valid_def HomogeneousLikelihoodNodesHelper_init_def ex_ctree_def ex_model_def ex_tree_ctx_def
      mk_node_def)

lemmas builder_defs = makeHomogeneousLikelihoodNodes_def HomogeneousLikelihoodNodesHelper_init_def
  makeForwardLikelihoodNode_def makeInitialConditionalLikelihood_def branch_length_node_def
  NumericConstant_matrix_create_def dataflow_create_def checkDependenciesNotNull_def
  cbind_def cguard_def cm_unfold cachedAs_def node_at_def node_key_def Let_def upt_rec
  ex_tree_ctx_def ex_sites_def ex_model_def ex_ctree_def mk_node_def

end
