(* ===== verification/TreeEval.thy ===== *)
theory TreeEval
  imports TreeBuilder Evaluation
begin

text \<open>
  The values of the tree likelihood graph: the graph \<open>makeHomogeneousLikelihoodNodes\<close>
  builds evaluates to Felsenstein's pruning recursion (specification, section 4.2)
  over the tree, with the model's transition probabilities for the branch lengths the
  tree's parameter nodes hold.
\<close>

section \<open>The reference: Felsenstein's pruning recursion\<close>

text \<open>
  The conditional likelihood of the subtree at a node, for a state and a site: the
  observation at a leaf, the product over the child branches of the transition
  probabilities to each state of the son times the son's conditional likelihood.
\<close>

fun felsenstein :: "(real \<Rightarrow> emat) \<Rightarrow> (nat \<Rightarrow> real) \<Rightarrow> nat \<Rightarrow> (string \<Rightarrow> nat \<Rightarrow> nat \<Rightarrow> real) \<Rightarrow>
    ptree \<Rightarrow> nat \<Rightarrow> nat \<Rightarrow> real" where
  "felsenstein p bl n leaf (PNode i name []) a j = leaf name a j"
| "felsenstein p bl n leaf (PNode i name (b # bs)) a j =
     (\<Prod>x\<leftarrow>b # bs. \<Sum>k<n. eget (p (bl (fst x))) a k * felsenstein p bl n leaf (snd x) k j)"

text \<open>
  The observation at a leaf (\<open>makeInitialConditionalLikelihood\<close>), the branch length of
  an edge as the value of the tree's parameter node (\<open>"BrLen" + index\<close>), and the
  negative log-likelihood of the tree from the row vector \<open>fr\<close> of root frequencies.
\<close>

definition fel_leaf :: "aligned_sites \<Rightarrow> configured_model \<Rightarrow> string \<Rightarrow> nat \<Rightarrow> nat \<Rightarrow> real" where
  "fel_leaf sites model name a j =
     (case position (seq_names sites) name of
        Some i \<Rightarrow> state_value sites j i (alphabet_state model a)
      | None \<Rightarrow> 0)"

definition brlen_of :: "ctx \<Rightarrow> configured_tree \<Rightarrow> nat \<Rightarrow> real" where
  "brlen_of c tree e =
     (case position (ctree_params tree) (''BrLen'' @ dec_string e) of
        Some k \<Rightarrow> eget (value_mat (node_value c (deps (heap c ! ctree_node tree) ! k))) 0 0
      | None \<Rightarrow> 0)"

definition tree_neg_loglik :: "(real \<Rightarrow> emat) \<Rightarrow> emat \<Rightarrow> (nat \<Rightarrow> real) \<Rightarrow> nat \<Rightarrow>
    (string \<Rightarrow> nat \<Rightarrow> nat \<Rightarrow> real) \<Rightarrow> nat \<Rightarrow> ptree \<Rightarrow> real" where
  "tree_neg_loglik p fr bl n leaf m t =
     - (\<Sum>j<m. ln (\<Sum>a<n. eget fr 0 a * felsenstein p bl n leaf t a j))"

text \<open>
  The root frequencies the builder uses: those of the frequency set when one is given,
  else the model's equilibrium frequencies \<open>fr\<close>.
\<close>

definition root_freqs :: "ctx \<Rightarrow> emat \<Rightarrow> nat option \<Rightarrow> emat" where
  "root_freqs c fr rootFreqs = (case rootFreqs of Some rf \<Rightarrow> value_mat (node_value c rf) | None \<Rightarrow> fr)"

text \<open>
  The context of \<open>TreeBuilder.ex_tree_ctx\<close> with a configured two-state model whose
  eigendecomposition is \<open>V = [[1, 1], [1, -1]]\<close>, eigenvalues \<open>0, -2\<close>, \<open>V\<^sup>-\<^sup>1 = V / 2\<close>,
  and uniform equilibrium frequencies.
\<close>

definition ex_jc_ctx :: ctx where
  "ex_jc_ctx =
     \<lparr>heap = [mk_node ConfiguredModel [] TObject (1, 1) (1, 1)
                (ModelArg [[1, 1], [1, -1]] [0, -2] [[1/2, 1/2], [1/2, -1/2]] [1/2, 1/2]),
              mk_node NumericMutable [] TDouble (1, 1) (1, 1) (MatArg [[1/10]]),
              mk_node NumericMutable [] TDouble (1, 1) (1, 1) (MatArg [[2/10]]),
              mk_node ConfiguredPhyloTree [1, 2] TObject (1, 1) (1, 1) (StrArg ''tree'')],
      cache = [0, 1, 2, 3]\<rparr>"

section \<open>Results of the primitive constructions\<close>

lemma alloc_cachedAs_result:
  assumes "cbind (calloc n) cachedAs c = (c', Inr r)" and "wf_context c"
    and "\<forall>d\<in>set (deps n). d < length (heap c)"
  shows "wf_context c' \<and> ctx_ext c c' \<and> r < length (heap c') \<and> node_key (heap c' ! r) = node_key n"
proof -
  let ?c1 = "c\<lparr>heap := heap c @ [n]\<rparr>"
  have c1: "cachedAs (length (heap c)) ?c1 = (c', Inr r)"
    using assms(1) by (simp add: cbind_def calloc_def)
  have "case Inr r :: error + nat of Inl e \<Rightarrow> True | Inr x \<Rightarrow>
          wf_context c' \<and> ctx_ext ?c1 c' \<and> x < length (heap c') \<and> node_key (heap c' ! x) = node_key n"
    by (rule cvalidD[OF cvalid_cachedAs_result _ c1]) (auto intro: wf_alloc[OF assms(2,3)])
  then show ?thesis using ctx_ext_trans[OF ctx_ext_alloc] by auto
qed

lemma dataflow_create_result:
  assumes "dataflow_create k t ds d c = (c', Inr r)" and "wf_context c" and "deps_valid c ds"
  shows "wf_context c' \<and> ctx_ext c c' \<and> r < length (heap c') \<and> None \<notin> set ds \<and>
    kind (heap c' ! r) = k \<and> deps (heap c' ! r) = map the ds"
proof -
  have nn: "None \<notin> set ds"
    using assms(1) by (auto simp: dataflow_create_def checkDependenciesNotNull_def cbind_def cthrow_def)
  then have "cbind (calloc (mk_node k (map the ds) t d d NoArgs)) cachedAs c = (c', Inr r)"
    using assms(1) by (simp add: dataflow_create_def checkDependenciesNotNull_def)
  moreover have "\<forall>x\<in>set (deps (mk_node k (map the ds) t d d NoArgs)). x < length (heap c)"
    using nn assms(3) by (auto simp: mk_node_def deps_valid_the)
  ultimately show ?thesis
    using nn by (auto simp: node_key_def mk_node_def dest!: alloc_cachedAs_result[OF _ assms(2)])
qed

lemma NumericConstant_matrix_create_result:
  assumes "NumericConstant_matrix_create rs c = (c', Inr r)" and "wf_context c"
  shows "wf_context c' \<and> ctx_ext c c' \<and> r < length (heap c') \<and>
    node_value c' r = VMatrix (emat_of_rows rs)"
proof -
  let ?n = "mk_node NumericConstant [] TMatrixXd (length rs, if rs = [] then 0 else length (hd rs))
              (length rs, if rs = [] then 0 else length (hd rs)) (MatArg rs)"
  have "cbind (calloc ?n) cachedAs c = (c', Inr r)"
    using assms(1) by (simp add: NumericConstant_matrix_create_def Let_def)
  from alloc_cachedAs_result[OF this assms(2)]
  have "wf_context c' \<and> ctx_ext c c' \<and> r < length (heap c') \<and> node_key (heap c' ! r) = node_key ?n"
    by (simp add: mk_node_def)
  then show ?thesis
    by (auto simp: node_value_eq node_compute_def node_key_def mk_node_def)
qed

section \<open>Values of the builder's nodes\<close>

lemma makeInitialConditionalLikelihood_value:
  assumes "makeInitialConditionalLikelihood h name c = (c', Inr r)" and "wf_context c" and "0 < h_nbState h"
  shows "wf_context c' \<and> ctx_ext c c' \<and> r < length (heap c') \<and>
    ecols (value_mat (node_value c' r)) = h_nbSite h \<and>
    (\<forall>a<h_nbState h. \<forall>j<h_nbSite h. eget (value_mat (node_value c' r)) a j = fel_leaf (h_sites h) (h_model h) name a j)"
proof -
  obtain i where pos: "position (seq_names (h_sites h)) name = Some i"
    and nc: "NumericConstant_matrix_create
       (map (\<lambda>state. map (\<lambda>site. state_value (h_sites h) site i (alphabet_state (h_model h) state))
                       [0..<h_nbSite h]) [0..<h_nbState h]) c = (c', Inr r)"
    using assms(1) by (auto simp: makeInitialConditionalLikelihood_def cbind_Inr clift_def split: option.splits)
  show ?thesis
    using NumericConstant_matrix_create_result[OF nc assms(2)] assms(3)
    by (simp add: emat_of_rows_def mk_emat_def fel_leaf_def pos hd_map)
qed

lemma branch_length_node_result:
  assumes "branch_length_node h e c = (c', Inr b)"
  shows "c' = c \<and> (\<exists>k. position (ctree_params (h_tree h)) (''BrLen'' @ dec_string e) = Some k \<and>
    b = deps (heap c ! ctree_node (h_tree h)) ! k)"
  using assms
  by (cases "position (ctree_params (h_tree h)) (''BrLen'' @ dec_string e)")
    (auto simp: branch_length_node_def cbind_def clift_def cget_def node_at_def simp del: dec_string.simps)

text \<open>
  The branch-length node of an edge is a dependency of the configured tree, a node of
  the initial context: its value there is the branch length \<open>brlen_of\<close> reads.
\<close>

lemma branch_length_node_value:
  assumes "branch_length_node h e c = (c', Inr b)" and "wf_context c0" and "inputs_valid h c0"
    and "ctx_ext c0 c"
  shows "c' = c \<and> b < length (heap c0) \<and>
    eget (value_mat (node_value c0 b)) 0 0 = brlen_of c0 (h_tree h) e"
proof -
  obtain k where c': "c' = c" and pos: "position (ctree_params (h_tree h)) (''BrLen'' @ dec_string e) = Some k"
    and b: "b = deps (heap c ! ctree_node (h_tree h)) ! k"
    using branch_length_node_result[OF assms(1)] by blast
  have tn: "ctree_node (h_tree h) < length (heap c0)" using assms(3) by (simp add: inputs_valid_def)
  have b0: "b = deps (heap c0 ! ctree_node (h_tree h)) ! k"
    using b ctx_ext_node(2)[OF assms(4) tn] by simp
  have "k < length (deps (heap c0 ! ctree_node (h_tree h)))"
    using position_SomeD[OF pos] assms(3) by (simp add: inputs_valid_def)
  then have "b < length (heap c0)" using b0 dep_in_range[OF assms(2) tn] by simp
  then show ?thesis using c' b0 pos by (simp add: brlen_of_def del: dec_string.simps)
qed

text \<open>
  \<open>makeForwardLikelihoodNode\<close>: if the son's construction yields a node holding the
  son's conditional likelihoods \<open>F\<close>, the forward node holds \<open>P(t) \<cdot> F\<close> for the
  transition matrix \<open>P\<close> of the model at the edge's branch length.
\<close>

lemma makeForwardLikelihoodNode_value:
  assumes m: "makeForwardLikelihoodNode h e son c = (c', Inr d)"
    and c: "wf_context c" "ctx_ext c0 c"
    and env: "wf_context c0" "inputs_valid h c0" "node_value c0 (cmodel_node (h_model h)) = VModel P fr"
      "\<forall>x. ecols (P x) = h_nbState h"
    and son: "\<And>c2 x. son c = (c2, Inr x) \<Longrightarrow> wf_context c2 \<and> ctx_ext c c2 \<and> x < length (heap c2) \<and>
       ecols (value_mat (node_value c2 x)) = h_nbSite h \<and>
       (\<forall>a<h_nbState h. \<forall>j<h_nbSite h. eget (value_mat (node_value c2 x)) a j = F a j)"
  shows "wf_context c' \<and> ctx_ext c c' \<and> d < length (heap c') \<and>
    ecols (value_mat (node_value c' d)) = h_nbSite h \<and>
    (\<forall>a<h_nbState h. \<forall>j<h_nbSite h. eget (value_mat (node_value c' d)) a j =
       (\<Sum>k<h_nbState h. eget (P (brlen_of c0 (h_tree h) e)) a k * F k j))"
proof -
  let ?mn = "cmodel_node (h_model h)"
  obtain c1 b c2 x c3 tm where
    B: "branch_length_node h e c = (c1, Inr b)" and S: "son c1 = (c2, Inr x)"
    and T: "dataflow_create TransitionMatrixFromModel TMatrixXd [Some ?mn, Some b] (h_nbState h, h_nbState h) c2 = (c3, Inr tm)"
    and D: "dataflow_create ForwardLikelihoodFromConditional TMatrixXd [Some tm, Some x] (h_dim h) c3 = (c', Inr d)"
    using m unfolding makeForwardLikelihoodNode_def cbind_Inr by blast
  have b: "c1 = c" "b < length (heap c0)" "eget (value_mat (node_value c0 b)) 0 0 = brlen_of c0 (h_tree h) e"
    using branch_length_node_value[OF B env(1,2) c(2)] by auto
  have s: "wf_context c2" "ctx_ext c c2" "x < length (heap c2)" "ecols (value_mat (node_value c2 x)) = h_nbSite h"
    "\<forall>a<h_nbState h. \<forall>j<h_nbSite h. eget (value_mat (node_value c2 x)) a j = F a j"
    using son[OF S[unfolded b(1)]] by auto
  have e02: "ctx_ext c0 c2" using ctx_ext_trans[OF c(2) s(2)] .
  have mn: "?mn < length (heap c0)" using env(2) by (simp add: inputs_valid_def)
  have dv2: "deps_valid c2 [Some ?mn, Some b]"
    using ctx_ext_length[OF e02] mn b(2) by (auto simp: deps_valid_def)
  have t: "wf_context c3" "ctx_ext c2 c3" "tm < length (heap c3)" "kind (heap c3 ! tm) = TransitionMatrixFromModel"
    "deps (heap c3 ! tm) = [?mn, b]"
    using dataflow_create_result[OF T s(1) dv2] by auto
  have tv: "node_value c3 tm = VMatrix (P (brlen_of c0 (h_tree h) e))"
    using created_value[OF t(1,2,3) _ dv2] t(4,5) node_value_ext[OF e02 mn] node_value_ext[OF e02 b(2)] env(3) b(3)
    by (simp add: node_compute_def)
  have dv3: "deps_valid c3 [Some tm, Some x]"
    using t(3) ctx_ext_length[OF t(2)] s(3) by (auto simp: deps_valid_def)
  have f: "wf_context c'" "ctx_ext c3 c'" "d < length (heap c')" "kind (heap c' ! d) = ForwardLikelihoodFromConditional"
    "deps (heap c' ! d) = [tm, x]"
    using dataflow_create_result[OF D t(1) dv3] by auto
  have xv: "node_value c3 x = node_value c2 x" using node_value_ext[OF t(2) s(3)] .
  have fv: "node_value c' d = VMatrix (mk_emat (erows (P (brlen_of c0 (h_tree h) e))) (ecols (value_mat (node_value c2 x)))
      (\<lambda>i j. \<Sum>k<h_nbState h. eget (P (brlen_of c0 (h_tree h) e)) i k * eget (value_mat (node_value c2 x)) k j))"
    using created_value[OF f(1,2,3) _ dv3] f(4,5) tv xv env(4) by (simp add: node_compute_def Let_def)
  show ?thesis
    using f(1,3) s(4,5) fv ctx_ext_trans[OF s(2) ctx_ext_trans[OF t(2) f(2)]] by (simp add: mk_emat_def)
qed

text \<open>
  An inner node: the elementwise product of the forward likelihoods of its branches.
\<close>

lemma makeConditionalLikelihood_inner_value:
  assumes m: "cbind (makeForwardLikelihoodNodes h bs)
       (\<lambda>ds. dataflow_create ConditionalLikelihoodFromChildrenForward TMatrixXd (map Some ds) (h_dim h)) c = (c', Inr r)"
    and c: "wf_context c" and ne: "bs \<noteq> []"
    and fwd: "\<And>c1 rs. makeForwardLikelihoodNodes h bs c = (c1, Inr rs) \<Longrightarrow>
       wf_context c1 \<and> ctx_ext c c1 \<and> length rs = length bs \<and>
       (\<forall>i<length bs. rs ! i < length (heap c1) \<and> ecols (value_mat (node_value c1 (rs ! i))) = h_nbSite h \<and>
          (\<forall>a<h_nbState h. \<forall>j<h_nbSite h. eget (value_mat (node_value c1 (rs ! i))) a j = G (bs ! i) a j))"
  shows "wf_context c' \<and> ctx_ext c c' \<and> r < length (heap c') \<and>
    ecols (value_mat (node_value c' r)) = h_nbSite h \<and>
    (\<forall>a<h_nbState h. \<forall>j<h_nbSite h. eget (value_mat (node_value c' r)) a j = (\<Prod>x\<leftarrow>bs. G x a j))"
proof -
  obtain c1 rs where R: "makeForwardLikelihoodNodes h bs c = (c1, Inr rs)"
    and D: "dataflow_create ConditionalLikelihoodFromChildrenForward TMatrixXd (map Some rs) (h_dim h) c1 = (c', Inr r)"
    using m unfolding cbind_Inr by blast
  note f = fwd[OF R]
  have dv: "deps_valid c1 (map Some rs)"
    using f by (auto simp: in_set_conv_nth)
  have d: "wf_context c'" "ctx_ext c1 c'" "r < length (heap c')"
    "kind (heap c' ! r) = ConditionalLikelihoodFromChildrenForward" "deps (heap c' ! r) = rs"
    using dataflow_create_result[OF D _ dv] f by auto
  have v: "node_value c' r = VMatrix (mk_emat (erows (value_mat (node_value c1 (rs ! 0))))
      (ecols (value_mat (node_value c1 (rs ! 0))))
      (\<lambda>i j. \<Prod>v\<leftarrow>map (node_value c1) rs. eget (value_mat v) i j))"
    using created_value[OF d(1,2,3) _ dv] d(4,5) ne f by (simp add: node_compute_def Let_def map_map o_def)
  have prod: "(\<Prod>v\<leftarrow>map (node_value c1) rs. eget (value_mat v) a j) = (\<Prod>x\<leftarrow>bs. G x a j)"
    if "a < h_nbState h" "j < h_nbSite h" for a j
  proof -
    have "map (\<lambda>v. eget (value_mat v) a j) (map (node_value c1) rs) = map (\<lambda>x. G x a j) bs"
      using f that by (intro nth_equalityI) auto
    then show ?thesis by (simp only: map_map)
  qed
  show ?thesis
    using d(1,3) v prod f ne ctx_ext_trans[OF _ d(2)] by (simp add: mk_emat_def)
qed

text \<open>
  The builder's recursion computes the pruning recursion: the conditional likelihood
  node of a subtree holds \<open>felsenstein\<close> of the subtree, for every state and site, and
  each forward node holds the transition to it from the branch's son.
\<close>

lemma builder_values:
  "makeConditionalLikelihoodNode h t c = (c', Inr r) \<Longrightarrow> wf_context c \<Longrightarrow> ctx_ext c0 c \<Longrightarrow>
   wf_context c0 \<Longrightarrow> inputs_valid h c0 \<Longrightarrow> node_value c0 (cmodel_node (h_model h)) = VModel P fr \<Longrightarrow>
   \<forall>x. ecols (P x) = h_nbState h \<Longrightarrow> 0 < h_nbState h \<Longrightarrow>
   wf_context c' \<and> ctx_ext c c' \<and> r < length (heap c') \<and>
   ecols (value_mat (node_value c' r)) = h_nbSite h \<and>
   (\<forall>a<h_nbState h. \<forall>j<h_nbSite h. eget (value_mat (node_value c' r)) a j =
      felsenstein P (brlen_of c0 (h_tree h)) (h_nbState h) (fel_leaf (h_sites h) (h_model h)) t a j)"
  "makeForwardLikelihoodNodes h bs c = (c', Inr rs) \<Longrightarrow> wf_context c \<Longrightarrow> ctx_ext c0 c \<Longrightarrow>
   wf_context c0 \<Longrightarrow> inputs_valid h c0 \<Longrightarrow> node_value c0 (cmodel_node (h_model h)) = VModel P fr \<Longrightarrow>
   \<forall>x. ecols (P x) = h_nbState h \<Longrightarrow> 0 < h_nbState h \<Longrightarrow>
   wf_context c' \<and> ctx_ext c c' \<and> length rs = length bs \<and>
   (\<forall>i<length bs. rs ! i < length (heap c') \<and> ecols (value_mat (node_value c' (rs ! i))) = h_nbSite h \<and>
      (\<forall>a<h_nbState h. \<forall>j<h_nbSite h. eget (value_mat (node_value c' (rs ! i))) a j =
         (\<Sum>k<h_nbState h. eget (P (brlen_of c0 (h_tree h) (fst (bs ! i)))) a k *
            felsenstein P (brlen_of c0 (h_tree h)) (h_nbState h) (fel_leaf (h_sites h) (h_model h)) (snd (bs ! i)) k j)))"
proof (induction h t and h bs arbitrary: c c' r and c c' rs rule: makeConditionalLikelihoodNode_makeForwardLikelihoodNodes.induct)
  case (1 h index name)
  then show ?case
    using makeInitialConditionalLikelihood_value[of h name c c' r] by simp
next
  case (2 h index name b bs)
  let ?F = "felsenstein P (brlen_of c0 (h_tree h)) (h_nbState h) (fel_leaf (h_sites h) (h_model h))"
  have "wf_context c' \<and> ctx_ext c c' \<and> r < length (heap c') \<and>
    ecols (value_mat (node_value c' r)) = h_nbSite h \<and>
    (\<forall>a<h_nbState h. \<forall>j<h_nbSite h. eget (value_mat (node_value c' r)) a j =
       (\<Prod>x\<leftarrow>b # bs. \<Sum>k<h_nbState h. eget (P (brlen_of c0 (h_tree h) (fst x))) a k * ?F (snd x) k j))"
    by (rule makeConditionalLikelihood_inner_value[OF 2(2)[unfolded makeConditionalLikelihoodNode.simps] 2(3)])
      (use 2 in simp_all)
  then show ?case by simp
next
  case (3 h)
  then show ?case by (simp add: creturn_def)
next
  case (4 h e t bs)
  obtain c1 d c2 ds where D: "makeForwardLikelihoodNode h e (makeConditionalLikelihoodNode h t) c = (c1, Inr d)"
    and R: "makeForwardLikelihoodNodes h bs c1 = (c2, Inr ds)" and rs: "c' = c2" "rs = d # ds"
    using 4(3) by (auto simp: cbind_Inr creturn_def)
  have d: "wf_context c1 \<and> ctx_ext c c1 \<and> d < length (heap c1) \<and>
    ecols (value_mat (node_value c1 d)) = h_nbSite h \<and>
    (\<forall>a<h_nbState h. \<forall>j<h_nbSite h. eget (value_mat (node_value c1 d)) a j =
       (\<Sum>k<h_nbState h. eget (P (brlen_of c0 (h_tree h) e)) a k *
          felsenstein P (brlen_of c0 (h_tree h)) (h_nbState h) (fel_leaf (h_sites h) (h_model h)) t k j))"
    by (rule makeForwardLikelihoodNode_value[OF D 4(4-9)]) (use 4(1)[OF _ 4(4-)] in blast)
  have e01: "ctx_ext c0 c1" using ctx_ext_trans[OF 4(5)] d by blast
  note ds = 4(2)[OF R _ e01 4(6-)]
  have dv: "node_value c2 d = node_value c1 d" using node_value_ext[of c1 c2 d] ds d by blast
  show ?case
    using d ds dv ctx_ext_trans[of c c1 c2] less_le_trans[OF _ ctx_ext_length[of c1 c2]] unfolding rs
    by (auto simp: nth_Cons split: nat.split)
qed

text \<open>The root frequency node holds the frequencies \<open>root_freqs\<close> selects.\<close>

lemma root_frequencies_value:
  assumes m: "(case rootFreqs of
        Some rf \<Rightarrow> dataflow_create FrequenciesFromFrequenciesSet TRowVectorXd [Some rf] (1, nbState)
      | None \<Rightarrow> dataflow_create EquilibriumFrequenciesFromModel TRowVectorXd [Some mn] (1, nbState)) c1 = (c2, Inr f)"
    and c: "wf_context c1" "ctx_ext c0 c1" and mn: "mn < length (heap c0)" "node_value c0 mn = VModel P fr"
    and rf: "\<forall>rf. rootFreqs = Some rf \<longrightarrow> rf < length (heap c0)"
  shows "wf_context c2 \<and> ctx_ext c1 c2 \<and> f < length (heap c2) \<and>
    node_value c2 f = VMatrix (root_freqs c0 fr rootFreqs)"
proof (cases rootFreqs)
  case None
  have dv: "deps_valid c1 [Some mn]" using mn(1) ctx_ext_length[OF c(2)] by (simp add: deps_valid_def)
  have d: "wf_context c2" "ctx_ext c1 c2" "f < length (heap c2)"
    "kind (heap c2 ! f) = EquilibriumFrequenciesFromModel" "deps (heap c2 ! f) = [mn]"
    using dataflow_create_result[OF m[unfolded None, simplified] c(1) dv] by auto
  show ?thesis
    using d created_value[OF d(1,2,3) _ dv] node_value_ext[OF c(2) mn(1)] mn(2) None
    by (simp add: node_compute_def root_freqs_def)
next
  case (Some a)
  have a: "a < length (heap c0)" using rf Some by simp
  have dv: "deps_valid c1 [Some a]" using a ctx_ext_length[OF c(2)] by (simp add: deps_valid_def)
  have d: "wf_context c2" "ctx_ext c1 c2" "f < length (heap c2)"
    "kind (heap c2 ! f) = FrequenciesFromFrequenciesSet" "deps (heap c2 ! f) = [a]"
    using dataflow_create_result[OF m[unfolded Some, simplified] c(1) dv] by auto
  show ?thesis
    using d created_value[OF d(1,2,3) _ dv] node_value_ext[OF c(2) a] Some
    by (simp add: node_compute_def root_freqs_def)
qed

text \<open>
  C22: the graph \<open>makeHomogeneousLikelihoodNodes\<close> builds computes the negative
  log-likelihood of the tree by Felsenstein's pruning recursion: if the build returns a
  node, its value is \<open>-\<Sum>\<^sub>j log \<Sum>\<^sub>a \<pi>\<^sub>a L\<^sub>root(a, j)\<close>, with the transition probabilities of
  the model at the branch lengths held by the tree's parameter nodes, the observed
  states at the leaves, and the root frequencies of the frequency set or of the model.
\<close>

theorem tree_likelihood_refines_pruning:
  assumes m: "makeHomogeneousLikelihoodNodes sites tree model rootFreqs c = (c', Inr r)"
    and c: "wf_context c" "inputs_valid (HomogeneousLikelihoodNodesHelper_init sites tree model rootFreqs) c"
    and model: "node_value c (cmodel_node model) = VModel P fr" "\<forall>x. ecols (P x) = nb_states model"
      "0 < nb_states model"
    and freqs: "ecols (root_freqs c fr rootFreqs) = nb_states model"
  shows "eget (value_mat (node_value c' r)) 0 0 =
    tree_neg_loglik P (root_freqs c fr rootFreqs) (brlen_of c tree) (nb_states model) (fel_leaf sites model)
      (nb_sites sites) (root_node (ctree_value tree))"
proof -
  let ?h = "HomogeneousLikelihoodNodesHelper_init sites tree model rootFreqs"
  let ?F = "felsenstein P (brlen_of c tree) (nb_states model) (fel_leaf sites model) (root_node (ctree_value tree))"
  let ?pi = "root_freqs c fr rootFreqs"
  have rooted: "is_rooted (ctree_value tree)"
    using m by (cases "is_rooted (ctree_value tree)") (simp_all add: makeHomogeneousLikelihoodNodes_def cthrow_def Let_def)
  have fields: "h_model ?h = model" "h_tree ?h = tree" "h_sites ?h = sites" "h_nbState ?h = nb_states model"
    "h_nbSite ?h = nb_sites sites" "h_rootFreqs ?h = rootFreqs"
    by (simp_all add: HomogeneousLikelihoodNodesHelper_init_def)
  obtain c1 rc c2 f c3 sl c4 tl where
    R: "makeConditionalLikelihoodNode ?h (root_node (ctree_value tree)) c = (c1, Inr rc)"
    and Fr: "(case rootFreqs of
        Some rf \<Rightarrow> dataflow_create FrequenciesFromFrequenciesSet TRowVectorXd [Some rf] (1, nb_states model)
      | None \<Rightarrow> dataflow_create EquilibriumFrequenciesFromModel TRowVectorXd [Some (cmodel_node model)] (1, nb_states model)) c1
        = (c2, Inr f)"
    and S: "dataflow_create LikelihoodFromRootConditional TRowVectorXd [Some f, Some rc] (1, nb_sites sites) c2 = (c3, Inr sl)"
    and T: "dataflow_create TotalLogLikelihood TDouble [Some sl] (1, nb_sites sites) c3 = (c4, Inr tl)"
    and N: "dataflow_create CWiseNegate TDouble [Some tl] (1, 1) c4 = (c', Inr r)"
    using m rooted unfolding makeHomogeneousLikelihoodNodes_def Let_def
    by (simp only: cbind_Inr if_False not_True_eq_False) (elim exE conjE; blast)
  have rc: "wf_context c1" "ctx_ext c c1" "rc < length (heap c1)" "ecols (value_mat (node_value c1 rc)) = nb_sites sites"
    "\<forall>a<nb_states model. \<forall>j<nb_sites sites. eget (value_mat (node_value c1 rc)) a j = ?F a j"
    using builder_values(1)[OF R c(1) ctx_ext_refl c(1,2)] model by (simp_all add: fields)
  have fv: "wf_context c2" "ctx_ext c1 c2" "f < length (heap c2)" "node_value c2 f = VMatrix ?pi"
    using root_frequencies_value[OF Fr rc(1,2) _ model(1)] c(2) by (simp_all add: inputs_valid_def fields)
  have dvS: "deps_valid c2 [Some f, Some rc]"
    using fv(3) rc(3) ctx_ext_length[OF fv(2)] by (simp add: deps_valid_def)
  have s: "wf_context c3" "ctx_ext c2 c3" "sl < length (heap c3)"
    "kind (heap c3 ! sl) = LikelihoodFromRootConditional" "deps (heap c3 ! sl) = [f, rc]"
    using dataflow_create_result[OF S fv(1) dvS] by auto
  have sv: "ecols (value_mat (node_value c3 sl)) = nb_sites sites \<and>
      (\<forall>j<nb_sites sites. eget (value_mat (node_value c3 sl)) 0 j = (\<Sum>a<nb_states model. eget ?pi 0 a * ?F a j))"
    using created_value[OF s(1,2,3) _ dvS] s(4,5) fv(4) node_value_ext[OF fv(2) rc(3)] rc(4,5) freqs
    by (simp add: node_compute_def Let_def mk_emat_def)
  have dvT: "deps_valid c3 [Some sl]" using s(3) by (simp add: deps_valid_def)
  have t: "wf_context c4" "ctx_ext c3 c4" "tl < length (heap c4)"
    "kind (heap c4 ! tl) = TotalLogLikelihood" "deps (heap c4 ! tl) = [sl]"
    using dataflow_create_result[OF T s(1) dvT] by auto
  have tv: "node_value c4 tl = VMatrix (mk_emat 1 1 (\<lambda>_ _. \<Sum>j<nb_sites sites. ln (\<Sum>a<nb_states model. eget ?pi 0 a * ?F a j)))"
    using created_value[OF t(1,2,3) _ dvT] t(4,5) sv by (simp add: node_compute_def Let_def mk_emat_def)
  have dvN: "deps_valid c4 [Some tl]" using t(3) by (simp add: deps_valid_def)
  have n: "wf_context c'" "ctx_ext c4 c'" "r < length (heap c')"
    "kind (heap c' ! r) = CWiseNegate" "deps (heap c' ! r) = [tl]"
    using dataflow_create_result[OF N t(1) dvN] by auto
  show ?thesis
    using created_value[OF n(1,2,3) _ dvN] n(4,5) tv
    by (simp add: node_compute_def Let_def mk_emat_def tree_neg_loglik_def)
qed

lemma ex_jc_ctx_wf: "wf_context ex_jc_ctx"
  by (simp add: ex_jc_ctx_def wf_context_def mk_node_def node_key_def less_Suc_eq numeral_3_eq_3)

lemma ex_jc_inputs_valid:
  "inputs_valid (HomogeneousLikelihoodNodesHelper_init ex_sites (ex_ctree True ''B'') ex_model None) ex_jc_ctx"
  by (simp add: inputs_valid_def HomogeneousLikelihoodNodesHelper_init_def ex_ctree_def ex_model_def ex_jc_ctx_def
      mk_node_def)

lemma ex_jc_model:
  "node_value ex_jc_ctx (cmodel_node ex_model) =
     VModel (eigen_transition [[1, 1], [1, -1]] [0, -2] [[1/2, 1/2], [1/2, -1/2]]) (emat_of_rows [[1/2, 1/2]])"
  using node_value_eq[OF ex_jc_ctx_wf, of 0]
  by (simp add: ex_jc_ctx_def ex_model_def mk_node_def node_compute_def)

lemma ex_jc_build:
  "\<exists>c' r. makeHomogeneousLikelihoodNodes ex_sites (ex_ctree True ''B'') ex_model None ex_jc_ctx = (c', Inr r)"
  by (simp add: builder_defs ex_jc_ctx_def del: ex_tree_ctx_def)

theorem tree_likelihood_refines_pruning_witness:
  "\<exists>c' r. makeHomogeneousLikelihoodNodes ex_sites (ex_ctree True ''B'') ex_model None ex_jc_ctx = (c', Inr r) \<and>
     eget (value_mat (node_value c' r)) 0 0 =
     tree_neg_loglik (eigen_transition [[1, 1], [1, -1]] [0, -2] [[1/2, 1/2], [1/2, -1/2]])
       (root_freqs ex_jc_ctx (emat_of_rows [[1/2, 1/2]]) None) (brlen_of ex_jc_ctx (ex_ctree True ''B''))
       (nb_states ex_model) (fel_leaf ex_sites ex_model) (nb_sites ex_sites)
       (root_node (ctree_value (ex_ctree True ''B'')))"
proof -
  obtain c' r where m: "makeHomogeneousLikelihoodNodes ex_sites (ex_ctree True ''B'') ex_model None ex_jc_ctx = (c', Inr r)"
    using ex_jc_build by blast
  have "\<forall>x. ecols (eigen_transition [[1, 1], [1, -1]] [0, -2] [[1/2, 1/2], [1/2, -1/2]] x) = nb_states ex_model"
    by (simp add: eigen_transition_def mk_emat_def ex_model_def)
  moreover have "0 < nb_states ex_model" by (simp add: ex_model_def)
  moreover have "ecols (root_freqs ex_jc_ctx (emat_of_rows [[1/2, 1/2]]) None) = nb_states ex_model"
    by (simp add: root_freqs_def emat_of_rows_def mk_emat_def ex_model_def)
  ultimately show ?thesis
    using tree_likelihood_refines_pruning[OF m ex_jc_ctx_wf ex_jc_inputs_valid ex_jc_model] m by blast
qed

end
