(* ===== verification/Invalidation.thy ===== *)
theory Invalidation
  imports TreeEval
begin

text \<open>
  Demand-driven evaluation with cached values and invalidation, as the specification
  describes the dataflow library (sections 3, 4.1, 5; \<open>DataFlow.h\<close> is not in
  \<open>src/\<close>): every node has a cached value, absent until first evaluated (a dirty
  node); requesting a node's value forces its dependencies, computes and caches its
  own value; changing the value of a \<open>NumericMutable\<close> leaf marks dirty exactly the
  nodes that depend on it, transitively. The theorems show that this lazy evaluation
  computes the values of the full evaluation of \<open>Evaluation\<close>, whatever the sequence
  of requests and updates, and that invalidation reaches exactly the downstream cone.
\<close>

section \<open>State and operations\<close>

text \<open>The graph and the cached value of each node (\<open>None\<close>: dirty).\<close>

record df_state =
  st_ctx :: ctx
  st_vals :: "dfvalue option list"

text \<open>
  \<open>getTargetValue\<close>: the cached value if there is one, else the values of the
  dependencies, in order, then \<open>compute()\<close>, whose result is cached. A reference to a
  node not allocated before (impossible in a well-formed context) reads no value.
\<close>

function force :: "node list \<Rightarrow> dfvalue option list \<Rightarrow> nat \<Rightarrow> dfvalue option list \<times> dfvalue"
and force_deps :: "node list \<Rightarrow> dfvalue option list \<Rightarrow> nat \<Rightarrow> nat list \<Rightarrow> dfvalue option list \<times> dfvalue list" where
  "force h vs a =
     (if length vs \<le> a then (vs, VNone)
      else (case vs ! a of
              Some v \<Rightarrow> (vs, v)
            | None \<Rightarrow> (let r = force_deps h vs a (deps (h ! a)); v = node_compute (h ! a) (snd r)
                       in ((fst r)[a := Some v], v))))"
| "force_deps h vs a [] = (vs, [])"
| "force_deps h vs a (d # ds) =
     (if d < a
      then (let r1 = force h vs d; r2 = force_deps h (fst r1) a ds in (fst r2, snd r1 # snd r2))
      else (let r2 = force_deps h vs a ds in (fst r2, VNone # snd r2)))"
  by pat_completeness auto
termination
  by (relation "measures [\<lambda>x. case x of Inl (h, vs, a) \<Rightarrow> a | Inr (h, vs, a, ds) \<Rightarrow> a,
                           \<lambda>x. case x of Inl _ \<Rightarrow> 1 | Inr _ \<Rightarrow> 0,
                           \<lambda>x. case x of Inl _ \<Rightarrow> 0 | Inr (h, vs, a, ds) \<Rightarrow> length ds]") auto

declare force.simps [simp del]

definition getValue :: "nat \<Rightarrow> df_state \<Rightarrow> df_state \<times> dfvalue" where
  "getValue a st = (let r = force (heap (st_ctx st)) (st_vals st) a in (st\<lparr>st_vals := fst r\<rparr>, snd r))"

text \<open>
  The downstream cone of a node, in one pass in allocation order: a node is in it if
  it is the node, or if one of its dependencies allocated before it is.
\<close>

definition cone_flags :: "node list \<Rightarrow> nat \<Rightarrow> bool list" where
  "cone_flags h a = foldl (\<lambda>fl n. fl @ [length fl = a \<or> (\<exists>d\<in>set (deps n). d < length fl \<and> fl ! d)]) [] h"

definition invalidate :: "dfvalue option list \<Rightarrow> bool list \<Rightarrow> dfvalue option list" where
  "invalidate vs fl = map2 (\<lambda>v f. if f then None else v) vs fl"

text \<open>\<open>NumericMutable::setValue\<close>: the new matrix, and the cone of the node marked dirty.\<close>

definition NumericMutable_setValue :: "nat \<Rightarrow> real list list \<Rightarrow> ctx \<Rightarrow> ctx" where
  "NumericMutable_setValue a rs c = c\<lparr>heap := (heap c)[a := (heap c ! a)\<lparr>payload := MatArg rs\<rparr>]\<rparr>"

definition setValue :: "nat \<Rightarrow> real list list \<Rightarrow> df_state \<Rightarrow> df_state" where
  "setValue a rs st =
     \<lparr>st_ctx = NumericMutable_setValue a rs (st_ctx st),
      st_vals = invalidate (st_vals st) (cone_flags (heap (st_ctx st)) a)\<rparr>"

text \<open>A context after construction: no value computed yet.\<close>

definition fresh_state :: "ctx \<Rightarrow> df_state" where
  "fresh_state c = \<lparr>st_ctx = c, st_vals = replicate (length (heap c)) None\<rparr>"

text \<open>The states reachable from a constructed context by requests and updates, in any order.\<close>

inductive df_reach :: "ctx \<Rightarrow> df_state \<Rightarrow> bool" for c0 where
  init: "df_reach c0 (fresh_state c0)"
| get: "df_reach c0 st \<Longrightarrow> df_reach c0 (fst (getValue a st))"
| set: "df_reach c0 st \<Longrightarrow> a < length (heap (st_ctx st)) \<Longrightarrow> kind (heap (st_ctx st) ! a) = NumericMutable \<Longrightarrow>
        df_reach c0 (setValue a rs st)"

text \<open>Node \<open>i\<close> depends on node \<open>a\<close>, transitively (reflexively).\<close>

inductive depends_on :: "node list \<Rightarrow> nat \<Rightarrow> nat \<Rightarrow> bool" for h a where
  self: "depends_on h a a"
| dep: "i < length h \<Longrightarrow> d \<in> set (deps (h ! i)) \<Longrightarrow> depends_on h a d \<Longrightarrow> depends_on h a i"

text \<open>
  The invariants: every node depends only on nodes allocated before it, and every
  cached value is the value of the full evaluation.
\<close>

definition acyclic_heap :: "node list \<Rightarrow> bool" where
  "acyclic_heap h \<longleftrightarrow> (\<forall>i<length h. \<forall>d\<in>set (deps (h ! i)). d < i)"

definition vals_ok :: "node list \<Rightarrow> dfvalue option list \<Rightarrow> bool" where
  "vals_ok h vs \<longleftrightarrow> length vs = length h \<and> (\<forall>i<length h. \<forall>v. vs ! i = Some v \<longrightarrow> v = eval_heap h ! i)"

text \<open>
  The graph \<open>makeHomogeneousLikelihoodNodes\<close> builds for the cherry of \<open>TreeEval\<close>:
  the configured model (0), the branch lengths (1, 2), the configured tree (3), for
  each leaf its constant, transition matrix and forward node (4--6 and 7--9), the
  root's conditional likelihood (10), the frequencies (11), the site likelihoods (12),
  the log-likelihood (13) and its negation (14).
\<close>

definition ex_tree_graph :: ctx where
  "ex_tree_graph = fst (makeHomogeneousLikelihoodNodes ex_sites (ex_ctree True ''B'') ex_model None ex_jc_ctx)"

section \<open>Lazy evaluation computes the full evaluation\<close>

lemma acyclic_heap_wf: "wf_context c \<Longrightarrow> acyclic_heap (heap c)"
  by (simp add: wf_context_def acyclic_heap_def)

lemma vals_ok_update:
  "vals_ok h vs \<Longrightarrow> a < length h \<Longrightarrow> vals_ok h (vs[a := Some (eval_heap h ! a)])"
  by (auto simp: vals_ok_def nth_list_update)

lemma force_correct:
  "acyclic_heap h \<Longrightarrow> vals_ok h vs \<Longrightarrow> a < length h \<Longrightarrow> force h vs a = (vs', v) \<Longrightarrow>
   v = eval_heap h ! a \<and> vals_ok h vs' \<and> vs' ! a = Some v"
  "acyclic_heap h \<Longrightarrow> vals_ok h vs \<Longrightarrow> \<forall>d\<in>set ds. d < a \<Longrightarrow> a < length h \<Longrightarrow> force_deps h vs a ds = (vs', xs) \<Longrightarrow>
   xs = map (\<lambda>d. eval_heap h ! d) ds \<and> vals_ok h vs'"
proof (induction h vs a and h vs a ds arbitrary: vs' v and vs' xs rule: force_force_deps.induct)
  case (1 h vs a)
  have len: "a < length vs" using "1.prems"(2,3) by (simp add: vals_ok_def)
  show ?case
  proof (cases "vs ! a")
    case None
    obtain vs1 xs where r: "force_deps h vs a (deps (h ! a)) = (vs1, xs)" by fastforce
    have dl: "\<forall>d\<in>set (deps (h ! a)). d < a" using "1.prems"(1,3) by (simp add: acyclic_heap_def)
    have ih: "xs = map (\<lambda>d. eval_heap h ! d) (deps (h ! a)) \<and> vals_ok h vs1"
      using "1.IH"[OF _ None "1.prems"(1,2) dl "1.prems"(3) r] len by simp
    have ev: "node_compute (h ! a) xs = eval_heap h ! a"
      using ih eval_heap_nth[OF "1.prems"(3) dl] by simp
    have "force h vs a = (vs1[a := Some (node_compute (h ! a) xs)], node_compute (h ! a) xs)"
      using None len r by (simp add: Let_def force.simps[of h vs a])
    then have vs': "vs' = vs1[a := Some v]" and v: "v = eval_heap h ! a"
      using ev "1.prems"(4) by auto
    have l1: "length vs1 = length h" using ih by (simp add: vals_ok_def)
    show ?thesis
      using vals_ok_update[OF conjunct2[OF ih] "1.prems"(3)] l1 "1.prems"(3) unfolding vs' v by simp
  next
    case (Some w)
    then have "vs' = vs" "v = w"
      using "1.prems"(4) len by (simp_all add: force.simps[of h vs a])
    then show ?thesis
      using "1.prems"(2,3) Some by (auto simp: vals_ok_def)
  qed
next
  case (2 h vs a)
  then show ?case by simp
next
  case (3 h vs a d ds)
  have d: "d < a" "d < length h" using "3.prems"(3,4) by auto
  obtain vs1 x where r1: "force h vs d = (vs1, x)" by fastforce
  obtain vs2 xs2 where r2: "force_deps h vs1 a ds = (vs2, xs2)" by fastforce
  have i1: "x = eval_heap h ! d \<and> vals_ok h vs1"
    using "3.IH"(1)[OF d(1) "3.prems"(1,2) d(2) r1] by simp
  have i2: "xs2 = map (\<lambda>d. eval_heap h ! d) ds \<and> vals_ok h vs2"
    using "3.IH"(2)[of "(vs1, x)" vs2 xs2] d(1) r1 "3.prems"(1,3,4) i1 r2 by simp
  show ?case
    using "3.prems"(5) d(1) r1 r2 i1 i2 by (simp add: Let_def)
qed

lemma getValue_correct:
  assumes "acyclic_heap (heap (st_ctx st))" and "vals_ok (heap (st_ctx st)) (st_vals st)"
    and "a < length (heap (st_ctx st))"
  shows "snd (getValue a st) = node_value (st_ctx st) a \<and> st_vals (fst (getValue a st)) ! a = Some (node_value (st_ctx st) a) \<and>
    vals_ok (heap (st_ctx st)) (st_vals (fst (getValue a st))) \<and> st_ctx (fst (getValue a st)) = st_ctx st"
proof -
  obtain vs' v where f: "force (heap (st_ctx st)) (st_vals st) a = (vs', v)" by fastforce
  show ?thesis
    using force_correct(1)[OF assms(1,2,3) f] f by (simp add: getValue_def node_value_def)
qed

lemma getValue_ok:
  assumes "acyclic_heap (heap (st_ctx st))" and "vals_ok (heap (st_ctx st)) (st_vals st)"
  shows "vals_ok (heap (st_ctx (fst (getValue a st)))) (st_vals (fst (getValue a st))) \<and>
    st_ctx (fst (getValue a st)) = st_ctx st"
proof (cases "a < length (heap (st_ctx st))")
  case False
  then have "length (st_vals st) \<le> a" using assms(2) by (simp add: vals_ok_def)
  then show ?thesis using assms(2) by (simp add: getValue_def force.simps[of _ _ a])
qed (use getValue_correct[OF assms] in simp)

section \<open>Invalidation reaches exactly the downstream cone\<close>

lemma length_foldl_snoc: "length (foldl (\<lambda>fl n. fl @ [P fl n]) xs h) = length xs + length h"
  by (induction h arbitrary: xs) auto

lemma length_cone_flags [simp]: "length (cone_flags h a) = length h"
  using length_foldl_snoc[of _ "[]" h] by (simp add: cone_flags_def)

lemma cone_flags_snoc:
  "cone_flags (h @ [n]) a = cone_flags h a @ [length h = a \<or> (\<exists>d\<in>set (deps n). d < length h \<and> cone_flags h a ! d)]"
  using length_cone_flags[of h a] by (simp add: cone_flags_def)

lemma cone_flags_nth:
  "i < length h \<Longrightarrow> cone_flags h a ! i = (i = a \<or> (\<exists>d\<in>set (deps (h ! i)). d < i \<and> cone_flags h a ! d))"
proof (induction h arbitrary: i rule: rev_induct)
  case (snoc n h)
  have e: "cone_flags (h @ [n]) a ! d = cone_flags h a ! d" if "d < length h" for d
    using that by (simp only: cone_flags_snoc nth_append length_cone_flags if_True)
  show ?case
  proof (cases "i < length h")
    case True
    have "(\<exists>d\<in>set (deps ((h @ [n]) ! i)). d < i \<and> cone_flags (h @ [n]) a ! d) =
        (\<exists>d\<in>set (deps (h ! i)). d < i \<and> cone_flags h a ! d)"
      using True e by (intro bex_cong) (simp_all add: nth_append, metis e less_trans)
    then show ?thesis
      using snoc.IH[OF True] e[OF True] by simp
  next
    case False
    then have i: "i = length h" using snoc.prems by simp
    have "(\<exists>d\<in>set (deps n). d < length h \<and> cone_flags (h @ [n]) a ! d) =
        (\<exists>d\<in>set (deps n). d < length h \<and> cone_flags h a ! d)"
      using e by (intro bex_cong) auto
    then show ?thesis
      unfolding i by (simp only: cone_flags_snoc nth_append length_cone_flags) simp
  qed
qed simp

lemma cone_flags_depends_on:
  assumes "acyclic_heap h" and "i < length h"
  shows "cone_flags h a ! i \<longleftrightarrow> depends_on h a i"
proof
  show "cone_flags h a ! i \<Longrightarrow> depends_on h a i"
    using assms(2)
  proof (induction i rule: less_induct)
    case (less i)
    then consider "i = a" | d where "d \<in> set (deps (h ! i))" "d < i" "cone_flags h a ! d"
      using cone_flags_nth[OF less.prems(2)] by auto
    then show ?case
    proof cases
      case 1
      then show ?thesis by (simp add: depends_on.self)
    next
      case 2
      then show ?thesis using less by (auto intro: depends_on.dep)
    qed
  qed
next
  assume "depends_on h a i"
  then show "cone_flags h a ! i"
    using assms(2)
  proof (induction rule: depends_on.induct)
    case self
    then show ?case by (simp add: cone_flags_nth)
  next
    case (dep i d)
    have "d < i" using dep.hyps(1,2) assms(1) by (simp add: acyclic_heap_def)
    then show ?case using dep cone_flags_nth[OF dep.hyps(1)] by auto
  qed
qed

lemma eval_outside_cone:
  assumes "acyclic_heap h" and "a < length h" and "deps n' = deps (h ! a)"
  shows "i < length h \<Longrightarrow> \<not> cone_flags h a ! i \<Longrightarrow> eval_heap (h[a := n']) ! i = eval_heap h ! i"
proof (induction i rule: less_induct)
  case (less i)
  have ia: "i \<noteq> a" using less.prems cone_flags_nth[OF assms(2)] by auto
  have dl: "\<forall>d\<in>set (deps (h ! i)). d < i" using assms(1) less.prems(1) by (simp add: acyclic_heap_def)
  have dl': "\<forall>d\<in>set (deps (h[a := n'] ! i)). d < i" using dl ia by simp
  have nc: "\<not> cone_flags h a ! d" if "d \<in> set (deps (h ! i))" for d
    using less.prems cone_flags_nth[OF less.prems(1)] that dl by auto
  have "eval_heap (h[a := n']) ! i = node_compute (h ! i) (map (\<lambda>d. eval_heap (h[a := n']) ! d) (deps (h ! i)))"
    using eval_heap_nth[of i "h[a := n']"] less.prems(1) dl' ia by simp
  also have "\<dots> = node_compute (h ! i) (map (\<lambda>d. eval_heap h ! d) (deps (h ! i)))"
    using less.IH dl nc less.prems(1) by (intro arg_cong[where f = "node_compute (h ! i)"] map_cong) auto
  also have "\<dots> = eval_heap h ! i"
    using eval_heap_nth[OF less.prems(1) dl] by simp
  finally show ?case .
qed

lemma invalidate_nth:
  "length fl = length vs \<Longrightarrow> i < length vs \<Longrightarrow> invalidate vs fl ! i = (if fl ! i then None else vs ! i)"
  by (simp add: invalidate_def)

lemma setValue_heap:
  "heap (st_ctx (setValue a rs st)) = (heap (st_ctx st))[a := (heap (st_ctx st) ! a)\<lparr>payload := MatArg rs\<rparr>]"
  by (simp add: setValue_def NumericMutable_setValue_def)

lemma setValue_ok:
  assumes "acyclic_heap (heap (st_ctx st))" and "vals_ok (heap (st_ctx st)) (st_vals st)"
    and "a < length (heap (st_ctx st))"
  shows "acyclic_heap (heap (st_ctx (setValue a rs st))) \<and> vals_ok (heap (st_ctx (setValue a rs st))) (st_vals (setValue a rs st))"
proof -
  let ?h = "heap (st_ctx st)" and ?n = "(heap (st_ctx st) ! a)\<lparr>payload := MatArg rs\<rparr>"
  have len: "length (st_vals st) = length ?h" using assms(2) by (simp add: vals_ok_def)
  have ac: "acyclic_heap (?h[a := ?n])"
    unfolding acyclic_heap_def
  proof (intro allI impI ballI)
    fix i d
    assume "i < length (?h[a := ?n])" "d \<in> set (deps (?h[a := ?n] ! i))"
    then show "d < i" using assms(1) by (cases "i = a") (auto simp: acyclic_heap_def)
  qed
  have "v = eval_heap (?h[a := ?n]) ! i"
    if "i < length ?h" "invalidate (st_vals st) (cone_flags ?h a) ! i = Some v" for i v
  proof -
    have "\<not> cone_flags ?h a ! i" "st_vals st ! i = Some v"
      using that invalidate_nth[of "cone_flags ?h a" "st_vals st" i] len by (auto split: if_splits)
    then show ?thesis
      using assms(2) that(1) eval_outside_cone[OF assms(1,3), of ?n i] by (simp add: vals_ok_def)
  qed
  moreover have "length (st_vals (setValue a rs st)) = length (?h[a := ?n])"
    using len by (simp add: setValue_def invalidate_def)
  moreover have "st_vals (setValue a rs st) = invalidate (st_vals st) (cone_flags ?h a)"
    by (simp add: setValue_def)
  ultimately show ?thesis
    using ac unfolding setValue_heap vals_ok_def by simp
qed

lemma df_reach_ok:
  "df_reach c0 st \<Longrightarrow> wf_context c0 \<Longrightarrow> acyclic_heap (heap (st_ctx st)) \<and> vals_ok (heap (st_ctx st)) (st_vals st)"
proof (induction rule: df_reach.induct)
  case init
  then show ?case by (simp add: fresh_state_def acyclic_heap_wf vals_ok_def)
next
  case (get st a)
  then have ok: "acyclic_heap (heap (st_ctx st))" "vals_ok (heap (st_ctx st)) (st_vals st)" by auto
  show ?case using getValue_ok[OF ok, of a] ok(1) by metis
next
  case (set st a rs)
  then have ok: "acyclic_heap (heap (st_ctx st))" "vals_ok (heap (st_ctx st)) (st_vals st)" by auto
  show ?case using setValue_ok[OF ok set.hyps(2)] .
qed

section \<open>Claims\<close>

lemma ex_tree_graph_heap: "length (heap ex_tree_graph) = 15"
  by (simp add: ex_tree_graph_def builder_defs ex_jc_ctx_def del: ex_tree_ctx_def)

lemma lazy_evaluation_correct:
  assumes "wf_context c0" and "df_reach c0 st" and "a < length (heap (st_ctx st))"
  shows "snd (getValue a st) = node_value (st_ctx st) a \<and>
    st_vals (fst (getValue a st)) ! a = Some (node_value (st_ctx st) a)"
  using getValue_correct[OF _ _ assms(3)] df_reach_ok[OF assms(2,1)] by blast

lemma built_graph_wf:
  assumes "makeHomogeneousLikelihoodNodes sites tree model rootFreqs c = (c0, Inr r)"
    and "wf_context c" and "inputs_valid (HomogeneousLikelihoodNodesHelper_init sites tree model rootFreqs) c"
  shows "wf_context c0"
  using builder_wf_ext[OF assms(2,3)] assms(1) by simp

lemma ex_tree_graph_build:
  "makeHomogeneousLikelihoodNodes ex_sites (ex_ctree True ''B'') ex_model None ex_jc_ctx = (ex_tree_graph, Inr 14)"
  by (simp add: ex_tree_graph_def builder_defs ex_jc_ctx_def del: ex_tree_ctx_def)

lemma ex_tree_graph_node1: "heap ex_tree_graph ! Suc 0 = mk_node NumericMutable [] TDouble (1, 1) (1, 1) (MatArg [[1/10]])"
  by (simp add: ex_tree_graph_def builder_defs ex_jc_ctx_def del: ex_tree_ctx_def)

text \<open>
  C23: lazy evaluation of the graph the tree builder returns refines its full
  evaluation: in every state reached from that graph by any sequence of value requests
  and \<open>NumericMutable\<close> updates (branch lengths, say), requesting a node returns its
  value in the current graph and caches it.
\<close>

theorem built_graph_lazy_evaluation:
  assumes "makeHomogeneousLikelihoodNodes sites tree model rootFreqs c = (c0, Inr r)"
    and "wf_context c" and "inputs_valid (HomogeneousLikelihoodNodesHelper_init sites tree model rootFreqs) c"
    and "df_reach c0 st" and "a < length (heap (st_ctx st))"
  shows "snd (getValue a st) = node_value (st_ctx st) a \<and>
    st_vals (fst (getValue a st)) ! a = Some (node_value (st_ctx st) a)"
  by (rule lazy_evaluation_correct[OF built_graph_wf[OF assms(1-3)] assms(4,5)])

theorem built_graph_lazy_evaluation_witness:
  "snd (getValue 1 (setValue 1 [[3/10]] (fresh_state ex_tree_graph))) = VMatrix (emat_of_rows [[3/10]])"
proof -
  have m: "1 < length (heap (st_ctx (fresh_state ex_tree_graph)))"
    "kind (heap (st_ctx (fresh_state ex_tree_graph)) ! 1) = NumericMutable"
    using ex_tree_graph_heap ex_tree_graph_node1 by (simp_all add: fresh_state_def mk_node_def)
  have r: "df_reach ex_tree_graph (setValue 1 [[3/10]] (fresh_state ex_tree_graph))"
    by (rule df_reach.set[OF df_reach.init m])
  have l: "1 < length (heap (st_ctx (setValue 1 [[3/10]] (fresh_state ex_tree_graph))))"
    using m(1) by (simp add: setValue_heap)
  have "node_value (st_ctx (setValue 1 [[3/10]] (fresh_state ex_tree_graph))) 1 = VMatrix (emat_of_rows [[3/10]])"
    using eval_heap_nth[of 1 "heap (st_ctx (setValue 1 [[3/10]] (fresh_state ex_tree_graph)))"] l
    by (simp add: node_value_def setValue_heap fresh_state_def ex_tree_graph_node1 mk_node_def node_compute_def)
  then show ?thesis
    using built_graph_lazy_evaluation[OF ex_tree_graph_build ex_jc_ctx_wf ex_jc_inputs_valid r l] by simp
qed


end
