(* ===== verification/GY94.thy ===== *)
theory GY94
  imports Prelude
begin

text \<open>
  The Goldman--Yang codon model. Two versions are in the sources:
  \<open>src/src/Bpp/Phyl/Model/GY94.cpp\<close> (constructor from a genetic code and a codon
  frequency set, copy constructor, assignment, \<open>updateMatrices\<close>, \<open>setFreq\<close>) and the
  older header \<open>src/Phyl/GY94.h\<close> (inline delegations to the nested model, and the
  eigen-decomposition switch). GY94 owns its parameters \<open>GY94.kappa\<close> and \<open>GY94.V\<close> and
  keeps them in step with the nested \<open>CodonAsynonymousFrequenciesReversibleSubstitutionModel\<close>
  \<open>pmodel_\<close>, whose own parameters are renamed into the namespace \<open>GY94.\<close>. The
  parameter machinery of bpp-core (\<open>Parameter\<close>, \<open>ParameterList\<close>,
  \<open>AbstractParametrizable\<close>) is not part of the sources and is modelled as its
  documented behaviour: names are unique, values obey their constraint, a parametrizable
  object reads its parameters under its namespace prefix. The nested model's own
  construction is an input: its parameter list and namespace as its constructor leaves
  them. The Grantham distance object \<open>gacd_\<close> is an object at an address, so that the
  pointer the nested model keeps to it can be followed.
\<close>

section \<open>Parameters (bpp-core)\<close>

datatype constraint = R_PLUS_STAR | NO_CONSTRAINT

fun constraint_ok :: "constraint \<Rightarrow> real \<Rightarrow> bool" where
  "constraint_ok R_PLUS_STAR v = (0 < v)"
| "constraint_ok NO_CONSTRAINT v = True"

record parameter =
  pname :: string
  pvalue :: real
  pconstraint :: constraint

datatype param_error = ParameterException string | ConstraintException string | ParameterNotFoundException string

text \<open>An object with parameters: its namespace prefix and its \<open>ParameterList\<close>.\<close>

record parametrizable =
  prefix :: string
  params :: "parameter list"

definition has_parameter :: "parameter list \<Rightarrow> string \<Rightarrow> bool" where
  "has_parameter pl n \<longleftrightarrow> n \<in> set (map pname pl)"

text \<open>\<open>Parameter(name, value, constraint)\<close>: the constructor checks the constraint.\<close>

definition mk_parameter :: "string \<Rightarrow> real \<Rightarrow> constraint \<Rightarrow> param_error + parameter" where
  "mk_parameter n v k =
     (if constraint_ok k v then Inr \<lparr>pname = n, pvalue = v, pconstraint = k\<rparr> else Inl (ConstraintException n))"

text \<open>\<open>addParameter_\<close>: a parameter of a name already present is refused.\<close>

definition addParameter :: "parameter \<Rightarrow> parametrizable \<Rightarrow> param_error + parametrizable" where
  "addParameter p obj =
     (if has_parameter (params obj) (pname p) then Inl (ParameterException (pname p))
      else Inr (obj\<lparr>params := params obj @ [p]\<rparr>))"

fun addParameters :: "parameter list \<Rightarrow> parametrizable \<Rightarrow> param_error + parametrizable" where
  "addParameters [] obj = Inr obj"
| "addParameters (p # ps) obj = ebind (addParameter p obj) (addParameters ps)"

text \<open>\<open>getParameterValue(name)\<close>: the value of the parameter \<open>prefix + name\<close>.\<close>

definition getParameterValue :: "parametrizable \<Rightarrow> string \<Rightarrow> param_error + real" where
  "getParameterValue obj n =
     (case find (\<lambda>p. pname p = prefix obj @ n) (params obj) of
        None \<Rightarrow> Inl (ParameterNotFoundException (prefix obj @ n))
      | Some p \<Rightarrow> Inr (pvalue p))"

text \<open>
  \<open>matchParametersValues(pl)\<close>: every own parameter named in \<open>pl\<close> takes the value
  given there (the first of that name), if the value obeys its constraint.
\<close>

definition match_one :: "parameter list \<Rightarrow> parameter \<Rightarrow> param_error + parameter" where
  "match_one pl p =
     (case find (\<lambda>q. pname q = pname p) pl of
        None \<Rightarrow> Inr p
      | Some q \<Rightarrow> if constraint_ok (pconstraint p) (pvalue q) then Inr (p\<lparr>pvalue := pvalue q\<rparr>)
                  else Inl (ConstraintException (pname p)))"

fun match_all :: "parameter list \<Rightarrow> parameter list \<Rightarrow> param_error + parameter list" where
  "match_all pl [] = Inr []"
| "match_all pl (p # ps) = ebind (match_one pl p) (\<lambda>p'. ebind (match_all pl ps) (\<lambda>ps'. Inr (p' # ps')))"

definition matchParametersValues :: "parameter list \<Rightarrow> parametrizable \<Rightarrow> param_error + parametrizable" where
  "matchParametersValues pl obj = ebind (match_all pl (params obj)) (\<lambda>ps. Inr (obj\<lparr>params := ps\<rparr>))"

text \<open>\<open>setNamespace(prefix)\<close>: every parameter renamed from the old prefix to the new one.\<close>

definition setNamespace :: "string \<Rightarrow> parametrizable \<Rightarrow> parametrizable" where
  "setNamespace ns obj =
     \<lparr>prefix = ns,
      params = map (\<lambda>p. p\<lparr>pname := ns @ drop (length (prefix obj)) (pname p)\<rparr>) (params obj)\<rparr>"

section \<open>GY94 (\<open>GY94.cpp\<close>)\<close>

text \<open>
  The nested model \<open>pmodel_\<close>: its parameters (under its namespace), the address of the
  Grantham distance object it was given, its genetic code and the parameters of its
  codon frequency set (\<open>getGeneticCode()\<close>, \<open>getFreq()\<close>).
\<close>

record nested_model =
  nm_par :: parametrizable
  nm_gacd :: nat
  nm_code :: string
  nm_freq :: "parameter list"

text \<open>
  \<open>CodonAsynonymousFrequenciesReversibleSubstitutionModel(gc, codonFreqs, &gacd)\<close>:
  the nested model as its constructor leaves it, from the genetic code, the parameters of
  the frequency set and the address of the distance object.
\<close>

type_synonym nested_ctor = "string \<Rightarrow> parameter list \<Rightarrow> nat \<Rightarrow> nested_model"

text \<open>A GY94 object: its own parameters (prefix \<open>GY94.\<close>), the address of its \<open>gacd_\<close>, and \<open>pmodel_\<close>.\<close>

record gy94 =
  gy_par :: parametrizable
  gy_gacd :: nat
  gy_pmodel :: nested_model

text \<open>
  \<open>updateMatrices\<close> (lines 73--79): the values of \<open>kappa\<close> and \<open>V\<close> passed to the nested
  model as \<open>GY94.123_K80.kappa\<close> and \<open>GY94.alpha\<close>.
\<close>

definition GY94_updateMatrices :: "gy94 \<Rightarrow> param_error + gy94" where
  "GY94_updateMatrices gy =
     ebind (getParameterValue (gy_par gy) ''kappa'') (\<lambda>kappa.
     ebind (getParameterValue (gy_par gy) ''V'') (\<lambda>v.
     ebind (matchParametersValues
              [\<lparr>pname = ''GY94.123_K80.kappa'', pvalue = kappa, pconstraint = NO_CONSTRAINT\<rparr>,
               \<lparr>pname = ''GY94.alpha'', pvalue = v, pconstraint = NO_CONSTRAINT\<rparr>]
              (nm_par (gy_pmodel gy))) (\<lambda>pm.
     Inr (gy\<lparr>gy_pmodel := (gy_pmodel gy)\<lparr>nm_par := pm\<rparr>\<rparr>))))"

text \<open>
  The constructor (lines 48--58): the base object in namespace \<open>GY94.\<close>, a fresh
  \<open>gacd_\<close> at address \<open>a\<close>, \<open>pmodel_\<close> built on it; then the parameters
  \<open>GY94.kappa = 1\<close> and \<open>GY94.V = 10000\<close> (both strictly positive), the nested model
  renamed into \<open>GY94.\<close>, the frequency set's parameters, and \<open>updateMatrices\<close>.
\<close>

definition GY94_create :: "nested_ctor \<Rightarrow> string \<Rightarrow> parameter list \<Rightarrow> nat \<Rightarrow> param_error + gy94" where
  "GY94_create ctor gc codonFreqs a =
     (let base = \<lparr>prefix = ''GY94.'', params = []\<rparr>; pmodel = ctor gc codonFreqs a
      in ebind (mk_parameter ''GY94.kappa'' 1 R_PLUS_STAR) (\<lambda>pk.
         ebind (addParameter pk base) (\<lambda>b1.
         ebind (mk_parameter ''GY94.V'' 10000 R_PLUS_STAR) (\<lambda>pv.
         ebind (addParameter pv b1) (\<lambda>b2.
         ebind (addParameters codonFreqs b2) (\<lambda>b3.
         GY94_updateMatrices
           \<lparr>gy_par = b3, gy_gacd = a,
            gy_pmodel = pmodel\<lparr>nm_par := setNamespace ''GY94.'' (nm_par pmodel)\<rparr>\<rparr>))))))"

text \<open>
  The copy constructor (lines 60--64): the base copied, a fresh \<open>gacd_\<close> at address
  \<open>a\<close>, and \<open>pmodel_\<close> copied, with the distance pointer it holds.
\<close>

definition GY94_copy :: "nat \<Rightarrow> gy94 \<Rightarrow> gy94" where
  "GY94_copy a gy = \<lparr>gy_par = gy_par gy, gy_gacd = a, gy_pmodel = gy_pmodel gy\<rparr>"

text \<open>
  Assignment (lines 66--71): the base assigned, and \<open>pmodel_\<close> rebuilt from the other's
  genetic code and a clone of its frequency set, on this object's \<open>gacd_\<close>.
\<close>

definition GY94_assign :: "nested_ctor \<Rightarrow> gy94 \<Rightarrow> gy94 \<Rightarrow> gy94" where
  "GY94_assign ctor self other =
     self\<lparr>gy_par := gy_par other,
          gy_pmodel := ctor (nm_code (gy_pmodel other)) (nm_freq (gy_pmodel other)) (gy_gacd self)\<rparr>"

text \<open>
  \<open>setFreq\<close> (lines 81--85): the nested model's \<open>setFreq\<close> (an input: it belongs to the
  nested class), then this object's parameters matched to the nested model's.
\<close>

definition GY94_setFreq ::
  "((int \<Rightarrow> real) \<Rightarrow> nested_model \<Rightarrow> nested_model) \<Rightarrow> (int \<Rightarrow> real) \<Rightarrow> gy94 \<Rightarrow> param_error + gy94" where
  "GY94_setFreq nested_setFreq m gy =
     (let pm = nested_setFreq m (gy_pmodel gy)
      in ebind (matchParametersValues (params (nm_par pm)) (gy_par gy)) (\<lambda>b.
         Inr (gy\<lparr>gy_par := b, gy_pmodel := pm\<rparr>)))"

section \<open>GY94 (\<open>GY94.h\<close>)\<close>

text \<open>
  The header declares an older class: GY94 derived from \<open>AbstractSubstitutionModel\<close>, whose
  flag \<open>eigenDecompose_\<close> it inherits, with the nested model \<open>_pmodel\<close> to which the
  inline methods delegate. The nested model is seen through what they read.
\<close>

text \<open>\<open>BadIntException\<close>, thrown by \<open>getInitValue\<close> for a state that is not one of the alphabet.\<close>

datatype bad_int_exception = BadIntException int

record nested_model_h =
  hm_frequencies :: "real list"
  hm_generator :: "nat \<Rightarrow> nat \<Rightarrow> real"
  hm_Pij_t :: "nat \<Rightarrow> nat \<Rightarrow> real \<Rightarrow> real"
  hm_dPij_dt :: "nat \<Rightarrow> nat \<Rightarrow> real \<Rightarrow> real"
  hm_d2Pij_dt2 :: "nat \<Rightarrow> nat \<Rightarrow> real \<Rightarrow> real"
  hm_nb_states :: nat
  hm_eigen :: bool
  hm_eigenValues :: "real list"
  hm_rowLeftEigenVectors :: "real list list"
  hm_columnRightEigenVectors :: "real list list"
  hm_getPij_t :: "real \<Rightarrow> nat \<Rightarrow> nat \<Rightarrow> real"
  hm_getdPij_dt :: "real \<Rightarrow> nat \<Rightarrow> nat \<Rightarrow> real"
  hm_getd2Pij_dt2 :: "real \<Rightarrow> nat \<Rightarrow> nat \<Rightarrow> real"
  hm_initValue :: "nat \<Rightarrow> int \<Rightarrow> bad_int_exception + real"

record gy94_h =
  h_pmodel :: nested_model_h
  eigenDecompose :: bool

text \<open>The delegations of lines 106--132.\<close>

definition GY94h_getFrequencies :: "gy94_h \<Rightarrow> real list" where
  "GY94h_getFrequencies st = hm_frequencies (h_pmodel st)"

definition GY94h_freq :: "gy94_h \<Rightarrow> nat \<Rightarrow> real" where
  "GY94h_freq st i = hm_frequencies (h_pmodel st) ! i"

definition GY94h_Qij :: "gy94_h \<Rightarrow> nat \<Rightarrow> nat \<Rightarrow> real" where
  "GY94h_Qij st i j = hm_generator (h_pmodel st) i j"

definition GY94h_Pij_t :: "gy94_h \<Rightarrow> nat \<Rightarrow> nat \<Rightarrow> real \<Rightarrow> real" where
  "GY94h_Pij_t st i j t = hm_Pij_t (h_pmodel st) i j t"

definition GY94h_dPij_dt :: "gy94_h \<Rightarrow> nat \<Rightarrow> nat \<Rightarrow> real \<Rightarrow> real" where
  "GY94h_dPij_dt st i j t = hm_dPij_dt (h_pmodel st) i j t"

definition GY94h_d2Pij_dt2 :: "gy94_h \<Rightarrow> nat \<Rightarrow> nat \<Rightarrow> real \<Rightarrow> real" where
  "GY94h_d2Pij_dt2 st i j t = hm_d2Pij_dt2 (h_pmodel st) i j t"

definition GY94h_getNumberOfStates :: "gy94_h \<Rightarrow> nat" where
  "GY94h_getNumberOfStates st = hm_nb_states (h_pmodel st)"

text \<open>The generator and its eigendecomposition (lines 108--114).\<close>

definition GY94h_getGenerator :: "gy94_h \<Rightarrow> nat \<Rightarrow> nat \<Rightarrow> real" where
  "GY94h_getGenerator st = hm_generator (h_pmodel st)"

definition GY94h_getEigenValues :: "gy94_h \<Rightarrow> real list" where
  "GY94h_getEigenValues st = hm_eigenValues (h_pmodel st)"

definition GY94h_getRowLeftEigenVectors :: "gy94_h \<Rightarrow> real list list" where
  "GY94h_getRowLeftEigenVectors st = hm_rowLeftEigenVectors (h_pmodel st)"

definition GY94h_getColumnRightEigenVectors :: "gy94_h \<Rightarrow> real list list" where
  "GY94h_getColumnRightEigenVectors st = hm_columnRightEigenVectors (h_pmodel st)"

text \<open>The matrices of transition probabilities and their derivatives for a time (lines 124--128).\<close>

definition GY94h_getPij_t :: "gy94_h \<Rightarrow> real \<Rightarrow> nat \<Rightarrow> nat \<Rightarrow> real" where
  "GY94h_getPij_t st d = hm_getPij_t (h_pmodel st) d"

definition GY94h_getdPij_dt :: "gy94_h \<Rightarrow> real \<Rightarrow> nat \<Rightarrow> nat \<Rightarrow> real" where
  "GY94h_getdPij_dt st d = hm_getdPij_dt (h_pmodel st) d"

definition GY94h_getd2Pij_dt2 :: "gy94_h \<Rightarrow> real \<Rightarrow> nat \<Rightarrow> nat \<Rightarrow> real" where
  "GY94h_getd2Pij_dt2 st d = hm_getd2Pij_dt2 (h_pmodel st) d"

text \<open>\<open>getInitValue\<close> (line 134): the nested model's answer, its exception included.\<close>

definition GY94h_getInitValue :: "gy94_h \<Rightarrow> nat \<Rightarrow> int \<Rightarrow> bad_int_exception + real" where
  "GY94h_getInitValue st i state = hm_initValue (h_pmodel st) i state"

text \<open>\<open>clone()\<close> (lines 94--99): \<open>new GY94(*this)\<close>, the implicit member-wise copy.\<close>

definition GY94h_clone :: "gy94_h \<Rightarrow> gy94_h" where
  "GY94h_clone st = st"

text \<open>\<open>setFreq\<close> (line 130), with the nested model's \<open>setFreq\<close> as input.\<close>

definition GY94h_setFreq :: "((int \<Rightarrow> real) \<Rightarrow> nested_model_h \<Rightarrow> nested_model_h) \<Rightarrow> (int \<Rightarrow> real) \<Rightarrow> gy94_h \<Rightarrow> gy94_h" where
  "GY94h_setFreq nested_setFreq m st = st\<lparr>h_pmodel := nested_setFreq m (h_pmodel st)\<rparr>"

text \<open>
  \<open>enableEigenDecomposition(bool yn)\<close> (line 136) sets the inherited flag to \<open>1\<close>;
  \<open>enableEigenDecomposition()\<close> (line 138) answers the nested model's flag.
\<close>

definition GY94h_enableEigenDecomposition_set :: "bool \<Rightarrow> gy94_h \<Rightarrow> gy94_h" where
  "GY94h_enableEigenDecomposition_set yn st = st\<lparr>eigenDecompose := True\<rparr>"

definition GY94h_enableEigenDecomposition_get :: "gy94_h \<Rightarrow> bool" where
  "GY94h_enableEigenDecomposition_get st = hm_eigen (h_pmodel st)"

section \<open>Parameter lemmas\<close>

lemma find_name_append:
  "find (\<lambda>p. pname p = n) (xs @ ys) = (case find (\<lambda>p. pname p = n) xs of None \<Rightarrow> find (\<lambda>p. pname p = n) ys | Some p \<Rightarrow> Some p)"
  by (induction xs) auto

lemma match_all_find:
  assumes "match_all pl ps = Inr ps'" and "find (\<lambda>q. pname q = n) pl = Some q0" and "n \<in> set (map pname ps)"
  shows "\<exists>p'. find (\<lambda>p. pname p = n) ps' = Some p' \<and> pvalue p' = pvalue q0"
  using assms
proof (induction ps arbitrary: ps')
  case (Cons p ps)
  from Cons.prems(1) obtain p' ps'' where m1: "match_one pl p = Inr p'" and m2: "match_all pl ps = Inr ps''"
    and eq: "ps' = p' # ps''"
    by (auto simp: ebind_eq_Inr)
  have name: "pname p' = pname p"
    using m1 by (auto simp: match_one_def split: option.splits if_splits)
  show ?case
  proof (cases "pname p = n")
    case True
    then have "pvalue p' = pvalue q0"
      using m1 Cons.prems(2) by (auto simp: match_one_def split: if_splits)
    then show ?thesis using eq name True by simp
  next
    case False
    then show ?thesis
      using Cons.IH[OF m2 Cons.prems(2)] Cons.prems(3) eq name by auto
  qed
qed simp

lemma match_all_unnamed:
  "(\<forall>p\<in>set ps. find (\<lambda>q. pname q = pname p) pl = None) \<Longrightarrow> match_all pl ps = Inr ps"
  by (induction ps) (simp_all add: match_one_def)

lemma getParameterValue_find:
  "find (\<lambda>p. pname p = prefix obj @ n) (params obj) = Some p \<Longrightarrow> getParameterValue obj n = Inr (pvalue p)"
  by (simp add: getParameterValue_def)

lemma GY94_updateMatrices_Inr:
  assumes "GY94_updateMatrices gy = Inr gy'"
  obtains kappa v ps' where "getParameterValue (gy_par gy) ''kappa'' = Inr kappa"
    and "getParameterValue (gy_par gy) ''V'' = Inr v"
    and "match_all [\<lparr>pname = ''GY94.123_K80.kappa'', pvalue = kappa, pconstraint = NO_CONSTRAINT\<rparr>,
               \<lparr>pname = ''GY94.alpha'', pvalue = v, pconstraint = NO_CONSTRAINT\<rparr>] (params (nm_par (gy_pmodel gy))) = Inr ps'"
    and "gy' = gy\<lparr>gy_pmodel := (gy_pmodel gy)\<lparr>nm_par := (nm_par (gy_pmodel gy))\<lparr>params := ps'\<rparr>\<rparr>\<rparr>"
  using assms by (auto simp: GY94_updateMatrices_def matchParametersValues_def ebind_eq_Inr)

text \<open>
  After \<open>updateMatrices\<close>, the nested model in the namespace \<open>GY94.\<close> with the parameters
  \<open>123_K80.kappa\<close> and \<open>alpha\<close> holds GY94's \<open>kappa\<close> and \<open>V\<close>.
\<close>

lemma GY94_sync:
  assumes "GY94_updateMatrices gy = Inr gy'" and "prefix (nm_par (gy_pmodel gy)) = ''GY94.''"
    and "''GY94.123_K80.kappa'' \<in> set (map pname (params (nm_par (gy_pmodel gy))))"
    and "''GY94.alpha'' \<in> set (map pname (params (nm_par (gy_pmodel gy))))"
  shows "getParameterValue (nm_par (gy_pmodel gy')) ''123_K80.kappa'' = getParameterValue (gy_par gy) ''kappa'' \<and>
         getParameterValue (nm_par (gy_pmodel gy')) ''alpha'' = getParameterValue (gy_par gy) ''V'' \<and>
         gy_par gy' = gy_par gy"
proof -
  obtain kappa v ps' where k: "getParameterValue (gy_par gy) ''kappa'' = Inr kappa"
    and v: "getParameterValue (gy_par gy) ''V'' = Inr v"
    and m: "match_all [\<lparr>pname = ''GY94.123_K80.kappa'', pvalue = kappa, pconstraint = NO_CONSTRAINT\<rparr>,
               \<lparr>pname = ''GY94.alpha'', pvalue = v, pconstraint = NO_CONSTRAINT\<rparr>] (params (nm_par (gy_pmodel gy))) = Inr ps'"
    and gy': "gy' = gy\<lparr>gy_pmodel := (gy_pmodel gy)\<lparr>nm_par := (nm_par (gy_pmodel gy))\<lparr>params := ps'\<rparr>\<rparr>\<rparr>"
    using GY94_updateMatrices_Inr[OF assms(1)] by blast
  obtain pk where pk: "find (\<lambda>p. pname p = ''GY94.123_K80.kappa'') ps' = Some pk" "pvalue pk = kappa"
    using match_all_find[OF m _ assms(3)] by auto
  obtain pa where pa: "find (\<lambda>p. pname p = ''GY94.alpha'') ps' = Some pa" "pvalue pa = v"
    using match_all_find[OF m _ assms(4)] by auto
  show ?thesis
    using getParameterValue_find[of "(nm_par (gy_pmodel gy))\<lparr>params := ps'\<rparr>" "''123_K80.kappa''" pk]
      getParameterValue_find[of "(nm_par (gy_pmodel gy))\<lparr>params := ps'\<rparr>" "''alpha''" pa]
      pk pa k v gy' assms(2) by simp
qed

lemma addParameters_Inr:
  "addParameters ps obj = Inr obj' \<Longrightarrow> params obj' = params obj @ ps \<and> prefix obj' = prefix obj"
proof (induction ps arbitrary: obj)
  case (Cons p ps)
  then obtain o1 where "addParameter p obj = Inr o1" "addParameters ps o1 = Inr obj'"
    by (auto simp: ebind_eq_Inr)
  with Cons.IH show ?case
    by (auto simp: addParameter_def split: if_splits)
qed simp

lemma setNamespace_name:
  assumes "prefix obj @ x \<in> set (map pname (params obj))"
  shows "ns @ x \<in> set (map pname (params (setNamespace ns obj)))"
proof -
  obtain p where p: "p \<in> set (params obj)" "pname p = prefix obj @ x"
    using assms by auto
  then have "ns @ x = pname (p\<lparr>pname := ns @ drop (length (prefix obj)) (pname p)\<rparr>)"
    by simp
  then show ?thesis
    using p(1) by (auto simp: setNamespace_def)
qed

lemma GY94_updateMatrices_gacd:
  "GY94_updateMatrices gy = Inr gy' \<Longrightarrow> nm_gacd (gy_pmodel gy') = nm_gacd (gy_pmodel gy) \<and> gy_gacd gy' = gy_gacd gy"
  by (erule GY94_updateMatrices_Inr) simp

lemma GY94_create_Inr:
  assumes "GY94_create ctor gc codonFreqs a = Inr gy"
  obtains b3 where "params b3 = [\<lparr>pname = ''GY94.kappa'', pvalue = 1, pconstraint = R_PLUS_STAR\<rparr>,
        \<lparr>pname = ''GY94.V'', pvalue = 10000, pconstraint = R_PLUS_STAR\<rparr>] @ codonFreqs"
    and "prefix b3 = ''GY94.''"
    and "GY94_updateMatrices \<lparr>gy_par = b3, gy_gacd = a,
            gy_pmodel = (ctor gc codonFreqs a)\<lparr>nm_par := setNamespace ''GY94.'' (nm_par (ctor gc codonFreqs a))\<rparr>\<rparr> = Inr gy"
proof -
  let ?b2 = "\<lparr>prefix = ''GY94.'', params = [\<lparr>pname = ''GY94.kappa'', pvalue = 1, pconstraint = R_PLUS_STAR\<rparr>,
        \<lparr>pname = ''GY94.V'', pvalue = 10000, pconstraint = R_PLUS_STAR\<rparr>]\<rparr>"
  from assms obtain b3 where b3: "addParameters codonFreqs ?b2 = Inr b3"
    and u: "GY94_updateMatrices \<lparr>gy_par = b3, gy_gacd = a,
            gy_pmodel = (ctor gc codonFreqs a)\<lparr>nm_par := setNamespace ''GY94.'' (nm_par (ctor gc codonFreqs a))\<rparr>\<rparr> = Inr gy"
    by (auto simp: GY94_create_def Let_def ebind_eq_Inr mk_parameter_def addParameter_def has_parameter_def
        split: if_splits)
  show ?thesis
    using that[OF _ _ u] addParameters_Inr[OF b3] by simp
qed

subsection \<open>Examples\<close>

text \<open>
  A nested model whose constructor names its parameters in its own namespace, a codon
  frequency set with one parameter, the GY94 object built from them with its distance
  object at address 7, and the same object after \<open>kappa\<close> and \<open>V\<close> were changed.
\<close>

definition ex_ctor :: nested_ctor where
  "ex_ctor gc f a =
     \<lparr>nm_par = \<lparr>prefix = ''CodonAsynonymousFrequencies.'',
        params = [\<lparr>pname = ''CodonAsynonymousFrequencies.123_K80.kappa'', pvalue = 1, pconstraint = R_PLUS_STAR\<rparr>,
                  \<lparr>pname = ''CodonAsynonymousFrequencies.alpha'', pvalue = 10000, pconstraint = R_PLUS_STAR\<rparr>]\<rparr>,
      nm_gacd = a, nm_code = gc, nm_freq = f\<rparr>"

definition ex_freqs :: "parameter list" where
  "ex_freqs = [\<lparr>pname = ''Full.theta'', pvalue = 1/2, pconstraint = NO_CONSTRAINT\<rparr>]"

definition ex_gy_changed :: gy94 where
  "ex_gy_changed =
     \<lparr>gy_par = \<lparr>prefix = ''GY94.'',
        params = [\<lparr>pname = ''GY94.kappa'', pvalue = 2, pconstraint = R_PLUS_STAR\<rparr>,
                  \<lparr>pname = ''GY94.V'', pvalue = 5000, pconstraint = R_PLUS_STAR\<rparr>] @ ex_freqs\<rparr>,
      gy_gacd = 7,
      gy_pmodel = (ex_ctor ''standard'' ex_freqs 7)\<lparr>nm_par := setNamespace ''GY94.'' (nm_par (ex_ctor ''standard'' ex_freqs 7))\<rparr>\<rparr>"

lemmas gy_ex_defs = ex_ctor_def ex_freqs_def ex_gy_changed_def GY94_create_def GY94_updateMatrices_def
  matchParametersValues_def match_one_def getParameterValue_def setNamespace_def mk_parameter_def
  addParameter_def has_parameter_def Let_def

lemma ex_gy_create: "GY94_create ex_ctor ''standard'' ex_freqs 7 = Inr (projr (GY94_create ex_ctor ''standard'' ex_freqs 7))"
  by (simp add: gy_ex_defs)

lemma ex_gy_update: "GY94_updateMatrices ex_gy_changed = Inr (projr (GY94_updateMatrices ex_gy_changed))"
  by (simp add: gy_ex_defs)

section \<open>Properties of GY94\<close>

text \<open>
  C8: \<open>updateMatrices\<close> keeps the nested model in step with GY94: when the nested model
  is in the namespace \<open>GY94.\<close> and has the parameters \<open>123_K80.kappa\<close> and \<open>alpha\<close>,
  after \<open>updateMatrices\<close> their values are GY94's \<open>kappa\<close> and \<open>V\<close>, and GY94's own
  parameters are unchanged.
\<close>

theorem GY94_updateMatrices_sync:
  assumes "GY94_updateMatrices gy = Inr gy'" and "prefix (nm_par (gy_pmodel gy)) = ''GY94.''"
    and "''GY94.123_K80.kappa'' \<in> set (map pname (params (nm_par (gy_pmodel gy))))"
    and "''GY94.alpha'' \<in> set (map pname (params (nm_par (gy_pmodel gy))))"
  shows "getParameterValue (nm_par (gy_pmodel gy')) ''123_K80.kappa'' = getParameterValue (gy_par gy) ''kappa'' \<and>
         getParameterValue (nm_par (gy_pmodel gy')) ''alpha'' = getParameterValue (gy_par gy) ''V'' \<and>
         gy_par gy' = gy_par gy"
  using assms by (rule GY94_sync)

theorem GY94_updateMatrices_sync_witness:
  "getParameterValue (nm_par (gy_pmodel (projr (GY94_updateMatrices ex_gy_changed)))) ''123_K80.kappa'' = Inr 2 \<and>
   getParameterValue (nm_par (gy_pmodel (projr (GY94_updateMatrices ex_gy_changed)))) ''alpha'' = Inr 5000"
proof -
  have "prefix (nm_par (gy_pmodel ex_gy_changed)) = ''GY94.''"
    "''GY94.123_K80.kappa'' \<in> set (map pname (params (nm_par (gy_pmodel ex_gy_changed))))"
    "''GY94.alpha'' \<in> set (map pname (params (nm_par (gy_pmodel ex_gy_changed))))"
    by (simp_all add: gy_ex_defs)
  from GY94_updateMatrices_sync[OF ex_gy_update this] show ?thesis
    by (simp add: gy_ex_defs)
qed

text \<open>
  C9: a GY94 object the constructor returns has \<open>kappa = 1\<close> and \<open>V = 10000\<close>, and its
  nested model, renamed into \<open>GY94.\<close>, holds the same values, whatever values the nested
  constructor gave them.
\<close>

theorem GY94_create_values:
  assumes "GY94_create ctor gc codonFreqs a = Inr gy"
    and "prefix (nm_par (ctor gc codonFreqs a)) @ ''123_K80.kappa'' \<in> set (map pname (params (nm_par (ctor gc codonFreqs a))))"
    and "prefix (nm_par (ctor gc codonFreqs a)) @ ''alpha'' \<in> set (map pname (params (nm_par (ctor gc codonFreqs a))))"
  shows "getParameterValue (gy_par gy) ''kappa'' = Inr 1 \<and> getParameterValue (gy_par gy) ''V'' = Inr 10000 \<and>
         getParameterValue (nm_par (gy_pmodel gy)) ''123_K80.kappa'' = Inr 1 \<and>
         getParameterValue (nm_par (gy_pmodel gy)) ''alpha'' = Inr 10000"
proof -
  obtain b3 where b3: "params b3 = [\<lparr>pname = ''GY94.kappa'', pvalue = 1, pconstraint = R_PLUS_STAR\<rparr>,
        \<lparr>pname = ''GY94.V'', pvalue = 10000, pconstraint = R_PLUS_STAR\<rparr>] @ codonFreqs" "prefix b3 = ''GY94.''"
    and u: "GY94_updateMatrices \<lparr>gy_par = b3, gy_gacd = a,
            gy_pmodel = (ctor gc codonFreqs a)\<lparr>nm_par := setNamespace ''GY94.'' (nm_par (ctor gc codonFreqs a))\<rparr>\<rparr> = Inr gy"
    using GY94_create_Inr[OF assms(1)] by blast
  have k: "getParameterValue b3 ''kappa'' = Inr 1" and v: "getParameterValue b3 ''V'' = Inr 10000"
    using b3 by (simp_all add: getParameterValue_def)
  have "''GY94.123_K80.kappa'' \<in> set (map pname (params (setNamespace ''GY94.'' (nm_par (ctor gc codonFreqs a)))))"
    "''GY94.alpha'' \<in> set (map pname (params (setNamespace ''GY94.'' (nm_par (ctor gc codonFreqs a)))))"
    using setNamespace_name[OF assms(2), of "''GY94.''"] setNamespace_name[OF assms(3), of "''GY94.''"] by simp_all
  with GY94_sync[OF u] k v show ?thesis
    by (simp add: setNamespace_def)
qed

theorem GY94_create_values_witness:
  "getParameterValue (nm_par (gy_pmodel (projr (GY94_create ex_ctor ''standard'' ex_freqs 7)))) ''123_K80.kappa'' = Inr 1 \<and>
   getParameterValue (nm_par (gy_pmodel (projr (GY94_create ex_ctor ''standard'' ex_freqs 7)))) ''alpha'' = Inr 10000"
proof -
  have "prefix (nm_par (ex_ctor ''standard'' ex_freqs 7)) @ ''123_K80.kappa'' \<in> set (map pname (params (nm_par (ex_ctor ''standard'' ex_freqs 7))))"
    "prefix (nm_par (ex_ctor ''standard'' ex_freqs 7)) @ ''alpha'' \<in> set (map pname (params (nm_par (ex_ctor ''standard'' ex_freqs 7))))"
    by (simp_all add: ex_ctor_def)
  from GY94_create_values[OF ex_gy_create this] show ?thesis by simp
qed

text \<open>
  C10: after an assignment, \<open>updateMatrices\<close> no longer reaches the nested model:
  \<open>operator=\<close> rebuilds \<open>pmodel_\<close> without \<open>setNamespace("GY94.")\<close>, so when the nested
  constructor names no parameter \<open>GY94.123_K80.kappa\<close> or \<open>GY94.alpha\<close>, the nested
  model keeps its constructor's values whatever \<open>kappa\<close> and \<open>V\<close> are.
\<close>

theorem GY94_assign_unsynchronised:
  assumes "\<forall>p\<in>set (params (nm_par (ctor (nm_code (gy_pmodel other)) (nm_freq (gy_pmodel other)) (gy_gacd self)))).
             pname p \<noteq> ''GY94.123_K80.kappa'' \<and> pname p \<noteq> ''GY94.alpha''"
    and "GY94_updateMatrices (GY94_assign ctor self other) = Inr gy'"
  shows "gy_pmodel gy' = ctor (nm_code (gy_pmodel other)) (nm_freq (gy_pmodel other)) (gy_gacd self) \<and>
         gy_par gy' = gy_par other"
proof -
  let ?nm = "ctor (nm_code (gy_pmodel other)) (nm_freq (gy_pmodel other)) (gy_gacd self)"
  obtain kappa v ps' where m: "match_all [\<lparr>pname = ''GY94.123_K80.kappa'', pvalue = kappa, pconstraint = NO_CONSTRAINT\<rparr>,
               \<lparr>pname = ''GY94.alpha'', pvalue = v, pconstraint = NO_CONSTRAINT\<rparr>] (params (nm_par ?nm)) = Inr ps'"
    and gy': "gy' = (GY94_assign ctor self other)\<lparr>gy_pmodel := ?nm\<lparr>nm_par := (nm_par ?nm)\<lparr>params := ps'\<rparr>\<rparr>\<rparr>"
    using GY94_updateMatrices_Inr[OF assms(2)] by (simp add: GY94_assign_def) blast
  have "match_all [\<lparr>pname = ''GY94.123_K80.kappa'', pvalue = kappa, pconstraint = NO_CONSTRAINT\<rparr>,
               \<lparr>pname = ''GY94.alpha'', pvalue = v, pconstraint = NO_CONSTRAINT\<rparr>] (params (nm_par ?nm)) =
        Inr (params (nm_par ?nm))"
    using assms(1) by (intro match_all_unnamed) auto
  then show ?thesis
    using m gy' by (simp add: GY94_assign_def)
qed

theorem GY94_assign_unsynchronised_witness:
  "gy_pmodel (projr (GY94_updateMatrices (GY94_assign ex_ctor ex_gy_changed ex_gy_changed))) = ex_ctor ''standard'' ex_freqs 7 \<and>
   getParameterValue (gy_par (projr (GY94_updateMatrices (GY94_assign ex_ctor ex_gy_changed ex_gy_changed)))) ''kappa'' = Inr 2"
proof -
  have u: "GY94_updateMatrices (GY94_assign ex_ctor ex_gy_changed ex_gy_changed) =
           Inr (projr (GY94_updateMatrices (GY94_assign ex_ctor ex_gy_changed ex_gy_changed)))"
    by (simp add: gy_ex_defs GY94_assign_def)
  have n: "\<forall>p\<in>set (params (nm_par (ex_ctor (nm_code (gy_pmodel ex_gy_changed)) (nm_freq (gy_pmodel ex_gy_changed))
             (gy_gacd ex_gy_changed)))). pname p \<noteq> ''GY94.123_K80.kappa'' \<and> pname p \<noteq> ''GY94.alpha''"
    by (simp add: gy_ex_defs)
  from GY94_assign_unsynchronised[OF n u] show ?thesis
    by (simp add: gy_ex_defs)
qed

text \<open>
  C11: the copy constructor makes the copy's nested model point to the distance object
  of the original: \<open>pmodel_(gy94.pmodel_)\<close> copies the pointer, while the copy's own
  \<open>gacd_\<close> is a new object; assignment points it at the object's own \<open>gacd_\<close>.
\<close>

theorem GY94_copy_shares_distance:
  assumes "GY94_create ctor gc codonFreqs a = Inr gy" and "\<forall>gc f b. nm_gacd (ctor gc f b) = b"
  shows "nm_gacd (gy_pmodel (GY94_copy b gy)) = a \<and> gy_gacd (GY94_copy b gy) = b \<and>
         nm_gacd (gy_pmodel (GY94_assign ctor (GY94_copy b gy) gy)) = b"
proof -
  obtain b3 where "GY94_updateMatrices \<lparr>gy_par = b3, gy_gacd = a,
            gy_pmodel = (ctor gc codonFreqs a)\<lparr>nm_par := setNamespace ''GY94.'' (nm_par (ctor gc codonFreqs a))\<rparr>\<rparr> = Inr gy"
    using GY94_create_Inr[OF assms(1)] by blast
  from GY94_updateMatrices_gacd[OF this] assms(2) show ?thesis
    by (simp add: GY94_copy_def GY94_assign_def)
qed

theorem GY94_copy_shares_distance_witness:
  "nm_gacd (gy_pmodel (GY94_copy 8 (projr (GY94_create ex_ctor ''standard'' ex_freqs 7)))) = 7 \<and>
   gy_gacd (GY94_copy 8 (projr (GY94_create ex_ctor ''standard'' ex_freqs 7))) = 8"
proof -
  have "\<forall>gc f b. nm_gacd (ex_ctor gc f b) = b" by (simp add: ex_ctor_def)
  from GY94_copy_shares_distance[OF ex_gy_create this] show ?thesis by simp
qed

text \<open>
  C12: in the header version, \<open>enableEigenDecomposition(yn)\<close> ignores its argument (it
  sets the flag to \<open>1\<close>), and \<open>enableEigenDecomposition()\<close> answers the nested model's
  flag, which the setter never touches: what is set is not what is read back.
\<close>

theorem GY94h_enableEigenDecomposition_ignored:
  "eigenDecompose (GY94h_enableEigenDecomposition_set yn st) = True \<and>
   GY94h_enableEigenDecomposition_get (GY94h_enableEigenDecomposition_set yn st) = GY94h_enableEigenDecomposition_get st"
  by (simp add: GY94h_enableEigenDecomposition_set_def GY94h_enableEigenDecomposition_get_def)

end
