(* ===== verification/WordModel.thy ===== *)
theory WordModel
  imports Prelude
begin

text \<open>
  \<open>AbstractWordReversibleSubstitutionModel\<close> (\<open>src/Phyl/AbstractWordReversibleSubstitutionModel.h\<close>):
  a model on words whose positions each carry a reversible model.  The header holds
  the members (lines 76--93) and the generator the class documents (lines 51--74); the
  bodies of \<open>Build\<close>, \<open>updateMatrices\<close> and the constructors are not in the sources.
  A word is the list of its letters, one per position; the words of an alphabet of
  sizes \<open>ns\<close> are enumerated with the first position most significant.  The lemmas show
  that the documented generator is a generator (its rows sum to zero), that it is
  reversible for the product of the positions' equilibrium frequencies, and that it
  makes one substitution per unit of time at equilibrium when the rates sum to one.
\<close>

section \<open>The members\<close>

text \<open>
  \<open>new_alphabet_\<close>, \<open>_VAbsRevMod\<close> (the models of the positions), \<open>_VnestedPrefix\<close>
  (their namespaces), \<open>_rate\<close> (one rate per position) and the matrix \<open>_p\<close>.
\<close>

record 'm word_model =
  new_alphabet :: bool
  VAbsRevMod :: "'m list"
  VnestedPrefix :: "string list"
  rate :: "real list"
  p_mat :: emat

section \<open>Words and the word generator\<close>

text \<open>The words over positions with \<open>ns ! i\<close> letters, first position most significant.\<close>

fun words :: "nat list \<Rightarrow> nat list list" where
  "words [] = [[]]"
| "words (n # ns) = concat (map (\<lambda>a. map (Cons a) (words ns)) [0..<n])"

text \<open>
  The documented generator (lines 60--68): a change of one letter, at position
  \<open>i\<close>, has rate \<open>\<rho>_i Q\<^sup>(\<^sup>i\<^sup>)\<close>; a change of two or more letters has rate 0;
  the diagonal is the sum of the positions' diagonals weighted by the rates.
\<close>

definition word_Q :: "emat list \<Rightarrow> real list \<Rightarrow> nat list \<Rightarrow> nat list \<Rightarrow> real" where
  "word_Q qs rho u v =
     (if u = v then (\<Sum>i<length qs. rho ! i * eget (qs ! i) (u ! i) (u ! i))
      else (case filter (\<lambda>i. u ! i \<noteq> v ! i) [0..<length qs] of
              [i] \<Rightarrow> rho ! i * eget (qs ! i) (u ! i) (v ! i)
            | _ \<Rightarrow> 0))"

text \<open>The generator of a word model, from the generators of its positions' models.\<close>

definition word_generator :: "('m \<Rightarrow> emat) \<Rightarrow> 'm word_model \<Rightarrow> nat list \<Rightarrow> nat list \<Rightarrow> real" where
  "word_generator gen wm = word_Q (map gen (VAbsRevMod wm)) (rate wm)"

text \<open>The number of states of the word alphabet: the product of the positions' sizes.\<close>

definition getNumberOfStates :: "('m \<Rightarrow> nat) \<Rightarrow> 'm word_model \<Rightarrow> nat" where
  "getNumberOfStates nstates wm = prod_list (map nstates (VAbsRevMod wm))"

text \<open>The product frequency of a word, from the positions' frequencies.\<close>

definition word_freq :: "vec list \<Rightarrow> nat list \<Rightarrow> real" where
  "word_freq pis u = prod_list (map2 (\<lambda>f a. f a) pis u)"

section \<open>The word generator position by position\<close>

lemma filter_upt_Suc_Cons:
  "filter (\<lambda>i. (a # u) ! i \<noteq> (b # v) ! i) [0..<Suc n] =
     (if a \<noteq> b then [0] else []) @ map Suc (filter (\<lambda>i. u ! i \<noteq> v ! i) [0..<n])"
proof -
  have "[0..<Suc n] = 0 # map Suc [0..<n]" by (simp add: map_Suc_upt upt_conv_Cons del: upt_Suc)
  then show ?thesis by (simp add: filter_map o_def)
qed

lemma filter_diff_Nil:
  "length u = n \<Longrightarrow> length v = n \<Longrightarrow> filter (\<lambda>i. u ! i \<noteq> v ! i) [0..<n] = [] \<longleftrightarrow> u = v"
  by (auto simp: filter_empty_conv intro: nth_equalityI)

lemma word_Q_Nil [simp]: "word_Q [] rho [] [] = 0"
  by (simp add: word_Q_def)

lemma case_map_Suc:
  "(case map Suc xs of [i] \<Rightarrow> f i | _ \<Rightarrow> 0) = (case xs of [i] \<Rightarrow> f (Suc i) | _ \<Rightarrow> (0::real))"
  by (cases xs rule: remdups_adj.cases) auto

lemma word_Q_Cons:
  assumes "length u = length qs" and "length v = length qs"
  shows "word_Q (q # qs) (r # rho) (a # u) (b # v) =
    (if a = b then word_Q qs rho u v else 0) + (if u = v then r * eget q a b else 0)"
proof -
  let ?F = "filter (\<lambda>i. u ! i \<noteq> v ! i) [0..<length qs]"
  have F: "filter (\<lambda>i. (a # u) ! i \<noteq> (b # v) ! i) [0..<length (q # qs)] =
      (if a \<noteq> b then [0] else []) @ map Suc ?F"
    by (simp only: length_Cons filter_upt_Suc_Cons)
  have nil: "?F = [] \<longleftrightarrow> u = v" by (rule filter_diff_Nil[OF assms])
  show ?thesis
  proof (cases "a = b")
    case True
    show ?thesis
    proof (cases "u = v")
      case True
      with \<open>a = b\<close> show ?thesis
        by (simp add: word_Q_def sum.lessThan_Suc_shift del: sum.lessThan_Suc)
    next
      case False
      with \<open>a = b\<close> show ?thesis
        unfolding word_Q_def F by (cases ?F rule: remdups_adj.cases) (simp_all add: case_map_Suc)
    qed
  next
    case False
    then show ?thesis
      unfolding word_Q_def F using nil by (cases ?F) auto
  qed
qed

lemma word_freq_Cons [simp]: "word_freq (f # pis) (a # u) = f a * word_freq pis u"
  by (simp add: word_freq_def)

lemma word_freq_Nil [simp]: "word_freq [] [] = 1"
  by (simp add: word_freq_def)

section \<open>The words\<close>

lemma set_words_Cons: "set (words (n # ns)) = (\<lambda>(a, u). a # u) ` ({..<n} \<times> set (words ns))"
  by auto

lemma words_length: "u \<in> set (words ns) \<Longrightarrow> length u = length ns"
  by (induction ns arbitrary: u) auto

lemma words_ConsE:
  assumes "u \<in> set (words (n # ns))"
  obtains a u' where "u = a # u'" and "a < n" and "u' \<in> set (words ns)"
  using assms by auto

lemma length_words: "length (words ns) = prod_list ns"
  by (induction ns) (simp_all add: length_concat o_def sum_list_triv)

lemma sum_words_Cons:
  "(\<Sum>u\<in>set (words (n # ns)). f u) = (\<Sum>a<n. \<Sum>u\<in>set (words ns). f (a # u))"
proof -
  have inj: "inj_on (\<lambda>(a, u). a # u) ({..<n} \<times> set (words ns))" by (auto simp: inj_on_def)
  have "(\<Sum>u\<in>set (words (n # ns)). f u) = (\<Sum>(a, u)\<in>{..<n} \<times> set (words ns). f (a # u))"
    unfolding set_words_Cons sum.reindex[OF inj] by (simp add: case_prod_beta)
  also have "\<dots> = (\<Sum>a<n. \<Sum>u\<in>set (words ns). f (a # u))"
    by (rule sum.cartesian_product[symmetric])
  finally show ?thesis .
qed

lemma sum_words_freq:
  assumes "length pis = length ns" and "\<forall>i<length ns. (\<Sum>a<ns ! i. (pis ! i) a) = 1"
  shows "(\<Sum>u\<in>set (words ns). word_freq pis u) = 1"
  using assms
proof (induction ns arbitrary: pis)
  case Nil
  then show ?case by simp
next
  case (Cons n ns)
  then obtain f pis' where pis: "pis = f # pis'" by (cases pis) auto
  have ih: "(\<Sum>u\<in>set (words ns). word_freq pis' u) = 1"
    using Cons.IH[of pis'] Cons.prems pis by force
  have "(\<Sum>a<n. f a) = 1" using Cons.prems(2) pis by force
  then show ?case
    by (simp add: pis sum_words_Cons ih sum_distrib_left[symmetric] sum_distrib_right[symmetric] del: words.simps)
qed

lemma word_Q_Cons_words:
  assumes "length ns = length qs" and "u \<in> set (words ns)" and "v \<in> set (words ns)"
  shows "word_Q (q # qs) (r # rho) (a # u) (b # v) =
    (if a = b then word_Q qs rho u v else 0) + (if u = v then r * eget q a b else 0)"
  using assms words_length by (intro word_Q_Cons) auto

section \<open>The word generator is a generator\<close>

lemma word_Q_rows_zero:
  assumes "length ns = length qs" and "length rho = length qs"
    and "\<forall>i<length qs. \<forall>a<ns ! i. (\<Sum>b<ns ! i. eget (qs ! i) a b) = 0"
    and "u \<in> set (words ns)"
  shows "(\<Sum>v\<in>set (words ns). word_Q qs rho u v) = 0"
  using assms
proof (induction ns arbitrary: qs rho u)
  case Nil
  then show ?case by simp
next
  case (Cons n ns)
  obtain q qs' r rho' where qs: "qs = q # qs'" and rho: "rho = r # rho'"
    using Cons.prems(1,2) by (cases qs; cases rho) auto
  obtain a u' where u: "u = a # u'" and a: "a < n" and u': "u' \<in> set (words ns)"
    using Cons.prems(4) by (rule words_ConsE)
  have len: "length ns = length qs'" using Cons.prems(1) qs by simp
  have ih: "(\<Sum>v\<in>set (words ns). word_Q qs' rho' u' v) = 0"
    using Cons.IH[of qs' rho' u'] Cons.prems(2,3) len u' qs rho by force
  have row: "(\<Sum>b<n. eget q a b) = 0" using Cons.prems(3) a qs by force
  have "(\<Sum>v\<in>set (words (n # ns)). word_Q qs rho u v) =
      (\<Sum>b<n. \<Sum>v\<in>set (words ns). (if a = b then word_Q qs' rho' u' v else 0) + (if u' = v then r * eget q a b else 0))"
    unfolding sum_words_Cons qs rho u using word_Q_Cons_words[OF len u'] by simp
  also have "\<dots> = (\<Sum>b<n. (if a = b then (\<Sum>v\<in>set (words ns). word_Q qs' rho' u' v) else 0) + r * eget q a b)"
    using u' by (intro sum.cong refl) (simp add: sum.distrib)
  also have "\<dots> = (\<Sum>v\<in>set (words ns). word_Q qs' rho' u' v) + r * (\<Sum>b<n. eget q a b)"
    using a by (simp add: sum.distrib sum_distrib_left)
  finally show ?case using ih row by simp
qed

section \<open>Reversibility and normalisation\<close>

lemma word_Q_detailed_balance:
  assumes "length pis = length ns" and "length ns = length qs" and "length rho = length qs"
    and "u \<in> set (words ns)" and "v \<in> set (words ns)"
    and "\<forall>i<length ns. \<forall>a<ns ! i. \<forall>b<ns ! i.
           (pis ! i) a * eget (qs ! i) a b = (pis ! i) b * eget (qs ! i) b a"
  shows "word_freq pis u * word_Q qs rho u v = word_freq pis v * word_Q qs rho v u"
  using assms
proof (induction ns arbitrary: pis qs rho u v)
  case Nil
  then show ?case by simp
next
  case (Cons n ns)
  obtain f pis' q qs' r rho' where pis: "pis = f # pis'" and qs: "qs = q # qs'" and rho: "rho = r # rho'"
    using Cons.prems(1-3) by (cases pis; cases qs; cases rho) auto
  obtain a u' where u: "u = a # u'" and a: "a < n" and u': "u' \<in> set (words ns)"
    using Cons.prems(4) by (rule words_ConsE)
  obtain b v' where v: "v = b # v'" and b: "b < n" and v': "v' \<in> set (words ns)"
    using Cons.prems(5) by (rule words_ConsE)
  have l: "length pis' = length ns" "length ns = length qs'" "length rho' = length qs'"
    using Cons.prems(1-3) pis qs rho by simp_all
  have "\<forall>i<length ns. \<forall>a<ns ! i. \<forall>b<ns ! i.
      (pis' ! i) a * eget (qs' ! i) a b = (pis' ! i) b * eget (qs' ! i) b a"
  proof (intro allI impI)
    fix i a b assume "i < length ns" "a < ns ! i" "b < ns ! i"
    then show "(pis' ! i) a * eget (qs' ! i) a b = (pis' ! i) b * eget (qs' ! i) b a"
      using Cons.prems(6)[rule_format, of "Suc i" a b] pis qs by simp
  qed
  note ih = Cons.IH[OF l u' v' this]
  have bal: "f a * eget q a b = f b * eget q b a" using Cons.prems(6) pis qs a b by force
  show ?case
    unfolding pis qs rho u v word_freq_Cons word_Q_Cons_words[OF l(2) u' v'] word_Q_Cons_words[OF l(2) v' u']
    using ih bal by (auto simp: algebra_simps)
qed

lemma word_Q_diag_Cons:
  "length u = length qs \<Longrightarrow> word_Q (q # qs) (r # rho) (a # u) (a # u) = word_Q qs rho u u + r * eget q a a"
  by (simp add: word_Q_Cons)

lemma word_Q_flow:
  assumes "length pis = length ns" and "length ns = length qs" and "length rho = length qs"
    and "\<forall>i<length ns. (\<Sum>a<ns ! i. (pis ! i) a) = 1"
  shows "(\<Sum>u\<in>set (words ns). word_freq pis u * word_Q qs rho u u) =
    (\<Sum>i<length qs. rho ! i * (\<Sum>a<ns ! i. (pis ! i) a * eget (qs ! i) a a))"
  using assms
proof (induction ns arbitrary: pis qs rho)
  case Nil
  then show ?case by simp
next
  case (Cons n ns)
  obtain f pis' q qs' r rho' where pis: "pis = f # pis'" and qs: "qs = q # qs'" and rho: "rho = r # rho'"
    using Cons.prems(1-3) by (cases pis; cases qs; cases rho) auto
  have l: "length pis' = length ns" "length ns = length qs'" "length rho' = length qs'"
    using Cons.prems(1-3) pis qs rho by simp_all
  have ih: "(\<Sum>u\<in>set (words ns). word_freq pis' u * word_Q qs' rho' u u) =
      (\<Sum>i<length qs'. rho' ! i * (\<Sum>a<ns ! i. (pis' ! i) a * eget (qs' ! i) a a))"
    using Cons.IH[OF l] Cons.prems(4) pis by force
  have s1: "(\<Sum>a<n. f a) = 1" and s2: "(\<Sum>u\<in>set (words ns). word_freq pis' u) = 1"
    using Cons.prems(4) pis sum_words_freq[OF l(1)] by force+
  have "(\<Sum>u\<in>set (words (n # ns)). word_freq pis u * word_Q qs rho u u) =
      (\<Sum>a<n. \<Sum>u\<in>set (words ns). f a * word_freq pis' u * (word_Q qs' rho' u u + r * eget q a a))"
    unfolding sum_words_Cons pis qs rho
    using l(2) words_length by (intro sum.cong refl) (simp add: word_Q_diag_Cons)
  also have "\<dots> = (\<Sum>a<n. f a * (\<Sum>u\<in>set (words ns). word_freq pis' u * word_Q qs' rho' u u) +
      r * (f a * eget q a a) * (\<Sum>u\<in>set (words ns). word_freq pis' u))"
    by (intro sum.cong refl) (simp add: algebra_simps sum.distrib sum_distrib_left)
  also have "\<dots> = (\<Sum>a<n. f a) * (\<Sum>u\<in>set (words ns). word_freq pis' u * word_Q qs' rho' u u) +
      r * (\<Sum>a<n. f a * eget q a a) * (\<Sum>u\<in>set (words ns). word_freq pis' u)"
    by (simp add: sum.distrib flip: sum_distrib_right sum_distrib_left)
  finally show ?case
    using ih s1 s2 by (simp add: qs rho pis sum.lessThan_Suc_shift del: sum.lessThan_Suc)
qed

lemma getNumberOfStates_words:
  "getNumberOfStates nstates wm = length (words (map nstates (VAbsRevMod wm)))"
  by (simp add: getNumberOfStates_def length_words)

section \<open>An example: a word of two binary positions\<close>

text \<open>
  Two positions carrying the same symmetric two-state model, with rates 1/2 each and
  uniform frequencies.
\<close>

definition ex_K :: emat where
  "ex_K = emat_of_rows [[-1, 1], [1, -1]]"

definition ex_word :: "unit word_model" where
  "ex_word = \<lparr>new_alphabet = True, VAbsRevMod = [(), ()], VnestedPrefix = [''K80_1.'', ''K80_2.''],
     rate = [1/2, 1/2], p_mat = mk_emat 0 0 (\<lambda>_ _. 0)\<rparr>"

lemma ex_K_rows: "\<forall>i<length [2, 2::nat]. \<forall>a<[2, 2::nat] ! i. (\<Sum>b<[2, 2::nat] ! i. eget ((\<lambda>_. ex_K) (VAbsRevMod ex_word ! i)) a b) = 0"
  by (simp add: ex_K_def ex_word_def emat_of_rows_def mk_emat_def less_Suc_eq numeral_2_eq_2)

text \<open>
  C15: the documented generator of a word model is a generator: when every position's
  generator has zero row sums, every row of the word generator sums to zero.
\<close>

theorem word_generator_rows_sum_zero:
  assumes "length ns = length (VAbsRevMod wm)" and "length (rate wm) = length (VAbsRevMod wm)"
    and "\<forall>i<length ns. \<forall>a<ns ! i. (\<Sum>b<ns ! i. eget (gen (VAbsRevMod wm ! i)) a b) = 0"
    and "u \<in> set (words ns)"
  shows "(\<Sum>v\<in>set (words ns). word_generator gen wm u v) = 0"
  unfolding word_generator_def using assms by (intro word_Q_rows_zero) auto

theorem word_generator_rows_sum_zero_witness:
  "[0, 1] \<in> set (words [2, 2]) \<and> (\<Sum>v\<in>set (words [2, 2]). word_generator (\<lambda>_. ex_K) ex_word [0, 1] v) = 0"
proof -
  have u: "[0, 1] \<in> set (words [2, 2])" by (simp add: numeral_2_eq_2)
  have l: "length [2, 2::nat] = length (VAbsRevMod ex_word)" "length (rate ex_word) = length (VAbsRevMod ex_word)"
    by (simp_all add: ex_word_def)
  show ?thesis using word_generator_rows_sum_zero[OF l ex_K_rows u] u by simp
qed

lemma ex_word_generator_values:
  "word_generator (\<lambda>_. ex_K) ex_word [0, 1] [0, 1] = -1"
  "word_generator (\<lambda>_. ex_K) ex_word [0, 1] [1, 1] = 1/2"
  "word_generator (\<lambda>_. ex_K) ex_word [0, 1] [1, 0] = 0"
  by (simp_all add: word_generator_def word_Q_def ex_word_def ex_K_def emat_of_rows_def mk_emat_def
      numeral_2_eq_2)

lemma ex_K_balance:
  "\<forall>i<length [2, 2::nat]. \<forall>a<[2, 2::nat] ! i. \<forall>b<[2, 2::nat] ! i.
     ([\<lambda>_. 1/2, \<lambda>_. 1/2] ! i) a * eget ((\<lambda>_. ex_K) (VAbsRevMod ex_word ! i)) a b =
     ([\<lambda>_. 1/2, \<lambda>_. 1/2] ! i) b * eget ((\<lambda>_. ex_K) (VAbsRevMod ex_word ! i)) b a"
  by (simp add: ex_K_def ex_word_def emat_of_rows_def mk_emat_def less_Suc_eq numeral_2_eq_2)

text \<open>
  C16: the word model is reversible: when every position's generator satisfies detailed
  balance for its frequencies, the word generator satisfies detailed balance for the
  product of the positions' frequencies.
\<close>

theorem word_generator_reversible:
  assumes "length pis = length ns" and "length ns = length (VAbsRevMod wm)"
    and "length (rate wm) = length (VAbsRevMod wm)"
    and "u \<in> set (words ns)" and "v \<in> set (words ns)"
    and "\<forall>i<length ns. \<forall>a<ns ! i. \<forall>b<ns ! i.
           (pis ! i) a * eget (gen (VAbsRevMod wm ! i)) a b = (pis ! i) b * eget (gen (VAbsRevMod wm ! i)) b a"
  shows "word_freq pis u * word_generator gen wm u v = word_freq pis v * word_generator gen wm v u"
  unfolding word_generator_def using assms by (intro word_Q_detailed_balance[where ns = ns]) auto

theorem word_generator_reversible_witness:
  "[0, 1] \<in> set (words [2, 2]) \<and> [1, 1] \<in> set (words [2, 2]) \<and>
   word_freq [\<lambda>_. 1/2, \<lambda>_. 1/2] [0, 1] * word_generator (\<lambda>_. ex_K) ex_word [0, 1] [1, 1] =
   word_freq [\<lambda>_. 1/2, \<lambda>_. 1/2] [1, 1] * word_generator (\<lambda>_. ex_K) ex_word [1, 1] [0, 1]"
proof -
  have u: "[0, 1] \<in> set (words [2, 2])" and v: "[1, 1] \<in> set (words [2, 2])" by (simp_all add: numeral_2_eq_2)
  have l: "length [\<lambda>_. 1/2, \<lambda>_. 1/2 :: real] = length [2, 2::nat]" "length [2, 2::nat] = length (VAbsRevMod ex_word)"
    "length (rate ex_word) = length (VAbsRevMod ex_word)"
    by (simp_all add: ex_word_def)
  show ?thesis using word_generator_reversible[OF l u v ex_K_balance] u v by simp
qed

lemma ex_K_freq:
  "\<forall>i<length [2, 2::nat]. (\<Sum>a<[2, 2::nat] ! i. ([\<lambda>_. 1/2, \<lambda>_. 1/2] ! i) a) = (1::real)"
  "\<forall>i<length [2, 2::nat]. (\<Sum>a<[2, 2::nat] ! i.
     ([\<lambda>_. 1/2, \<lambda>_. 1/2] ! i) a * eget ((\<lambda>_. ex_K) (VAbsRevMod ex_word ! i)) a a) = -1"
  by (simp_all add: ex_K_def ex_word_def emat_of_rows_def mk_emat_def less_Suc_eq numeral_2_eq_2)

text \<open>
  C17: one substitution per word per unit of time at equilibrium (lines 60--61): when
  every position's model makes one substitution per unit of time at its equilibrium
  and the rates sum to one, the expected rate of leaving a word at the product
  equilibrium is one.
\<close>

theorem word_generator_normalised:
  assumes "length pis = length ns" and "length ns = length (VAbsRevMod wm)"
    and "length (rate wm) = length (VAbsRevMod wm)"
    and "\<forall>i<length ns. (\<Sum>a<ns ! i. (pis ! i) a) = 1"
    and "\<forall>i<length ns. (\<Sum>a<ns ! i. (pis ! i) a * eget (gen (VAbsRevMod wm ! i)) a a) = -1"
    and "sum_list (rate wm) = 1"
  shows "(\<Sum>u\<in>set (words ns). word_freq pis u * word_generator gen wm u u) = -1"
proof -
  have "(\<Sum>u\<in>set (words ns). word_freq pis u * word_generator gen wm u u) =
      (\<Sum>i<length (VAbsRevMod wm). rate wm ! i * (\<Sum>a<ns ! i. (pis ! i) a * eget (gen (VAbsRevMod wm ! i)) a a))"
    unfolding word_generator_def using word_Q_flow[OF assms(1) _ _ assms(4)] assms(2,3) by simp
  also have "\<dots> = - (\<Sum>i<length (rate wm). rate wm ! i)"
    using assms(2,3,5) by (simp add: sum_negf)
  also have "\<dots> = -1"
    using assms(6) by (simp add: sum_list_sum_nth atLeast0LessThan)
  finally show ?thesis .
qed

theorem word_generator_normalised_witness:
  "sum_list (rate ex_word) = 1 \<and>
   (\<Sum>u\<in>set (words [2, 2]). word_freq [\<lambda>_. 1/2, \<lambda>_. 1/2] u * word_generator (\<lambda>_. ex_K) ex_word u u) = -1"
proof -
  have l: "length [\<lambda>_. 1/2, \<lambda>_. 1/2 :: real] = length [2, 2::nat]" "length [2, 2::nat] = length (VAbsRevMod ex_word)"
    "length (rate ex_word) = length (VAbsRevMod ex_word)" and r: "sum_list (rate ex_word) = 1"
    by (simp_all add: ex_word_def)
  show ?thesis using word_generator_normalised[OF l ex_K_freq r] r by simp
qed

end
