(* ===== verification/SubstitutionProcess.thy ===== *)
theory SubstitutionProcess
  imports Prelude
begin

text \<open>
  \<open>AbstractSubstitutionProcess\<close>
  (\<open>src/src/Bpp/Phyl/NewLikelihood/AbstractSubstitutionProcess.h\<close>): the members of the
  partial implementation of a substitution process (lines 57--78) and its three inline
  accessors (lines 88--92). The parametrizable tree is a type parameter with its
  \<open>getTree\<close> passed as an argument; \<open>std::map<int, size_t>\<close> is a map from node ids to
  indices. The constructors, the assignment, \<open>getNodeIndex_\<close>, \<open>getModelIndex_\<close> and
  \<open>fireParameterChanged\<close> are declared without a body in the sources and are not
  modelled.
\<close>

record 'pt substitution_process =
  pTree :: 'pt
  nodeIndex :: "int \<rightharpoonup> nat"
  nbClasses :: nat
  probabilities :: "emat list"
  probabilitiesD1 :: "emat list"
  probabilitiesD2 :: "emat list"
  computeProbability :: "bool list"
  computeProbabilityD1 :: "bool list"
  computeProbabilityD2 :: "bool list"

definition getTree :: "('pt \<Rightarrow> 't) \<Rightarrow> 'pt substitution_process \<Rightarrow> 't" where
  "getTree pt_getTree asp = pt_getTree (pTree asp)"

definition getParametrizableTree :: "'pt substitution_process \<Rightarrow> 'pt" where
  "getParametrizableTree asp = pTree asp"

definition getNumberOfClasses :: "'pt substitution_process \<Rightarrow> nat" where
  "getNumberOfClasses asp = nbClasses asp"

end
