(* ===== verification/Spec2Isabelle.thy ===== *)
theory Spec2Isabelle
  imports Sharing HmmContracts HmmMembers Invalidation GY94 WordModel SubstitutionProcess
begin

text \<open>
  Verification development of the likelihood dataflow core of Bio++ (bpp-phyl), as
  sampled in \<open>src/\<close>.

  \<^bold>\<open>The program.\<close>  Likelihoods are computed by a dataflow graph of nodes held by a
  \<open>Context\<close> that shares structurally equal nodes (\<open>cachedAs\<close>).  Node classes of
  \<open>src/src/Bpp/Phyl/NewLikelihood/PhyloLikelihoods/HmmLikelihoodComputation.h\<close> build the
  forward recursion of a hidden Markov chain (\<open>ForwardHmmLikelihood_DF\<close>, its first- and
  second-order derivatives \<open>ForwardHmmDLikelihood_DF\<close>, \<open>ForwardHmmD2Likelihood_DF\<close>, the
  owned matrix node \<open>CondLikelihood\<close>) and the backward recursion
  (\<open>BackwardHmmLikelihood_DF\<close>).  \<open>src/src/Bpp/NewPhyl/HomogeneousLikelihoodExample.h\<close>
  builds the graph of a tree likelihood.  \<open>GY94.cpp\<close>/\<open>GY94.h\<close> is a codon model
  that keeps a nested model in step with its parameters,
  \<open>AbstractWordReversibleSubstitutionModel.h\<close> a model on words built from per-position
  models, and \<open>AbstractSubstitutionProcess.h\<close> the members of a substitution process.

  \<^bold>\<open>Theories.\<close>
  \<^item> \<open>Prelude\<close>: Eigen matrices as the record \<open>emat\<close>, dimensions, the linear algebra
    of the recursions, the error combinator \<open>ebind\<close>, shared lemmas.
  \<^item> \<open>Dataflow\<close> (from the specification, \<open>DataFlow.h\<close> is not in \<open>src/\<close>): nodes in
    an arena (\<open>ctx\<close>: heap of nodes, list of registered addresses), the construction
    monad \<open>'a cm\<close> (state passing with \<open>error + 'a\<close> results), \<open>cachedAs\<close>, the
    dependency checks, the invariant \<open>wf_context\<close> (acyclic, registered signatures
    distinct), \<open>ctx_ext\<close> (old nodes unchanged but for the owned reference) and the
    Hoare judgement \<open>cvalid\<close> in weakest-precondition form.
  \<^item> \<open>HmmNodes\<close>: \<open>create\<close>, \<open>build\<close>, \<open>recreate\<close>, \<open>derive\<close>, the accessors and
    \<open>compareAdditionalArguments\<close> of the five HMM classes, one definition per method,
    with the checks in the order of the source; lemmas: every constructor preserves
    \<open>wf_context\<close> and extends the context.
  \<^item> \<open>HmmCompute\<close> (from the specification, the \<open>compute()\<close> bodies are in the \<open>.cpp\<close>):
    the forward, backward and first-order recursions, and reference definitions (the
    unnormalised \<open>alpha\<close>, \<open>beta\<close>, the likelihood by enumeration of all hidden paths).
  \<^item> \<open>Evaluation\<close>: the value of every node in dependency order (\<open>eval_heap\<close>), the
    value of each created HMM node, and the claims that the created nodes compute the
    documented quantities.
  \<^item> \<open>HmmContracts\<close>: the construction contracts of the forward and backward nodes:
    when \<open>create\<close> succeeds, the exact \<open>BadSizeException\<close> of each extent check, the
    bounds of the created node's values.
  \<^item> \<open>HmmMembers\<close>: the private members of the four HMM classes as records
    (\<open>condLik_\<close>, \<open>parCondLik_\<close>, \<open>dParCondLik_\<close>, \<open>targetDimension_\<close>), read off a
    node of the context, and the accessors \<open>getParCondLik\<close>, \<open>getParDCondLik\<close>,
    \<open>CondLikelihood::getCondLikelihood\<close>.
  \<^item> \<open>Sharing\<close>: structural sharing of repeated requests through the cache.
  \<^item> \<open>TreeBuilder\<close>: \<open>HomogeneousLikelihoodNodesHelper\<close> and
    \<open>makeHomogeneousLikelihoodNodes\<close> as a mutual recursion over the tree.
  \<^item> \<open>TreeEval\<close>: the values of the graph the builder creates, against Felsenstein's
    pruning recursion \<open>felsenstein\<close> as the abstract specification; the configured
    model's node holds its eigendecomposition (\<open>ModelArg\<close>) and computes
    \<open>P(t) = V exp(D t) V\<^sup>-\<^sup>1\<close> (\<open>Evaluation.eigen_transition\<close>).
  \<^item> \<open>Invalidation\<close> (from the specification): the cached value of each node
    (\<open>None\<close> for a dirty node), demand-driven memoised evaluation \<open>force\<close>
    (\<open>getTargetValue\<close>), \<open>NumericMutable::setValue\<close> marking the downstream cone dirty,
    and the states reachable by any sequence of requests and updates
    (\<open>df_reach\<close>, an inductive relation).
  \<^item> \<open>GY94\<close>: both versions of the codon model over a model of the bpp-core parameter
    lists (\<open>matchParametersValues\<close>, \<open>setNamespace\<close>).
  \<^item> \<open>WordModel\<close>, \<open>SubstitutionProcess\<close>: the members and the documented generator
    of the word model; the members and accessors of the substitution process.

  \<^bold>\<open>Lemma groups.\<close>  Invariants: every HMM constructor and the tree builder keep
  the context well-formed (acyclic, registered signatures distinct) and extend it, also
  when they throw.  Functional behaviour and equivalence with reference definitions:
  the created forward node's values multiply to the likelihood by enumeration of the
  hidden paths, its matrix and the backward matrix hold the documented conditional
  probabilities, the first-order node holds derivatives, and the forward matrix entries
  are probabilities.  Errors: a forward node is created exactly when its dependencies
  have the documented types and extents, each mismatch throws its own exception with
  the source's reported extents.  Refinement: the node the tree builder returns
  evaluates to the negative log-likelihood of Felsenstein's recursion over the tree
  (\<open>TreeEval\<close>), by a mutual induction that follows the builder's two recursive
  methods; lazy evaluation with cached values and invalidation computes the values of
  the full evaluation in every reachable state (\<open>Invalidation\<close>), and the cone
  \<open>setValue\<close> marks is the set of nodes that depend on the changed one
  (\<open>Invalidation.cone_flags_depends_on\<close>).  Sharing: a repeated request returns the
  registered node; for the forward class it also registers a new \<open>CondLikelihood\<close>
  node built on the dropped copy (\<open>Sharing.forward_create_again_grows_cache\<close>).  GY94: the nested model is synchronised by \<open>updateMatrices\<close> but
  not after assignment, and the copy shares the original's distance object.  Word
  model: the documented generator is a normalised reversible generator.

  \<^bold>\<open>Bounds and fuel.\<close>  No fuel is used: the recursions are structural or have a
  measure (\<open>bwd\<close>, \<open>beta\<close>: the distance to the last site; \<open>force\<close>: the node
  index, then the remaining dependencies).  Examples use two hidden states and three
  sites, and a cherry of two leaves with a two-state model.

  \<^bold>\<open>Not modelled.\<close>  The \<open>compute()\<close> of \<open>ForwardHmmD2Likelihood_DF\<close> (the
  specification gives no formula).  The dataflow library classes the tree builder
  creates are modelled from the specification (4.2), not from code, as \<open>DataFlow.h\<close>
  and the library are not in \<open>src/\<close>; their \<open>create\<close> is a null check and
  \<open>cachedAs\<close> only, without the dependency-count and type checks the specification
  (4.1) gives every \<open>create\<close>.  The extent checks of the HMM constructors read the
  extents the dependency nodes declare, not those of their evaluated values.  Eigen
  itself.  The methods of \<open>AbstractWordReversibleSubstitutionModel\<close> and
  \<open>AbstractSubstitutionProcess\<close> declared without bodies in \<open>src/\<close> (among them
  \<open>getNodeIndex_\<close>, \<open>getModelIndex_\<close>, \<open>Build\<close>, \<open>updateMatrices\<close>).
\<close>

end
